theory Spec2Isabelle
  imports Complex_Main
begin

section \<open>Configuration (config.py)\<close>

definition TOP_N_RISKS :: nat where
  "TOP_N_RISKS = 3"

definition MAX_CANDIDATE_RISKS :: nat where
  "MAX_CANDIDATE_RISKS = 30"

section \<open>Python values\<close>

text \<open>
  A Python \<open>str\<close> that the program writes or that a reply holds is a list of characters,
  each standing for one code point below 256, so \<open>length\<close> counts what Python's \<open>len\<close>
  counts. The keywords handed to the search and the parameter values of the requests are
  lists of code points without that bound (see \<open>code_points\<close> below), so that the search
  and its sanitizer are modelled on every \<open>str\<close>.

  A Python \<open>float\<close> is the real number it denotes, an infinity or NaN. A float of a reply
  is the number the decoder made of it; the conversion of an \<open>int\<close> rounds to binary64 (see
  \<open>round_binary64\<close> below).
\<close>

datatype pyfloat = Finite real | PosInf | NegInf | NaN

text \<open>
  The values \<open>json.loads\<close> and \<open>response.json()\<close> produce. A \<open>dict\<close> is the list of its
  items in insertion order; the decoder leaves no key twice in it.
\<close>

datatype json =
    JNull
  | JBool bool
  | JInt int
  | JFloat pyfloat
  | JStr string
  | JArr "json list"
  | JObj "(string \<times> json) list"

subsection \<open>Exceptions\<close>

datatype exn_class =
    ValueError | TypeError | KeyError | AttributeError | OverflowError
  | ValidationError | RequestException | Exception | OtherException

text \<open>The operation of the interpreter or of a library that failed on an operand.\<close>

datatype pyop =
    OpContains | OpSubscript | OpGet | OpItems | OpIter | OpLen | OpFloat | OpJoin
  | OpHash | OpValidate

text \<open>
  \<open>Raised c m\<close> is an exception of class \<open>c\<close> whose \<open>str\<close> is \<open>m\<close>: the source raises it
  with that message, or a service does. \<open>Fault c op v\<close> is raised by the interpreter or by
  a library when operation \<open>op\<close> fails on the operand \<open>v\<close>. Exceptions outside
  \<open>Exception\<close> (\<open>KeyboardInterrupt\<close>, \<open>SystemExit\<close>) are not modelled.
\<close>

datatype exn = Raised exn_class string | Fault exn_class pyop json

definition and_then :: "exn + 'a \<Rightarrow> ('a \<Rightarrow> exn + 'b) \<Rightarrow> exn + 'b" where
  "and_then m f = (case m of Inl e \<Rightarrow> Inl e | Inr x \<Rightarrow> f x)"

subsection \<open>Built-in operations on decoded values\<close>

fun py_truthy :: "json \<Rightarrow> bool" where
  "py_truthy JNull = False"
| "py_truthy (JBool b) = b"
| "py_truthy (JInt i) = (i \<noteq> 0)"
| "py_truthy (JFloat f) = (f \<noteq> Finite 0)"
| "py_truthy (JStr s) = (s \<noteq> [])"
| "py_truthy (JArr xs) = (xs \<noteq> [])"
| "py_truthy (JObj kvs) = (kvs \<noteq> [])"

text \<open>\<open>d.get(k)\<close> and \<open>d.get(k, default)\<close> on a \<open>dict\<close>.\<close>

definition dict_get :: "(string \<times> json) list \<Rightarrow> string \<Rightarrow> json \<Rightarrow> json" where
  "dict_get d k dflt = (case map_of d k of None \<Rightarrow> dflt | Some v \<Rightarrow> v)"

text \<open>\<open>v.get(k, default)\<close> on any decoded value: only a \<open>dict\<close> has the attribute.\<close>

fun py_get :: "json \<Rightarrow> string \<Rightarrow> json \<Rightarrow> exn + json" where
  "py_get (JObj d) k dflt = Inr (dict_get d k dflt)"
| "py_get v k dflt = Inl (Fault AttributeError OpGet v)"

text \<open>\<open>pat in s\<close> on two strings: \<open>pat\<close> occurs in \<open>s\<close> as a substring.\<close>

fun substring_in :: "string \<Rightarrow> string \<Rightarrow> bool" where
  "substring_in pat [] = (pat = [])"
| "substring_in pat (c # cs) = (take (length pat) (c # cs) = pat \<or> substring_in pat cs)"

text \<open>\<open>k in v\<close> for a string \<open>k\<close>.\<close>

fun py_contains :: "string \<Rightarrow> json \<Rightarrow> exn + bool" where
  "py_contains k (JObj d) = Inr (k \<in> set (map fst d))"
| "py_contains k (JArr xs) = Inr (JStr k \<in> set xs)"
| "py_contains k (JStr s) = Inr (substring_in k s)"
| "py_contains k v = Inl (Fault TypeError OpContains v)"

text \<open>\<open>v[k]\<close> for a string \<open>k\<close>: a \<open>dict\<close> looks the key up, nothing else takes a string.\<close>

fun py_getitem :: "json \<Rightarrow> string \<Rightarrow> exn + json" where
  "py_getitem (JObj d) k =
     (case map_of d k of None \<Rightarrow> Inl (Fault KeyError OpSubscript (JStr k)) | Some v \<Rightarrow> Inr v)"
| "py_getitem v k = Inl (Fault TypeError OpSubscript v)"

fun py_len :: "json \<Rightarrow> exn + nat" where
  "py_len (JArr xs) = Inr (length xs)"
| "py_len (JObj d) = Inr (length d)"
| "py_len (JStr s) = Inr (length s)"
| "py_len v = Inl (Fault TypeError OpLen v)"

text \<open>\<open>for x in v\<close>: the elements of a list, the keys of a dict, the characters of a string.\<close>

fun py_iter :: "json \<Rightarrow> exn + json list" where
  "py_iter (JArr xs) = Inr xs"
| "py_iter (JObj d) = Inr (map (\<lambda>kv. JStr (fst kv)) d)"
| "py_iter (JStr s) = Inr (map (\<lambda>c. JStr [c]) s)"
| "py_iter v = Inl (Fault TypeError OpIter v)"

text \<open>\<open>sep.join(parts)\<close> on strings.\<close>

fun join :: "string \<Rightarrow> string list \<Rightarrow> string" where
  "join sep [] = []"
| "join sep [p] = p"
| "join sep (p # q # ps) = p @ sep @ join sep (q # ps)"

text \<open>\<open>sep.join(xs)\<close> on a decoded list: the first item that is no \<open>str\<close> raises.\<close>

fun str_items :: "json list \<Rightarrow> exn + string list" where
  "str_items [] = Inr []"
| "str_items (JStr s # xs) = and_then (str_items xs) (\<lambda>ss. Inr (s # ss))"
| "str_items (v # xs) = Inl (Fault TypeError OpJoin v)"

text \<open>Decimal digits of a natural number, as \<open>str\<close> prints an \<open>int\<close> that is not negative.\<close>

definition digit_char :: "nat \<Rightarrow> char" where
  "digit_char d =
     (if d = 0 then CHR ''0'' else if d = 1 then CHR ''1'' else if d = 2 then CHR ''2''
      else if d = 3 then CHR ''3'' else if d = 4 then CHR ''4'' else if d = 5 then CHR ''5''
      else if d = 6 then CHR ''6'' else if d = 7 then CHR ''7'' else if d = 8 then CHR ''8''
      else CHR ''9'')"

fun str_nat :: "nat \<Rightarrow> string" where
  "str_nat n = (if n < 10 then [digit_char n] else str_nat (n div 10) @ [digit_char (n mod 10)])"

declare str_nat.simps [simp del]

section \<open>The environment of a run\<close>

text \<open>
  The prompt templates of prompts.py are fixed text around their arguments; a prompt is
  represented by the template and the arguments \<open>format\<close> puts into it.
\<close>

datatype prompt =
    KeywordExtractionPrompt string
  | RiskRankingPrompt string string

text \<open>
  A parameter value of a request is a \<open>str\<close> of any code points, held as the list of
  them; \<open>code_points\<close> gives those of a string of the model.
\<close>

definition code_points :: "string \<Rightarrow> nat list" where
  "code_points s = map of_char s"

text \<open>What the run asked of the outside: a generation request, or a GET with one parameter.\<close>

datatype event =
    Generate prompt
  | HttpGet string string "nat list"

text \<open>
  The generation service answers with text that \<open>json.loads\<close> decodes, with text that it
  rejects, or raises. The database service answers with a body that \<open>response.json()\<close>
  decodes, or raises (no connection, a timeout, an error status, a body that is no JSON).
\<close>

datatype llm_reply = LlmJson json | LlmNotJson | LlmRaises exn_class string

datatype http_reply = HttpJson json | HttpRaises exn_class string

text \<open>
  Everything the code depends on and does not define. The two services answer as a
  function of the requests made so far and of the current one, so a quantifier over
  environments covers every behaviour of theirs. \<open>str_of\<close> is \<open>str\<close> on a value that is no
  \<open>str\<close>; \<open>float_of_str\<close> is \<open>float\<close> on a \<open>str\<close>; \<open>coerce_str\<close> is what pydantic makes of a
  value that is no \<open>str\<close> in a field declared \<open>str\<close> (a string in the versions that
  convert numbers, nothing in those that reject them); \<open>fault_text\<close> is the message of an
  exception the interpreter or a library raises.
\<close>

record env =
  generate_content :: "event list \<Rightarrow> prompt \<Rightarrow> llm_reply"
  session_get :: "event list \<Rightarrow> string \<Rightarrow> string \<Rightarrow> nat list \<Rightarrow> http_reply"
  str_of :: "json \<Rightarrow> string"
  float_of_str :: "string \<Rightarrow> pyfloat option"
  coerce_str :: "json \<Rightarrow> string option"
  fault_text :: "exn_class \<Rightarrow> pyop \<Rightarrow> json \<Rightarrow> string"

definition py_str :: "env \<Rightarrow> json \<Rightarrow> string" where
  "py_str env v = (case v of JStr s \<Rightarrow> s | _ \<Rightarrow> str_of env v)"

definition str_exn :: "env \<Rightarrow> exn \<Rightarrow> string" where
  "str_exn env e = (case e of Raised c m \<Rightarrow> m | Fault c op v \<Rightarrow> fault_text env c op v)"

text \<open>
  \<open>float\<close> on an \<open>int\<close> gives the binary64 number nearest to it, a tie going to the even
  significand: with \<open>e\<close> the number of bits beyond 53, the magnitude loses its \<open>e\<close> low bits
  and the significand is rounded by them.
\<close>

fun bit_length :: "nat \<Rightarrow> nat" where
  "bit_length n = (if n = 0 then 0 else Suc (bit_length (n div 2)))"

declare bit_length.simps [simp del]

definition round_binary64 :: "int \<Rightarrow> real" where
  "round_binary64 i =
     (let n = nat \<bar>i\<bar>;
          e = bit_length n - 53;
          q = n div 2 ^ e;
          r = n mod 2 ^ e;
          m = (if 2 ^ e < 2 * r \<or> (2 * r = 2 ^ e \<and> odd q) then q + 1 else q)
      in if i < 0 then - real (m * 2 ^ e) else real (m * 2 ^ e))"

text \<open>
  \<open>float(v)\<close>. An \<open>int\<close> whose magnitude reaches \<open>2^1024 - 2^970\<close> rounds beyond the largest
  binary64 number and raises.
\<close>

definition py_float :: "env \<Rightarrow> json \<Rightarrow> exn + pyfloat" where
  "py_float env v =
     (case v of
        JFloat f \<Rightarrow> Inr f
      | JInt i \<Rightarrow>
          (if \<bar>i\<bar> < 2 ^ 1024 - 2 ^ 970 then Inr (Finite (round_binary64 i))
           else Inl (Fault OverflowError OpFloat v))
      | JBool b \<Rightarrow> Inr (Finite (if b then 1 else 0))
      | JStr s \<Rightarrow>
          (case float_of_str env s of
             Some f \<Rightarrow> Inr f
           | None \<Rightarrow> Inl (Fault ValueError OpFloat v))
      | _ \<Rightarrow> Inl (Fault TypeError OpFloat v))"

text \<open>A field that pydantic declares \<open>str\<close>.\<close>

definition str_field :: "env \<Rightarrow> json \<Rightarrow> exn + string" where
  "str_field env v =
     (case v of
        JStr s \<Rightarrow> Inr s
      | _ \<Rightarrow>
          (case coerce_str env v of
             Some s \<Rightarrow> Inr s
           | None \<Rightarrow> Inl (Fault ValidationError OpValidate v)))"

section \<open>Models (models.py)\<close>

record Control =
  control_id :: string
  control_title :: string
  control_description :: "string option"

record Risk =
  risk_id :: string
  risk_title :: string
  risk_description :: string

record RiskAssessment =
  risk_id :: string
  risk_title :: string
  risk_description :: string
  explanation :: string
  controls :: "Control list"

text \<open>
  \<open>assessment_id\<close> and \<open>timestamp\<close> of a \<open>RiskAssessmentResult\<close> are filled by their default
  factories (a fresh UUID, the clock) and read by nothing in the pipeline; the model
  keeps the field the pipeline computes.
\<close>

record RiskAssessmentResult =
  risks :: "RiskAssessment list"

text \<open>The keywords are what the search is called with: each a \<open>str\<close>, held as its code points.\<close>

record KeywordExtractionResult =
  "keywords" :: "nat list list"
  confidence :: pyfloat

text \<open>\<open>risks\<close> is declared \<open>List[Dict[str, str]]\<close>.\<close>

record RiskRankingResult =
  risks :: "(string \<times> string) list list"

text \<open>Validation of a field declared \<open>List[str]\<close>, given a list.\<close>

fun str_list_field :: "env \<Rightarrow> json list \<Rightarrow> exn + string list" where
  "str_list_field env [] = Inr []"
| "str_list_field env (v # vs) =
     and_then (str_field env v) (\<lambda>s.
     and_then (str_list_field env vs) (\<lambda>ss. Inr (s # ss)))"

text \<open>Validation of a value declared \<open>Dict[str, str]\<close>, given the items of a dict.\<close>

fun str_dict_items :: "env \<Rightarrow> (string \<times> json) list \<Rightarrow> exn + (string \<times> string) list" where
  "str_dict_items env [] = Inr []"
| "str_dict_items env (kv # kvs) =
     and_then (str_field env (snd kv)) (\<lambda>s.
     and_then (str_dict_items env kvs) (\<lambda>d. Inr ((fst kv, s) # d)))"

fun str_dict_field :: "env \<Rightarrow> json \<Rightarrow> exn + (string \<times> string) list" where
  "str_dict_field env (JObj d) = str_dict_items env d"
| "str_dict_field env v = Inl (Fault ValidationError OpValidate v)"

fun str_dict_list :: "env \<Rightarrow> json list \<Rightarrow> exn + (string \<times> string) list list" where
  "str_dict_list env [] = Inr []"
| "str_dict_list env (v # vs) =
     and_then (str_dict_field env v) (\<lambda>d.
     and_then (str_dict_list env vs) (\<lambda>ds. Inr (d # ds)))"

text \<open>\<open>RiskRankingResult(risks=v)\<close>.\<close>

fun validated_ranking :: "env \<Rightarrow> json \<Rightarrow> exn + RiskRankingResult" where
  "validated_ranking env (JArr vs) =
     and_then (str_dict_list env vs) (\<lambda>ds. Inr \<lparr>RiskRankingResult.risks = ds\<rparr>)"
| "validated_ranking env v = Inl (Fault ValidationError OpValidate v)"

section \<open>Prompts (prompts.py)\<close>

definition format_keyword_extraction_prompt :: "string \<Rightarrow> prompt" where
  "format_keyword_extraction_prompt proposal_text = KeywordExtractionPrompt proposal_text"

definition format_risk_ranking_prompt :: "string \<Rightarrow> string \<Rightarrow> prompt" where
  "format_risk_ranking_prompt proposal_text candidate_risks =
     RiskRankingPrompt proposal_text candidate_risks"

text \<open>
  \<open>rank_and_select\<close> hands each candidate over as a dict of its three fields, which
  \<open>format_candidate_risks\<close> reads back; the model passes the candidate itself.
\<close>

definition format_candidate_risks :: "Risk list \<Rightarrow> string" where
  "format_candidate_risks rs =
     join ''\<newline>''
       (map (\<lambda>risk.
               ''ID: '' @ Risk.risk_id risk @ ''\<newline>'' @
               ''Title: '' @ Risk.risk_title risk @ ''\<newline>'' @
               ''Description: '' @ Risk.risk_description risk @ ''\<newline>'') rs)"

section \<open>The generation stages (llm_service.py)\<close>

subsection \<open>\<open>_format_proposal_text\<close>\<close>

text \<open>\<open>if proposal.get(key): parts.append(f"{label}: {proposal[key]}")\<close>\<close>

definition add_field ::
  "env \<Rightarrow> (string \<times> json) list \<Rightarrow> string \<Rightarrow> string \<Rightarrow> string list \<Rightarrow> string list" where
  "add_field env proposal key label parts =
     (if py_truthy (dict_get proposal key JNull)
      then parts @ [label @ '': '' @ py_str env (dict_get proposal key JNull)]
      else parts)"

definition add_data_sources ::
  "env \<Rightarrow> (string \<times> json) list \<Rightarrow> string list \<Rightarrow> exn + string list" where
  "add_data_sources env proposal parts =
     (if py_truthy (dict_get proposal ''data_sources'' JNull) then
        (case dict_get proposal ''data_sources'' JNull of
           JArr sources \<Rightarrow>
             and_then (str_items sources) (\<lambda>ss.
             Inr (parts @ [''Data Sources: '' @ join '', '' ss]))
         | sources \<Rightarrow> Inr (parts @ [''Data Sources: '' @ py_str env sources]))
      else Inr parts)"

definition add_additional_fields ::
  "env \<Rightarrow> (string \<times> json) list \<Rightarrow> string list \<Rightarrow> exn + string list" where
  "add_additional_fields env proposal parts =
     (if py_truthy (dict_get proposal ''additional_fields'' JNull) then
        (case dict_get proposal ''additional_fields'' JNull of
           JObj items \<Rightarrow> Inr (parts @ map (\<lambda>kv. fst kv @ '': '' @ py_str env (snd kv)) items)
         | v \<Rightarrow> Inl (Fault AttributeError OpItems v))
      else Inr parts)"

definition format_proposal_text :: "env \<Rightarrow> (string \<times> json) list \<Rightarrow> exn + string" where
  "format_proposal_text env proposal =
     (let parts = [];
          parts = add_field env proposal ''proposal_title'' ''Title'' parts;
          parts = add_field env proposal ''description'' ''Description'' parts;
          parts = add_field env proposal ''technical_approach'' ''Technical Approach'' parts
      in and_then (add_data_sources env proposal parts) (\<lambda>parts.
         let parts = add_field env proposal ''deployment'' ''Deployment'' parts;
             parts = add_field env proposal ''data_governance'' ''Data Governance'' parts;
             parts = add_field env proposal ''model_governance'' ''Model Governance'' parts;
             parts = add_field env proposal ''security_measures'' ''Security Measures'' parts
         in and_then (add_additional_fields env proposal parts) (\<lambda>parts.
            Inr (join ''\<newline>\<newline>'' parts))))"

subsection \<open>\<open>extract_keywords\<close>\<close>

text \<open>The statements between \<open>json.loads\<close> and \<open>return\<close>.\<close>

definition keywords_of_reply :: "env \<Rightarrow> json \<Rightarrow> exn + KeywordExtractionResult" where
  "keywords_of_reply env result_data =
     and_then (py_contains ''keywords'' result_data) (\<lambda>has_keywords.
     if \<not> has_keywords then Inl (Raised ValueError ''Invalid response format from LLM'')
     else
     and_then (py_contains ''confidence'' result_data) (\<lambda>has_confidence.
     if \<not> has_confidence then Inl (Raised ValueError ''Invalid response format from LLM'')
     else
     and_then (py_getitem result_data ''keywords'') (\<lambda>kws.
     and_then (py_getitem result_data ''confidence'') (\<lambda>c.
     and_then (py_float env c) (\<lambda>conf.
     (case kws of
        JArr ks \<Rightarrow>
          if length ks = 0 then Inl (Raised ValueError ''No keywords extracted'')
          else and_then (str_list_field env ks) (\<lambda>ss.
               Inr \<lparr>keywords = map code_points ss, confidence = conf\<rparr>)
      | _ \<Rightarrow> Inl (Raised ValueError ''No keywords extracted'')))))))"

definition extract_keywords ::
  "env \<Rightarrow> event list \<Rightarrow> (string \<times> json) list \<Rightarrow>
   (exn + KeywordExtractionResult) \<times> event list" where
  "extract_keywords env tr proposal =
     (case format_proposal_text env proposal of
        Inl e \<Rightarrow> (Inl e, tr)
      | Inr proposal_text \<Rightarrow>
          (let prompt = format_keyword_extraction_prompt proposal_text;
               response = generate_content env tr prompt;
               tr = tr @ [Generate prompt]
           in (case response of
                 LlmRaises c m \<Rightarrow> (Inl (Raised c m), tr)
               | LlmNotJson \<Rightarrow> (Inl (Raised Exception ''Invalid JSON response from LLM''), tr)
               | LlmJson result_data \<Rightarrow> (keywords_of_reply env result_data, tr))))"

subsection \<open>\<open>rank_and_select\<close>\<close>

text \<open>The loop over \<open>ranked_risks\<close>.\<close>

fun validate_ranked :: "env \<Rightarrow> Risk list \<Rightarrow> json list \<Rightarrow> exn + unit" where
  "validate_ranked env rs [] = Inr ()"
| "validate_ranked env rs (risk # rest) =
     and_then (py_contains ''risk_id'' risk) (\<lambda>has_id.
     if \<not> has_id then Inl (Raised ValueError ''Invalid risk format in LLM response'')
     else
     and_then (py_contains ''reasoning'' risk) (\<lambda>has_reasoning.
     if \<not> has_reasoning then Inl (Raised ValueError ''Invalid risk format in LLM response'')
     else
     and_then (py_getitem risk ''risk_id'') (\<lambda>rid.
     if \<not> list_ex (\<lambda>r. JStr (Risk.risk_id r) = rid) rs
     then Inl (Raised ValueError (''LLM selected invalid risk_id: '' @ py_str env rid))
     else validate_ranked env rs rest)))"

text \<open>The statements between \<open>json.loads\<close> and \<open>return\<close>, on the candidates already cut.\<close>

definition ranking_of_reply :: "env \<Rightarrow> Risk list \<Rightarrow> json \<Rightarrow> exn + RiskRankingResult" where
  "ranking_of_reply env rs result_data =
     and_then (py_contains ''risks'' result_data) (\<lambda>has_risks.
     if \<not> has_risks then Inl (Raised ValueError ''Invalid response format from LLM'')
     else
     and_then (py_getitem result_data ''risks'') (\<lambda>ranked_risks.
     and_then (py_len ranked_risks) (\<lambda>n.
     if n \<noteq> TOP_N_RISKS
     then Inl (Raised ValueError
                 (''Expected '' @ str_nat TOP_N_RISKS @ '' risks, got '' @ str_nat n))
     else
     and_then (py_iter ranked_risks) (\<lambda>items.
     and_then (validate_ranked env rs items) (\<lambda>_.
     validated_ranking env ranked_risks)))))"

definition rank_and_select ::
  "env \<Rightarrow> event list \<Rightarrow> (string \<times> json) list \<Rightarrow> Risk list \<Rightarrow>
   (exn + RiskRankingResult) \<times> event list" where
  "rank_and_select env tr proposal rs0 =
     (let rs = (if length rs0 > MAX_CANDIDATE_RISKS then take MAX_CANDIDATE_RISKS rs0 else rs0)
      in (case format_proposal_text env proposal of
            Inl e \<Rightarrow> (Inl e, tr)
          | Inr proposal_text \<Rightarrow>
              (let candidate_risks_text = format_candidate_risks rs;
                   prompt = format_risk_ranking_prompt proposal_text candidate_risks_text;
                   response = generate_content env tr prompt;
                   tr = tr @ [Generate prompt]
               in (case response of
                     LlmRaises c m \<Rightarrow> (Inl (Raised c m), tr)
                   | LlmNotJson \<Rightarrow>
                       (Inl (Raised Exception ''Invalid JSON response from LLM''), tr)
                   | LlmJson result_data \<Rightarrow> (ranking_of_reply env rs result_data, tr)))))"

section \<open>The database client (db_service.py)\<close>

subsection \<open>\<open>_sanitize_keyword\<close> and \<open>_validate_risk_id\<close>\<close>

text \<open>
  The code points \<open>\s\<close> matches in a \<open>str\<close> pattern: tab to carriage return, the four
  separators from 28 to 31, the space, NEL, the no-break space, the Ogham space mark, the
  spaces from U+2000 to U+200A, the line and paragraph separators, the narrow no-break
  space, the medium mathematical space and the ideographic space.
\<close>

definition re_space :: "nat \<Rightarrow> bool" where
  "re_space n =
     ((9 \<le> n \<and> n \<le> 13) \<or> (28 \<le> n \<and> n \<le> 31) \<or> n = 32 \<or> n = 133 \<or> n = 160
      \<or> n = 5760 \<or> (8192 \<le> n \<and> n \<le> 8202) \<or> n = 8232 \<or> n = 8233 \<or> n = 8239
      \<or> n = 8287 \<or> n = 12288)"

text \<open>The code points outside the class \<open>[^a-zA-Z0-9\s\-_]\<close>, which \<open>re.sub\<close> leaves in place.\<close>

definition keyword_char :: "nat \<Rightarrow> bool" where
  "keyword_char n =
     ((97 \<le> n \<and> n \<le> 122) \<or> (65 \<le> n \<and> n \<le> 90) \<or> (48 \<le> n \<and> n \<le> 57) \<or> re_space n
      \<or> n = 45 \<or> n = 95)"

definition sanitize_keyword :: "nat list \<Rightarrow> nat list" where
  "sanitize_keyword keyword =
     (let sanitized = filter keyword_char keyword
      in take 100 sanitized)"

definition upper_char :: "char \<Rightarrow> bool" where
  "upper_char c = (65 \<le> (of_char c :: nat) \<and> (of_char c :: nat) \<le> 90)"

definition digit_class :: "char \<Rightarrow> bool" where
  "digit_class c = (48 \<le> (of_char c :: nat) \<and> (of_char c :: nat) \<le> 57)"

text \<open>
  \<open>re.match(r'^R\.[A-Z]+\.[0-9]+$', risk_id)\<close>; \<open>$\<close> also matches before one newline that
  ends the string.
\<close>

definition risk_id_format :: "string \<Rightarrow> bool" where
  "risk_id_format s =
     (take 2 s = ''R.'' \<and>
      (let s1 = drop 2 s; category = takeWhile upper_char s1; s2 = dropWhile upper_char s1
       in category \<noteq> [] \<and> take 1 s2 = ''.'' \<and>
          (let s3 = drop 1 s2; number = takeWhile digit_class s3; s4 = dropWhile digit_class s3
           in number \<noteq> [] \<and> (s4 = [] \<or> s4 = ''\<newline>''))))"

definition validate_risk_id :: "string \<Rightarrow> exn + string" where
  "validate_risk_id rid =
     (if \<not> risk_id_format rid
      then Inl (Raised ValueError (''Invalid risk ID format: '' @ rid))
      else Inr rid)"

subsection \<open>The two \<open>except\<close> clauses of the client's methods\<close>

fun exn_class_of :: "exn \<Rightarrow> exn_class" where
  "exn_class_of (Raised c m) = c"
| "exn_class_of (Fault c op v) = c"

definition db_except :: "env \<Rightarrow> exn \<Rightarrow> exn" where
  "db_except env e =
     (if exn_class_of e = RequestException
      then Raised Exception (''Database service unavailable: '' @ str_exn env e)
      else e)"

subsection \<open>\<open>search_risks\<close>\<close>

text \<open>
  \<open>x in d\<close> on the keys of a dict: a list or a dict has no hash; \<open>bool\<close>, \<open>int\<close> and \<open>float\<close>
  compare by value, and NaN equals nothing.
\<close>

fun py_hashable :: "json \<Rightarrow> bool" where
  "py_hashable (JArr xs) = False"
| "py_hashable (JObj d) = False"
| "py_hashable v = True"

fun num_value :: "json \<Rightarrow> real option" where
  "num_value (JBool b) = Some (if b then 1 else 0)"
| "num_value (JInt i) = Some (of_int i)"
| "num_value (JFloat (Finite r)) = Some r"
| "num_value v = None"

definition py_eq :: "json \<Rightarrow> json \<Rightarrow> bool" where
  "py_eq a b =
     (case (num_value a, num_value b) of
        (Some x, Some y) \<Rightarrow> x = y
      | (None, None) \<Rightarrow> a = b \<and> a \<noteq> JFloat NaN
      | _ \<Rightarrow> False)"

definition key_in :: "json \<Rightarrow> (json \<times> 'a) list \<Rightarrow> exn + bool" where
  "key_in k d =
     (if py_hashable k then Inr (list_ex (\<lambda>kv. py_eq (fst kv) k) d)
      else Inl (Fault TypeError OpHash k))"

text \<open>The loop over the results of one search; \<open>all_risks\<close> keeps its insertion order.\<close>

fun add_results ::
  "env \<Rightarrow> json list \<Rightarrow> (json \<times> Risk) list \<Rightarrow> exn + (json \<times> Risk) list" where
  "add_results env [] all_risks = Inr all_risks"
| "add_results env (item # items) all_risks =
     and_then (py_get item ''type'' JNull) (\<lambda>ty.
     if ty = JStr ''risk'' then
       and_then (py_getitem item ''id'') (\<lambda>rid.
       and_then (key_in rid all_risks) (\<lambda>seen.
       if \<not> seen then
         and_then (py_getitem item ''title'') (\<lambda>title.
         and_then (py_getitem item ''description'') (\<lambda>description.
         and_then (str_field env rid) (\<lambda>rid_s.
         and_then (str_field env title) (\<lambda>title_s.
         and_then (str_field env description) (\<lambda>description_s.
         add_results env items
           (all_risks @
            [(rid, \<lparr>Risk.risk_id = rid_s, Risk.risk_title = title_s,
                    Risk.risk_description = description_s\<rparr>)]))))))
       else add_results env items all_risks))
     else add_results env items all_risks)"

text \<open>The loop over the keywords that are searched.\<close>

fun search_each ::
  "env \<Rightarrow> event list \<Rightarrow> nat list list \<Rightarrow> (json \<times> Risk) list \<Rightarrow>
   (exn + (json \<times> Risk) list) \<times> event list" where
  "search_each env tr [] all_risks = (Inr all_risks, tr)"
| "search_each env tr (keyword # rest) all_risks =
     (let response = session_get env tr ''/api/search'' ''q'' keyword;
          tr = tr @ [HttpGet ''/api/search'' ''q'' keyword]
      in (case response of
            HttpRaises c m \<Rightarrow> (Inl (Raised c m), tr)
          | HttpJson data \<Rightarrow>
              (case and_then (py_get data ''results'' (JArr [])) (\<lambda>results.
                    and_then (py_iter results) (\<lambda>items.
                    add_results env items all_risks)) of
                 Inl e \<Rightarrow> (Inl e, tr)
               | Inr all_risks \<Rightarrow> search_each env tr rest all_risks)))"

definition search_risks ::
  "env \<Rightarrow> event list \<Rightarrow> nat list list \<Rightarrow> (exn + Risk list) \<times> event list" where
  "search_risks env tr kws =
     (let sanitized_keywords = map sanitize_keyword kws
      in (case search_each env tr (take 3 sanitized_keywords) [] of
            (Inl e, tr) \<Rightarrow> (Inl (db_except env e), tr)
          | (Inr all_risks, tr) \<Rightarrow> (Inr (map snd all_risks), tr)))"

subsection \<open>\<open>get_controls_for_risks\<close>\<close>

fun validate_risk_ids :: "string list \<Rightarrow> exn + string list" where
  "validate_risk_ids [] = Inr []"
| "validate_risk_ids (rid # rids) =
     and_then (validate_risk_id rid) (\<lambda>v.
     and_then (validate_risk_ids rids) (\<lambda>vs. Inr (v # vs)))"

text \<open>The inner loop: the controls of one risk among the relationships.\<close>

fun controls_of :: "env \<Rightarrow> string \<Rightarrow> json list \<Rightarrow> exn + Control list" where
  "controls_of env rid [] = Inr []"
| "controls_of env rid (relationship # rest) =
     and_then (py_get relationship ''source_id'' JNull) (\<lambda>source_id.
     and_then (py_get relationship ''relationship_type'' JNull) (\<lambda>relationship_type.
     if source_id = JStr rid \<and> relationship_type = JStr ''risk_control'' then
       and_then (py_get relationship ''target_id'' JNull) (\<lambda>cid.
       if py_truthy cid then
         and_then (str_field env cid) (\<lambda>cid_s.
         and_then (controls_of env rid rest) (\<lambda>cs.
         Inr (\<lparr>control_id = cid_s,
               control_title = ''Control '' @ py_str env cid,
               control_description = Some (''Control for risk '' @ rid)\<rparr> # cs)))
       else controls_of env rid rest)
     else controls_of env rid rest))"

text \<open>
  The outer loop. A risk id that comes twice gets the same controls both times, so the
  first entry of the result is what the dict holds for it.
\<close>

fun controls_by_risk_of ::
  "env \<Rightarrow> json \<Rightarrow> string list \<Rightarrow> exn + (string \<times> Control list) list" where
  "controls_by_risk_of env data [] = Inr []"
| "controls_by_risk_of env data (rid # rids) =
     and_then (py_iter data) (\<lambda>relationships.
     and_then (controls_of env rid relationships) (\<lambda>cs.
     and_then (controls_by_risk_of env data rids) (\<lambda>m. Inr ((rid, cs) # m))))"

definition get_controls_for_risks ::
  "env \<Rightarrow> event list \<Rightarrow> string list \<Rightarrow>
   (exn + (string \<times> Control list) list) \<times> event list" where
  "get_controls_for_risks env tr risk_ids =
     (case validate_risk_ids risk_ids of
        Inl e \<Rightarrow> (Inl (db_except env e), tr)
      | Inr validated_ids \<Rightarrow>
          (let risk_ids_param = code_points (join '','' validated_ids);
               response = session_get env tr ''/api/relationships'' ''risk_ids'' risk_ids_param;
               tr = tr @ [HttpGet ''/api/relationships'' ''risk_ids'' risk_ids_param]
           in (case response of
                 HttpRaises c m \<Rightarrow> (Inl (db_except env (Raised c m)), tr)
               | HttpJson data \<Rightarrow>
                   (case controls_by_risk_of env data validated_ids of
                      Inl e \<Rightarrow> (Inl (db_except env e), tr)
                    | Inr controls_by_risk \<Rightarrow> (Inr controls_by_risk, tr)))))"

section \<open>The engine (risk_engine.py)\<close>

definition get_fallback_risks :: "env \<Rightarrow> event list \<Rightarrow> Risk list \<times> event list" where
  "get_fallback_risks env tr =
     (let fallback_keywords =
            map code_points [''data'', ''model'', ''security'', ''privacy'', ''governance'']
      in (case search_risks env tr fallback_keywords of
            (Inl e, tr) \<Rightarrow> ([], tr)
          | (Inr rs, tr) \<Rightarrow> (rs, tr)))"

text \<open>\<open>d[k]\<close> on a dict of strings.\<close>

definition str_dict_getitem :: "(string \<times> string) list \<Rightarrow> string \<Rightarrow> exn + string" where
  "str_dict_getitem d k =
     (case map_of d k of None \<Rightarrow> Inl (Fault KeyError OpSubscript (JStr k)) | Some v \<Rightarrow> Inr v)"

text \<open>\<open>[r["risk_id"] for r in ranking_result.risks]\<close>\<close>

fun risk_ids_of :: "(string \<times> string) list list \<Rightarrow> exn + string list" where
  "risk_ids_of [] = Inr []"
| "risk_ids_of (r # rs) =
     and_then (str_dict_getitem r ''risk_id'') (\<lambda>rid.
     and_then (risk_ids_of rs) (\<lambda>rids. Inr (rid # rids)))"

text \<open>The inner loop of stage 5: the first candidate with the id, or \<open>None\<close>.\<close>

fun find_risk :: "string \<Rightarrow> Risk list \<Rightarrow> Risk option" where
  "find_risk rid [] = None"
| "find_risk rid (risk # rest) =
     (if Risk.risk_id risk = rid then Some risk else find_risk rid rest)"

text \<open>The outer loop of stage 5, with \<open>assessments\<close> as it grows.\<close>

fun build_assessments ::
  "Risk list \<Rightarrow> (string \<times> Control list) list \<Rightarrow> (string \<times> string) list list \<Rightarrow>
   RiskAssessment list \<Rightarrow> exn + RiskAssessment list" where
  "build_assessments candidate_risks controls_by_risk [] assessments = Inr assessments"
| "build_assessments candidate_risks controls_by_risk (ranked_risk # rest) assessments =
     and_then (str_dict_getitem ranked_risk ''risk_id'') (\<lambda>rid.
     and_then (str_dict_getitem ranked_risk ''reasoning'') (\<lambda>reasoning.
     (case find_risk rid candidate_risks of
        None \<Rightarrow> build_assessments candidate_risks controls_by_risk rest assessments
      | Some risk_details \<Rightarrow>
          build_assessments candidate_risks controls_by_risk rest
            (assessments @
             [\<lparr>risk_id = rid,
               risk_title = Risk.risk_title risk_details,
               risk_description = Risk.risk_description risk_details,
               explanation = reasoning,
               controls = (case map_of controls_by_risk rid of None \<Rightarrow> [] | Some cs \<Rightarrow> cs)\<rparr>]))))"

definition padding_assessment :: RiskAssessment where
  "padding_assessment =
     \<lparr>risk_id = ''N/A'',
      risk_title = ''Assessment Error'',
      risk_description = ''Could not assess this risk'',
      explanation = ''Assessment failed'',
      controls = []\<rparr>"

text \<open>\<open>while len(assessments) < config.TOP_N_RISKS: assessments.append(...)\<close>\<close>

function pad_assessments :: "RiskAssessment list \<Rightarrow> RiskAssessment list" where
  "pad_assessments assessments =
     (if length assessments < TOP_N_RISKS
      then pad_assessments (assessments @ [padding_assessment])
      else assessments)"
  by pat_completeness auto
termination
  by (relation "measure (\<lambda>assessments. TOP_N_RISKS - length assessments)") auto

declare pad_assessments.simps [simp del]

definition error_assessment :: "env \<Rightarrow> exn \<Rightarrow> RiskAssessment" where
  "error_assessment env e =
     \<lparr>risk_id = ''ERROR'',
      risk_title = ''Assessment Error'',
      risk_description = ''An error occurred during risk assessment'',
      explanation = ''Error: '' @ str_exn env e,
      controls = []\<rparr>"

text \<open>The body of the \<open>try\<close> in \<open>assess_proposal\<close>: what it returns, or what it raises.\<close>

definition assess_proposal_body ::
  "env \<Rightarrow> event list \<Rightarrow> (string \<times> json) list \<Rightarrow>
   (exn + RiskAssessmentResult) \<times> event list" where
  "assess_proposal_body env tr proposal =
     (case extract_keywords env tr proposal of
        (Inl e, tr) \<Rightarrow> (Inl e, tr)
      | (Inr keyword_result, tr) \<Rightarrow>
     (case search_risks env tr (keywords keyword_result) of
        (Inl e, tr) \<Rightarrow> (Inl e, tr)
      | (Inr candidate_risks, tr) \<Rightarrow>
     (case (if candidate_risks = [] then get_fallback_risks env tr else (candidate_risks, tr)) of
        (candidate_risks, tr) \<Rightarrow>
     (case rank_and_select env tr proposal candidate_risks of
        (Inl e, tr) \<Rightarrow> (Inl e, tr)
      | (Inr ranking_result, tr) \<Rightarrow>
     (case risk_ids_of (RiskRankingResult.risks ranking_result) of
        Inl e \<Rightarrow> (Inl e, tr)
      | Inr risk_ids \<Rightarrow>
     (case get_controls_for_risks env tr risk_ids of
        (Inl e, tr) \<Rightarrow> (Inl e, tr)
      | (Inr controls_by_risk, tr) \<Rightarrow>
     (case build_assessments candidate_risks controls_by_risk
             (RiskRankingResult.risks ranking_result) [] of
        Inl e \<Rightarrow> (Inl e, tr)
      | Inr assessments \<Rightarrow>
          (Inr \<lparr>RiskAssessmentResult.risks =
                  (if length assessments \<noteq> TOP_N_RISKS then pad_assessments assessments
                   else assessments)\<rparr>, tr))))))))"

text \<open>\<open>assess_proposal\<close>: the body, and the \<open>except Exception\<close> clause around it.\<close>

definition assess_proposal ::
  "env \<Rightarrow> event list \<Rightarrow> (string \<times> json) list \<Rightarrow> RiskAssessmentResult \<times> event list" where
  "assess_proposal env tr proposal =
     (case assess_proposal_body env tr proposal of
        (Inr result, tr) \<Rightarrow> (result, tr)
      | (Inl e, tr) \<Rightarrow>
          (\<lparr>RiskAssessmentResult.risks = replicate TOP_N_RISKS (error_assessment env e)\<rparr>, tr))"

section \<open>Vocabulary of the statements\<close>

text \<open>
  An item of the reply that the loop of \<open>rank_and_select\<close> lets through: a dict whose
  \<open>risk_id\<close> is the id of a candidate and that has a \<open>reasoning\<close>.
\<close>

definition valid_item :: "Risk list \<Rightarrow> json \<Rightarrow> bool" where
  "valid_item rs v =
     (case v of
        JObj d \<Rightarrow>
          (case map_of d ''risk_id'' of
             Some (JStr rid) \<Rightarrow> rid \<in> set (map Risk.risk_id rs) \<and> ''reasoning'' \<in> set (map fst d)
           | _ \<Rightarrow> False)
      | _ \<Rightarrow> False)"

text \<open>The same of an entry of a \<open>RiskRankingResult\<close>.\<close>

definition valid_entry :: "Risk list \<Rightarrow> (string \<times> string) list \<Rightarrow> bool" where
  "valid_entry rs d =
     (case map_of d ''risk_id'' of
        Some rid \<Rightarrow> rid \<in> set (map Risk.risk_id rs) \<and> ''reasoning'' \<in> set (map fst d)
      | None \<Rightarrow> False)"

text \<open>
  Stubbed services, as a test double has them: one reply to every keyword request, one to
  every ranking request, one to every search and one to every relationship lookup. The
  library functions of such an environment are never reached on the inputs below.
\<close>

definition stub_env :: "llm_reply \<Rightarrow> llm_reply \<Rightarrow> http_reply \<Rightarrow> http_reply \<Rightarrow> env" where
  "stub_env keyword_reply ranking_reply search_reply relationship_reply =
     \<lparr>generate_content =
        (\<lambda>tr p. case p of
                   KeywordExtractionPrompt text \<Rightarrow> keyword_reply
                 | RiskRankingPrompt text cands \<Rightarrow> ranking_reply),
      session_get =
        (\<lambda>tr path name v. if path = ''/api/search'' then search_reply else relationship_reply),
      str_of = (\<lambda>v. []),
      float_of_str = (\<lambda>s. None),
      coerce_str = (\<lambda>v. None),
      fault_text = (\<lambda>c op v. [])\<rparr>"

text \<open>
  A run as a test would stub it: the proposal, the reply to the keyword request (four
  keywords), and the body every search returns (three risks and one control).
\<close>

definition scenario_proposal :: "(string \<times> json) list" where
  "scenario_proposal = [(''description'', JStr ''Deploy a chatbot'')]"

definition scenario_keywords :: llm_reply where
  "scenario_keywords =
     LlmJson (JObj [(''keywords'', JArr [JStr ''data privacy'', JStr ''model deployment'',
                                         JStr ''third party'', JStr ''bias'']),
                    (''confidence'', JFloat (Finite (9 / 10)))])"

definition scenario_found :: http_reply where
  "scenario_found =
     HttpJson (JObj [(''results'',
       JArr [JObj [(''type'', JStr ''risk''), (''id'', JStr ''R.AIR.001''),
                   (''title'', JStr ''t1''), (''description'', JStr ''d1'')],
             JObj [(''type'', JStr ''control''), (''id'', JStr ''C.AIIM.1''),
                   (''title'', JStr ''c1''), (''description'', JStr ''e1'')],
             JObj [(''type'', JStr ''risk''), (''id'', JStr ''R.AIR.002''),
                   (''title'', JStr ''t2''), (''description'', JStr ''d2'')],
             JObj [(''type'', JStr ''risk''), (''id'', JStr ''R.AIR.003''),
                   (''title'', JStr ''t3''), (''description'', JStr ''d3'')]])])"

definition scenario_candidates :: "Risk list" where
  "scenario_candidates =
     [\<lparr>Risk.risk_id = ''R.AIR.001'', Risk.risk_title = ''t1'', Risk.risk_description = ''d1''\<rparr>,
      \<lparr>Risk.risk_id = ''R.AIR.002'', Risk.risk_title = ''t2'', Risk.risk_description = ''d2''\<rparr>,
      \<lparr>Risk.risk_id = ''R.AIR.003'', Risk.risk_title = ''t3'', Risk.risk_description = ''d3''\<rparr>]"

text \<open>
  The same run when all goes well: the ranking reply picks the three risks, and the
  relationship lookup knows a control for two of them. \<open>scenario_assessments\<close> and
  \<open>scenario_trace\<close> are what the run returns and what it requests.
\<close>

definition scenario_ranking :: llm_reply where
  "scenario_ranking =
     LlmJson (JObj [(''risks'',
       JArr [JObj [(''risk_id'', JStr ''R.AIR.003''), (''reasoning'', JStr ''c'')],
             JObj [(''risk_id'', JStr ''R.AIR.001''), (''reasoning'', JStr ''a'')],
             JObj [(''risk_id'', JStr ''R.AIR.002''), (''reasoning'', JStr ''b'')]])])"

definition scenario_relationships :: http_reply where
  "scenario_relationships =
     HttpJson (JArr
       [JObj [(''source_id'', JStr ''R.AIR.001''), (''relationship_type'', JStr ''risk_control''),
              (''target_id'', JStr ''C.AIIM.1'')],
        JObj [(''source_id'', JStr ''R.AIR.001''), (''relationship_type'', JStr ''risk_risk''),
              (''target_id'', JStr ''R.AIR.002'')],
        JObj [(''source_id'', JStr ''R.AIR.003''), (''relationship_type'', JStr ''risk_control''),
              (''target_id'', JStr ''C.AIIM.3'')]])"

definition scenario_env :: env where
  "scenario_env = stub_env scenario_keywords scenario_ranking scenario_found scenario_relationships"

definition scenario_assessments :: "RiskAssessment list" where
  "scenario_assessments =
     [\<lparr>risk_id = ''R.AIR.003'', risk_title = ''t3'', risk_description = ''d3'',
       explanation = ''c'',
       controls = [\<lparr>control_id = ''C.AIIM.3'', control_title = ''Control C.AIIM.3'',
                    control_description = Some ''Control for risk R.AIR.003''\<rparr>]\<rparr>,
      \<lparr>risk_id = ''R.AIR.001'', risk_title = ''t1'', risk_description = ''d1'',
       explanation = ''a'',
       controls = [\<lparr>control_id = ''C.AIIM.1'', control_title = ''Control C.AIIM.1'',
                    control_description = Some ''Control for risk R.AIR.001''\<rparr>]\<rparr>,
      \<lparr>risk_id = ''R.AIR.002'', risk_title = ''t2'', risk_description = ''d2'',
       explanation = ''b'', controls = []\<rparr>]"

definition scenario_trace :: "event list" where
  "scenario_trace =
     [Generate (KeywordExtractionPrompt ''Description: Deploy a chatbot''),
      HttpGet ''/api/search'' ''q'' (code_points ''data privacy''),
      HttpGet ''/api/search'' ''q'' (code_points ''model deployment''),
      HttpGet ''/api/search'' ''q'' (code_points ''third party''),
      Generate (RiskRankingPrompt ''Description: Deploy a chatbot''
                  (format_candidate_risks scenario_candidates)),
      HttpGet ''/api/relationships'' ''risk_ids'' (code_points ''R.AIR.003,R.AIR.001,R.AIR.002'')]"

text \<open>
  The code points a sanitized keyword may hold, listed one by one: the ASCII letters, the
  ASCII digits, the white space of Unicode (the 29 code points for which \<open>str.isspace\<close>
  holds), the hyphen and the underscore.
\<close>

definition ascii_letters :: "nat set" where
  "ascii_letters = set (code_points ''abcdefghijklmnopqrstuvwxyzABCDEFGHIJKLMNOPQRSTUVWXYZ'')"

definition ascii_digits :: "nat set" where
  "ascii_digits = set (code_points ''0123456789'')"

definition whitespace_chars :: "nat set" where
  "whitespace_chars =
     {0x09, 0x0A, 0x0B, 0x0C, 0x0D, 0x1C, 0x1D, 0x1E, 0x1F, 0x20, 0x85, 0xA0, 0x1680,
      0x2000, 0x2001, 0x2002, 0x2003, 0x2004, 0x2005, 0x2006, 0x2007, 0x2008, 0x2009, 0x200A,
      0x2028, 0x2029, 0x202F, 0x205F, 0x3000}"

definition kept_chars :: "nat set" where
  "kept_chars =
     ascii_letters \<union> ascii_digits \<union> whitespace_chars \<union> set (code_points ''-_'')"

text \<open>
  The proposal text as the specification describes it. \<open>formatter_accepts\<close> holds of the
  proposals \<open>ProposalSchema\<close> lets through: the data sources, when a list, hold strings, and
  the additional fields, when they are there and not empty, are a dict. \<open>labelled_fields\<close>
  is the fixed order with the labels; a field gives a block when its value is true in
  Python's sense (there, not \<open>None\<close>, not empty, not zero); \<open>proposal_blocks\<close> are the blocks
  of the labelled fields followed by those of the additional fields.
\<close>

fun is_str :: "json \<Rightarrow> bool" where
  "is_str (JStr s) = True"
| "is_str v = False"

definition formatter_accepts :: "(string \<times> json) list \<Rightarrow> bool" where
  "formatter_accepts proposal =
     ((case dict_get proposal ''data_sources'' JNull of
         JArr xs \<Rightarrow> list_all is_str xs
       | _ \<Rightarrow> True)
      \<and> (case dict_get proposal ''additional_fields'' JNull of
           JObj items \<Rightarrow> True
         | v \<Rightarrow> \<not> py_truthy v))"

definition labelled_fields :: "(string \<times> string) list" where
  "labelled_fields =
     [(''proposal_title'', ''Title''),
      (''description'', ''Description''),
      (''technical_approach'', ''Technical Approach''),
      (''data_sources'', ''Data Sources''),
      (''deployment'', ''Deployment''),
      (''data_governance'', ''Data Governance''),
      (''model_governance'', ''Model Governance''),
      (''security_measures'', ''Security Measures'')]"

definition field_value :: "env \<Rightarrow> string \<Rightarrow> json \<Rightarrow> string" where
  "field_value env key v =
     (if key = ''data_sources''
      then (case v of JArr xs \<Rightarrow> join '', '' (map (py_str env) xs) | _ \<Rightarrow> py_str env v)
      else py_str env v)"

definition field_block :: "env \<Rightarrow> (string \<times> json) list \<Rightarrow> string \<times> string \<Rightarrow> string list" where
  "field_block env proposal kl =
     (if py_truthy (dict_get proposal (fst kl) JNull)
      then [snd kl @ '': '' @ field_value env (fst kl) (dict_get proposal (fst kl) JNull)]
      else [])"

definition additional_blocks :: "env \<Rightarrow> (string \<times> json) list \<Rightarrow> string list" where
  "additional_blocks env proposal =
     (case dict_get proposal ''additional_fields'' JNull of
        JObj items \<Rightarrow> map (\<lambda>kv. fst kv @ '': '' @ py_str env (snd kv)) items
      | _ \<Rightarrow> [])"

definition proposal_blocks :: "env \<Rightarrow> (string \<times> json) list \<Rightarrow> string list" where
  "proposal_blocks env proposal =
     concat (map (field_block env proposal) labelled_fields) @ additional_blocks env proposal"

text \<open>A search that finds nothing.\<close>

definition nothing_found :: http_reply where
  "nothing_found = HttpJson (JObj [(''results'', JArr [])])"

text \<open>
  Thirty-one candidates, numbered from 101 to 131, and a ranking reply that names three
  risk ids.
\<close>

definition numbered_risk :: "nat \<Rightarrow> Risk" where
  "numbered_risk i =
     \<lparr>Risk.risk_id = ''R.AIR.'' @ str_nat i, Risk.risk_title = ''t'' @ str_nat i,
      Risk.risk_description = ''d'' @ str_nat i\<rparr>"

definition many_candidates :: "Risk list" where
  "many_candidates = map numbered_risk [101..<132]"

definition ranking_of_ids :: "string \<Rightarrow> string \<Rightarrow> string \<Rightarrow> llm_reply" where
  "ranking_of_ids a b c =
     LlmJson (JObj [(''risks'',
       JArr [JObj [(''risk_id'', JStr a), (''reasoning'', JStr ''first'')],
             JObj [(''risk_id'', JStr b), (''reasoning'', JStr ''second'')],
             JObj [(''risk_id'', JStr c), (''reasoning'', JStr ''third'')]])])"

text \<open>
  A stage of the body fails with the exception \<open>e\<close>, the requests made being \<open>t\<close>: keyword
  extraction, or the search on the extracted keywords, or the ranking (on the candidates of
  that search or, when it found none, on what \<open>_get_fallback_risks\<close> returned), or the
  lookup of the controls.
\<close>

definition stage_fails ::
  "env \<Rightarrow> event list \<Rightarrow> (string \<times> json) list \<Rightarrow> exn \<Rightarrow> event list \<Rightarrow> bool" where
  "stage_fails env tr proposal e t =
     (extract_keywords env tr proposal = (Inl e, t)
     \<or> (\<exists>k t1. extract_keywords env tr proposal = (Inr k, t1)
            \<and> search_risks env t1 (keywords k) = (Inl e, t))
     \<or> (\<exists>k t1 found t2 cs t3.
            extract_keywords env tr proposal = (Inr k, t1)
          \<and> search_risks env t1 (keywords k) = (Inr found, t2)
          \<and> (if found = [] then get_fallback_risks env t2 else (found, t2)) = (cs, t3)
          \<and> rank_and_select env t3 proposal cs = (Inl e, t))
     \<or> (\<exists>k t1 found t2 cs t3 rr t4 rids.
            extract_keywords env tr proposal = (Inr k, t1)
          \<and> search_risks env t1 (keywords k) = (Inr found, t2)
          \<and> (if found = [] then get_fallback_risks env t2 else (found, t2)) = (cs, t3)
          \<and> rank_and_select env t3 proposal cs = (Inr rr, t4)
          \<and> risk_ids_of (RiskRankingResult.risks rr) = Inr rids
          \<and> get_controls_for_risks env t4 rids = (Inl e, t)))"

text \<open>
  The services of the scenario, with a database that finds nothing and whose connection
  fails on the query \<open>data\<close>, the first of the fallback keywords.
\<close>

definition fallback_down_env :: env where
  "fallback_down_env =
     \<lparr>generate_content =
        (\<lambda>tr p. case p of
                   KeywordExtractionPrompt text \<Rightarrow> scenario_keywords
                 | RiskRankingPrompt text cands \<Rightarrow> scenario_ranking),
      session_get =
        (\<lambda>tr path name v.
           if v = code_points ''data'' then HttpRaises RequestException ''down''
           else nothing_found),
      str_of = (\<lambda>v. []),
      float_of_str = (\<lambda>s. None),
      coerce_str = (\<lambda>v. None),
      fault_text = (\<lambda>c op v. [])\<rparr>"

section \<open>Lemmas on the building blocks\<close>

lemma and_then_Inl [simp]: "and_then (Inl e) f = Inl e"
  by (simp add: and_then_def)

lemma and_then_Inr [simp]: "and_then (Inr x) f = f x"
  by (simp add: and_then_def)

lemma and_then_eq_Inr: "and_then m f = Inr y \<longleftrightarrow> (\<exists>x. m = Inr x \<and> f x = Inr y)"
  by (cases m) simp_all

lemma pad_assessments_length: "length (pad_assessments a) = max TOP_N_RISKS (length a)"
proof (induction a rule: pad_assessments.induct)
  case (1 a)
  show ?case
  proof (cases "length a < TOP_N_RISKS")
    case True
    with 1 show ?thesis by (subst pad_assessments.simps) (simp add: max_def)
  next
    case False
    then show ?thesis by (subst pad_assessments.simps) (simp add: max_def)
  qed
qed

lemma pad_assessments_eq:
  "pad_assessments a = a @ replicate (TOP_N_RISKS - length a) padding_assessment"
proof (induction a rule: pad_assessments.induct)
  case (1 a)
  show ?case
  proof (cases "length a < TOP_N_RISKS")
    case True
    then have "TOP_N_RISKS - length a = Suc (TOP_N_RISKS - Suc (length a))" by simp
    with 1 True show ?thesis
      by (subst pad_assessments.simps) (simp add: replicate_app_Cons_same)
  next
    case False
    then show ?thesis by (subst pad_assessments.simps) simp
  qed
qed

lemma build_assessments_length:
  "build_assessments cs cbr ranked acc = Inr out \<Longrightarrow> length out \<le> length acc + length ranked"
proof (induction ranked arbitrary: acc)
  case Nil
  then show ?case by simp
next
  case (Cons r ranked)
  from Cons.prems obtain rid reasoning where
    "str_dict_getitem r ''risk_id'' = Inr rid" "str_dict_getitem r ''reasoning'' = Inr reasoning"
    and rest: "(case find_risk rid cs of
        None \<Rightarrow> build_assessments cs cbr ranked acc
      | Some risk_details \<Rightarrow>
          build_assessments cs cbr ranked
            (acc @
             [\<lparr>risk_id = rid,
               risk_title = Risk.risk_title risk_details,
               risk_description = Risk.risk_description risk_details,
               explanation = reasoning,
               controls = (case map_of cbr rid of None \<Rightarrow> [] | Some cs \<Rightarrow> cs)\<rparr>])) = Inr out"
    by (auto simp: and_then_eq_Inr)
  show ?case
  proof (cases "find_risk rid cs")
    case None
    with rest Cons.IH[of acc] show ?thesis by simp
  next
    case (Some d)
    with rest Cons.IH show ?thesis by fastforce
  qed
qed

lemma str_field_JStr [simp]: "str_field env (JStr s) = Inr s"
  by (simp add: str_field_def)

lemma str_dict_items_map_of:
  "str_dict_items env d = Inr d' \<Longrightarrow> map_of d k = Some (JStr s) \<Longrightarrow> map_of d' k = Some s"
proof (induction d arbitrary: d')
  case Nil
  then show ?case by simp
next
  case (Cons kv d)
  from Cons.prems(1) obtain s0 d0 where
    s0: "str_field env (snd kv) = Inr s0" and d0: "str_dict_items env d = Inr d0"
    and d': "d' = (fst kv, s0) # d0"
    by (auto simp: and_then_eq_Inr)
  show ?case
  proof (cases "fst kv = k")
    case True
    with Cons.prems(2) have "snd kv = JStr s" by (cases kv) simp
    with s0 have "s0 = s" by simp
    with True d' show ?thesis by simp
  next
    case False
    with Cons.prems(2) have "map_of d k = Some (JStr s)" by (cases kv) simp
    from Cons.IH[OF d0 this] False d' show ?thesis by simp
  qed
qed

lemma str_dict_items_keys:
  "str_dict_items env d = Inr d' \<Longrightarrow> map fst d' = map fst d"
  by (induction d arbitrary: d') (auto simp: and_then_eq_Inr)

lemma str_dict_list_length:
  "str_dict_list env vs = Inr ds \<Longrightarrow> length ds = length vs"
  by (induction vs arbitrary: ds) (auto simp: and_then_eq_Inr)

lemma list_ex_risk_id:
  "list_ex (\<lambda>r. JStr (Risk.risk_id r) = v) rs \<longleftrightarrow> (\<exists>rid. v = JStr rid \<and> rid \<in> set (map Risk.risk_id rs))"
  by (auto simp: list_ex_iff)

lemma validate_item_step:
  assumes "and_then (py_contains ''risk_id'' v) (\<lambda>has_id.
     if \<not> has_id then Inl (Raised ValueError ''Invalid risk format in LLM response'')
     else
     and_then (py_contains ''reasoning'' v) (\<lambda>has_reasoning.
     if \<not> has_reasoning then Inl (Raised ValueError ''Invalid risk format in LLM response'')
     else
     and_then (py_getitem v ''risk_id'') (\<lambda>rid.
     if \<not> list_ex (\<lambda>r. JStr (Risk.risk_id r) = rid) rs
     then Inl (Raised ValueError (''LLM selected invalid risk_id: '' @ py_str env rid))
     else k))) = Inr u"
  shows "valid_item rs v \<and> k = Inr u"
proof (cases v)
  case (JObj d)
  with assms show ?thesis
    by (auto simp: valid_item_def and_then_eq_Inr list_ex_risk_id
             split: if_splits option.splits json.splits)
qed (use assms in \<open>simp_all add: and_then_eq_Inr split: if_splits\<close>)

lemma validate_ranked_valid:
  "validate_ranked env rs items = Inr u \<Longrightarrow> list_all (valid_item rs) items"
proof (induction items)
  case Nil
  then show ?case by simp
next
  case (Cons v items)
  from Cons.prems have "valid_item rs v \<and> validate_ranked env rs items = Inr u"
    by (intro validate_item_step) simp
  with Cons.IH show ?case by simp
qed

lemma str_dict_field_valid:
  assumes "str_dict_field env v = Inr d'" and "valid_item rs v"
  shows "valid_entry rs d'"
proof (cases v)
  case (JObj d)
  with assms(1) have items: "str_dict_items env d = Inr d'" by simp
  from assms(2) JObj obtain rid where
    rid: "map_of d ''risk_id'' = Some (JStr rid)" "rid \<in> set (map Risk.risk_id rs)"
    and re: "''reasoning'' \<in> set (map fst d)"
    by (auto simp: valid_item_def split: option.splits json.splits)
  from str_dict_items_map_of[OF items rid(1)] rid(2) re str_dict_items_keys[OF items]
  show ?thesis by (simp add: valid_entry_def)
qed (use assms in \<open>simp_all add: valid_item_def\<close>)

lemma str_dict_list_valid:
  "str_dict_list env vs = Inr ds \<Longrightarrow> list_all (valid_item rs) vs \<Longrightarrow> list_all (valid_entry rs) ds"
proof (induction vs arbitrary: ds)
  case Nil
  then show ?case by simp
next
  case (Cons v vs)
  from Cons.prems(1) obtain d ds0 where
    d: "str_dict_field env v = Inr d" and ds0: "str_dict_list env vs = Inr ds0" and ds: "ds = d # ds0"
    by (auto simp: and_then_eq_Inr)
  from Cons.prems(2) have "valid_item rs v" "list_all (valid_item rs) vs" by simp_all
  with str_dict_field_valid[OF d] Cons.IH[OF ds0] ds show ?case by simp
qed

lemma ranking_of_reply_Inr:
  assumes "ranking_of_reply env rs data = Inr r"
  shows "\<exists>d xs. data = JObj d \<and> map_of d ''risks'' = Some (JArr xs) \<and> length xs = TOP_N_RISKS
           \<and> list_all (valid_item rs) xs \<and> str_dict_list env xs = Inr (RiskRankingResult.risks r)"
proof -
  from assms obtain ranked n items u where
    g: "py_getitem data ''risks'' = Inr ranked" and n: "py_len ranked = Inr n" "n = TOP_N_RISKS"
    and it: "py_iter ranked = Inr items" and v: "validate_ranked env rs items = Inr u"
    and r: "validated_ranking env ranked = Inr r"
    unfolding ranking_of_reply_def by (auto simp: and_then_eq_Inr split: if_splits)
  from g obtain d where d: "data = JObj d" "map_of d ''risks'' = Some ranked"
    by (cases data) (auto split: option.splits)
  from r obtain xs where xs: "ranked = JArr xs" by (cases ranked) simp_all
  with r have "str_dict_list env xs = Inr (RiskRankingResult.risks r)"
    by (auto simp: and_then_eq_Inr)
  moreover from xs it n v have "length xs = TOP_N_RISKS" "list_all (valid_item rs) xs"
    by (auto dest: validate_ranked_valid)
  ultimately show ?thesis using d xs by simp
qed

lemma ranking_of_reply_valid:
  assumes "ranking_of_reply env rs data = Inr r"
  shows "length (RiskRankingResult.risks r) = TOP_N_RISKS \<and> list_all (valid_entry rs) (RiskRankingResult.risks r)"
proof -
  from ranking_of_reply_Inr[OF assms] obtain d xs where
    "length xs = TOP_N_RISKS" "list_all (valid_item rs) xs"
    "str_dict_list env xs = Inr (RiskRankingResult.risks r)" by blast
  then show ?thesis
    using str_dict_list_length str_dict_list_valid by fastforce
qed

lemma cut_candidates:
  "(if length rs > MAX_CANDIDATE_RISKS then take MAX_CANDIDATE_RISKS rs else rs) = take MAX_CANDIDATE_RISKS rs"
  by simp

lemma rank_and_select_unfold:
  "rank_and_select env tr proposal rs =
     (case format_proposal_text env proposal of
        Inl e \<Rightarrow> (Inl e, tr)
      | Inr text \<Rightarrow>
          (case generate_content env tr
                  (RiskRankingPrompt text (format_candidate_risks (take MAX_CANDIDATE_RISKS rs))) of
             LlmRaises c m \<Rightarrow> Inl (Raised c m)
           | LlmNotJson \<Rightarrow> Inl (Raised Exception ''Invalid JSON response from LLM'')
           | LlmJson data \<Rightarrow> ranking_of_reply env (take MAX_CANDIDATE_RISKS rs) data,
           tr @ [Generate (RiskRankingPrompt text
                   (format_candidate_risks (take MAX_CANDIDATE_RISKS rs)))]))"
  unfolding rank_and_select_def cut_candidates format_risk_ranking_prompt_def Let_def
  by (simp split: sum.splits llm_reply.splits)

lemma rank_and_select_valid:
  assumes "fst (rank_and_select env tr proposal rs) = Inr r"
  shows "length (RiskRankingResult.risks r) = TOP_N_RISKS
         \<and> list_all (valid_entry (take MAX_CANDIDATE_RISKS rs)) (RiskRankingResult.risks r)"
  using assms unfolding rank_and_select_unfold
  by (auto split: sum.splits llm_reply.splits dest: ranking_of_reply_valid)

lemmas format_defs = format_proposal_text_def add_field_def add_data_sources_def
  add_additional_fields_def dict_get_def py_str_def

lemma valid_entry_getitem:
  assumes "valid_entry rs d"
  shows "\<exists>rid reasoning. str_dict_getitem d ''risk_id'' = Inr rid \<and> rid \<in> set (map Risk.risk_id rs)
           \<and> str_dict_getitem d ''reasoning'' = Inr reasoning"
proof -
  from assms obtain rid where rid: "map_of d ''risk_id'' = Some rid" "rid \<in> set (map Risk.risk_id rs)"
    and re: "''reasoning'' \<in> set (map fst d)"
    by (cases "map_of d ''risk_id''") (simp_all add: valid_entry_def)
  from re have "map_of d ''reasoning'' \<noteq> None"
    by (simp add: map_of_eq_None_iff)
  then obtain reasoning where "map_of d ''reasoning'' = Some reasoning" by blast
  with rid show ?thesis by (simp add: str_dict_getitem_def)
qed

lemma risk_ids_of_valid:
  "list_all (valid_entry rs) ranked \<Longrightarrow> \<exists>rids. risk_ids_of ranked = Inr rids"
proof (induction ranked)
  case Nil
  then show ?case by simp
next
  case (Cons d ranked)
  then obtain rids where "risk_ids_of ranked = Inr rids" by auto
  moreover from Cons.prems have "valid_entry rs d" by simp
  then obtain rid where "str_dict_getitem d ''risk_id'' = Inr rid"
    using valid_entry_getitem[of rs d] by blast
  ultimately show ?case by simp
qed

lemma build_assessments_total:
  "list_all (valid_entry rs) ranked \<Longrightarrow> \<exists>out. build_assessments cs cbr ranked acc = Inr out"
proof (induction ranked arbitrary: acc)
  case Nil
  then show ?case by simp
next
  case (Cons d ranked)
  from Cons.prems have "valid_entry rs d" by simp
  then obtain rid reasoning where
    "str_dict_getitem d ''risk_id'' = Inr rid" "str_dict_getitem d ''reasoning'' = Inr reasoning"
    using valid_entry_getitem[of rs d] by blast
  moreover from Cons.prems have "list_all (valid_entry rs) ranked" by simp
  ultimately show ?case using Cons.IH by (cases "find_risk rid cs") simp_all
qed

lemma build_assessments_ids:
  "build_assessments cs cbr ranked acc = Inr out \<Longrightarrow> list_all (valid_entry rs) ranked \<Longrightarrow>
   a \<in> set out \<Longrightarrow> a \<in> set acc \<or> risk_id a \<in> set (map Risk.risk_id rs)"
proof (induction ranked arbitrary: acc)
  case Nil
  then show ?case by simp
next
  case (Cons d ranked)
  from Cons.prems(2) have "valid_entry rs d" by simp
  then obtain rid reasoning where
    g: "str_dict_getitem d ''risk_id'' = Inr rid" "str_dict_getitem d ''reasoning'' = Inr reasoning"
    and rid: "rid \<in> set (map Risk.risk_id rs)"
    using valid_entry_getitem[of rs d] by blast
  from Cons.prems(2) have rest: "list_all (valid_entry rs) ranked" by simp
  show ?case
  proof (cases "find_risk rid cs")
    case None
    with Cons.prems(1) g have "build_assessments cs cbr ranked acc = Inr out" by simp
    from Cons.IH[OF this rest Cons.prems(3)] show ?thesis .
  next
    case (Some risk_details)
    define new where "new = \<lparr>risk_id = rid,
               risk_title = Risk.risk_title risk_details,
               risk_description = Risk.risk_description risk_details,
               explanation = reasoning,
               controls = (case map_of cbr rid of None \<Rightarrow> [] | Some cs \<Rightarrow> cs)\<rparr>"
    from Cons.prems(1) g Some have b: "build_assessments cs cbr ranked (acc @ [new]) = Inr out"
      by (simp add: new_def)
    have new: "risk_id new = rid" by (simp add: new_def)
    from Cons.IH[OF b rest Cons.prems(3)] have "a \<in> set (acc @ [new]) \<or> risk_id a \<in> set (map Risk.risk_id rs)" .
    with new rid show ?thesis by auto
  qed
qed

lemma padded_length:
  "length a \<le> TOP_N_RISKS \<Longrightarrow>
   length (if length a \<noteq> TOP_N_RISKS then pad_assessments a else a) = TOP_N_RISKS"
  by (simp add: pad_assessments_length)

lemma assess_proposal_body_Inr:
  assumes "assess_proposal_body env tr proposal = (Inr res, t)"
  shows "\<exists>k t1 found t2 cs t3 rr t4 rids cbr a.
           extract_keywords env tr proposal = (Inr k, t1)
         \<and> search_risks env t1 (keywords k) = (Inr found, t2)
         \<and> (if found = [] then get_fallback_risks env t2 else (found, t2)) = (cs, t3)
         \<and> rank_and_select env t3 proposal cs = (Inr rr, t4)
         \<and> risk_ids_of (RiskRankingResult.risks rr) = Inr rids
         \<and> get_controls_for_risks env t4 rids = (Inr cbr, t)
         \<and> build_assessments cs cbr (RiskRankingResult.risks rr) [] = Inr a
         \<and> RiskAssessmentResult.risks res =
             (if length a \<noteq> TOP_N_RISKS then pad_assessments a else a)"
proof -
  note body = assms[unfolded assess_proposal_body_def]
  obtain ek t1 where ek: "extract_keywords env tr proposal = (ek, t1)" by fastforce
  obtain k where k: "ek = Inr k" using body ek by (cases ek) simp_all
  obtain sr t2 where sr: "search_risks env t1 (keywords k) = (sr, t2)" by fastforce
  obtain found where found: "sr = Inr found" using body ek k sr by (cases sr) simp_all
  obtain cs t3 where cs:
    "(if found = [] then get_fallback_risks env t2 else (found, t2)) = (cs, t3)" by fastforce
  obtain rk t4 where rk: "rank_and_select env t3 proposal cs = (rk, t4)" by fastforce
  obtain rr where rr: "rk = Inr rr" using body ek k sr found cs rk by (cases rk) simp_all
  obtain rids where rids: "risk_ids_of (RiskRankingResult.risks rr) = Inr rids"
    using body ek k sr found cs rk rr
    by (cases "risk_ids_of (RiskRankingResult.risks rr)") simp_all
  obtain gc t5 where gc: "get_controls_for_risks env t4 rids = (gc, t5)" by fastforce
  obtain cbr where cbr: "gc = Inr cbr"
    using body ek k sr found cs rk rr rids gc by (cases gc) simp_all
  obtain a where a: "build_assessments cs cbr (RiskRankingResult.risks rr) [] = Inr a"
    using body ek k sr found cs rk rr rids gc cbr
    by (cases "build_assessments cs cbr (RiskRankingResult.risks rr) []") simp_all
  from body ek k sr found cs rk rr rids gc cbr a
  have "t5 = t" "RiskAssessmentResult.risks res =
             (if length a \<noteq> TOP_N_RISKS then pad_assessments a else a)"
    by auto
  with ek k sr found cs rk rr rids gc cbr a show ?thesis by blast
qed

lemma assess_proposal_body_length:
  assumes "assess_proposal_body env tr proposal = (Inr res, t)"
  shows "length (RiskAssessmentResult.risks res) = TOP_N_RISKS"
proof -
  from assess_proposal_body_Inr[OF assms] obtain cs t3 rr t4 cbr a where
    rank: "rank_and_select env t3 proposal cs = (Inr rr, t4)"
    and build: "build_assessments cs cbr (RiskRankingResult.risks rr) [] = Inr a"
    and res: "RiskAssessmentResult.risks res =
                (if length a \<noteq> TOP_N_RISKS then pad_assessments a else a)"
    by blast
  from rank have "fst (rank_and_select env t3 proposal cs) = Inr rr" by simp
  from rank_and_select_valid[OF this]
  have "length (RiskRankingResult.risks rr) = TOP_N_RISKS" by simp
  with build_assessments_length[OF build] have "length a \<le> TOP_N_RISKS" by simp
  with res show ?thesis by (simp only: padded_length)
qed

lemma body_extract_fail:
  assumes "extract_keywords env tr proposal = (Inl e, t)"
  shows "assess_proposal_body env tr proposal = (Inl e, t)"
  using assms by (simp add: assess_proposal_body_def)

lemma body_search_fail:
  assumes "extract_keywords env tr proposal = (Inr k, t1)"
    and "search_risks env t1 (keywords k) = (Inl e, t)"
  shows "assess_proposal_body env tr proposal = (Inl e, t)"
  using assms by (simp add: assess_proposal_body_def)

lemma body_rank_fail:
  assumes "extract_keywords env tr proposal = (Inr k, t1)"
    and "search_risks env t1 (keywords k) = (Inr found, t2)"
    and "(if found = [] then get_fallback_risks env t2 else (found, t2)) = (cs, t3)"
    and "rank_and_select env t3 proposal cs = (Inl e, t)"
  shows "assess_proposal_body env tr proposal = (Inl e, t)"
  using assms by (simp add: assess_proposal_body_def)

lemma body_controls_fail:
  assumes "extract_keywords env tr proposal = (Inr k, t1)"
    and "search_risks env t1 (keywords k) = (Inr found, t2)"
    and "(if found = [] then get_fallback_risks env t2 else (found, t2)) = (cs, t3)"
    and "rank_and_select env t3 proposal cs = (Inr rr, t4)"
    and "risk_ids_of (RiskRankingResult.risks rr) = Inr rids"
    and "get_controls_for_risks env t4 rids = (Inl e, t)"
  shows "assess_proposal_body env tr proposal = (Inl e, t)"
  using assms by (simp add: assess_proposal_body_def)

lemma assess_proposal_Inl:
  assumes "assess_proposal_body env tr proposal = (Inl e, t)"
  shows "assess_proposal env tr proposal =
           (\<lparr>RiskAssessmentResult.risks = replicate TOP_N_RISKS (error_assessment env e)\<rparr>, t)"
  using assms by (simp add: assess_proposal_def)

lemma stub_generate_keywords:
  "generate_content (stub_env kw rk sr rel) tr (KeywordExtractionPrompt text) = kw"
  by (simp add: stub_env_def)

lemma stub_generate_ranking:
  "generate_content (stub_env kw rk sr rel) tr (RiskRankingPrompt text cands) = rk"
  by (simp add: stub_env_def)

lemma stub_search:
  "session_get (stub_env kw rk sr rel) tr ''/api/search'' name v = sr"
  by (simp add: stub_env_def)

lemma stub_relationships:
  "session_get (stub_env kw rk sr rel) tr ''/api/relationships'' name v = rel"
  by (simp add: stub_env_def)

lemmas stub_simps = stub_generate_keywords stub_generate_ranking stub_search stub_relationships

lemma scenario_format:
  "format_proposal_text (stub_env kw rk sr rel) scenario_proposal = Inr ''Description: Deploy a chatbot''"
  by (simp add: format_defs scenario_proposal_def)

lemma scenario_extract:
  "extract_keywords (stub_env scenario_keywords rk sr rel) [] scenario_proposal =
     (Inr \<lparr>keywords = map code_points [''data privacy'', ''model deployment'', ''third party'', ''bias''],
           confidence = Finite (9 / 10)\<rparr>,
      [Generate (KeywordExtractionPrompt ''Description: Deploy a chatbot'')])"
  by (simp add: extract_keywords_def scenario_format format_keyword_extraction_prompt_def
        keywords_of_reply_def py_float_def scenario_keywords_def stub_simps Let_def)

lemma sanitize_plain:
  "sanitize_keyword (code_points ''data privacy'') = code_points ''data privacy''"
  "sanitize_keyword (code_points ''model deployment'') = code_points ''model deployment''"
  "sanitize_keyword (code_points ''third party'') = code_points ''third party''"
  by (simp_all add: code_points_def sanitize_keyword_def keyword_char_def re_space_def)

lemma scenario_search:
  "search_risks (stub_env kw rk scenario_found rel) tr
     [code_points ''data privacy'', code_points ''model deployment'',
      code_points ''third party'', code_points ''bias''] =
     (Inr scenario_candidates,
      tr @ [HttpGet ''/api/search'' ''q'' (code_points ''data privacy''),
            HttpGet ''/api/search'' ''q'' (code_points ''model deployment''),
            HttpGet ''/api/search'' ''q'' (code_points ''third party'')])"
  by (simp add: search_risks_def sanitize_plain stub_simps scenario_found_def
        scenario_candidates_def dict_get_def key_in_def py_eq_def Let_def)

lemma str_nat_TOP_N: "str_nat TOP_N_RISKS = ''3''"
  by (simp add: TOP_N_RISKS_def str_nat.simps digit_char_def)

lemma scenario_not_fallback:
  "(if scenario_candidates = [] then get_fallback_risks env t else (scenario_candidates, t))
   = (scenario_candidates, t)"
  by (simp add: scenario_candidates_def)

lemma scenario_cut: "take MAX_CANDIDATE_RISKS scenario_candidates = scenario_candidates"
  by (simp add: scenario_candidates_def MAX_CANDIDATE_RISKS_def)

lemma ranking_of_reply_count:
  assumes "map_of d ''risks'' = Some (JArr xs)" and "length xs \<noteq> TOP_N_RISKS"
  shows "ranking_of_reply env rs (JObj d) =
           Inl (Raised ValueError (''Expected 3 risks, got '' @ str_nat (length xs)))"
proof -
  from assms(1) have "''risks'' \<in> set (map fst d)"
    by (metis map_of_eq_None_iff option.distinct(1) set_map)
  with assms show ?thesis
    by (simp add: ranking_of_reply_def str_nat_TOP_N)
qed

lemma valid_item_ids:
  assumes "valid_item rs (JObj item)" and "map_of item ''risk_id'' = Some v"
  shows "v \<in> set (map (\<lambda>r. JStr (Risk.risk_id r)) rs)"
  using assms by (auto simp: valid_item_def split: json.splits)

lemma ranking_of_reply_hallucinated:
  assumes "map_of d ''risks'' = Some (JArr xs)" and "JObj item \<in> set xs"
    and "map_of item ''risk_id'' = Some v"
    and "v \<notin> set (map (\<lambda>r. JStr (Risk.risk_id r)) rs)"
  shows "\<exists>e. ranking_of_reply env rs (JObj d) = Inl e"
proof (cases "ranking_of_reply env rs (JObj d)")
  case (Inl e)
  then show ?thesis by blast
next
  case (Inr r)
  from ranking_of_reply_Inr[OF Inr] assms(1) have "list_all (valid_item rs) xs" by auto
  with assms(2) have "valid_item rs (JObj item)" by (simp add: list_all_iff)
  from valid_item_ids[OF this assms(3)] assms(4) show ?thesis by simp
qed

lemma validate_ranked_pass:
  assumes "valid_item rs x"
  shows "validate_ranked env rs (x # rest) = validate_ranked env rs rest"
proof (cases x)
  case (JObj dx)
  with assms obtain rid where "map_of dx ''risk_id'' = Some (JStr rid)"
    "rid \<in> set (map Risk.risk_id rs)" "''reasoning'' \<in> set (map fst dx)"
    by (auto simp: valid_item_def split: option.splits json.splits)
  moreover from this(1) have "''risk_id'' \<in> set (map fst dx)"
    by (metis map_of_eq_None_iff option.distinct(1) set_map)
  ultimately show ?thesis using JObj by (simp add: list_ex_risk_id)
qed (use assms in \<open>simp_all add: valid_item_def\<close>)

lemma validate_ranked_prefix:
  "list_all (valid_item rs) pre \<Longrightarrow>
   validate_ranked env rs (pre @ rest) = validate_ranked env rs rest"
  by (induction pre) (simp_all add: validate_ranked_pass del: validate_ranked.simps)

lemma validate_ranked_invalid_id:
  assumes "map_of item ''risk_id'' = Some v" and "''reasoning'' \<in> set (map fst item)"
    and "v \<notin> set (map (\<lambda>r. JStr (Risk.risk_id r)) rs)"
  shows "validate_ranked env rs (JObj item # post) =
           Inl (Raised ValueError (''LLM selected invalid risk_id: '' @ py_str env v))"
proof -
  from assms(1) have "''risk_id'' \<in> set (map fst item)"
    by (metis map_of_eq_None_iff option.distinct(1) set_map)
  moreover from assms(3) have "\<not> list_ex (\<lambda>r. JStr (Risk.risk_id r) = v) rs"
    by (auto simp: list_ex_iff)
  ultimately show ?thesis using assms(1,2) by simp
qed

lemma ranking_of_reply_invalid_id:
  assumes "map_of d ''risks'' = Some (JArr (pre @ JObj item # post))"
    and "length (pre @ JObj item # post) = TOP_N_RISKS"
    and "list_all (valid_item rs) pre"
    and "map_of item ''risk_id'' = Some v" and "''reasoning'' \<in> set (map fst item)"
    and "v \<notin> set (map (\<lambda>r. JStr (Risk.risk_id r)) rs)"
  shows "ranking_of_reply env rs (JObj d) =
           Inl (Raised ValueError (''LLM selected invalid risk_id: '' @ py_str env v))"
proof -
  from assms(1) have "''risks'' \<in> set (map fst d)"
    by (metis map_of_eq_None_iff option.distinct(1) set_map)
  moreover have "validate_ranked env rs (pre @ JObj item # post) =
           Inl (Raised ValueError (''LLM selected invalid risk_id: '' @ py_str env v))"
    by (simp only: validate_ranked_prefix[OF assms(3)] validate_ranked_invalid_id[OF assms(4-6)])
  ultimately show ?thesis using assms(1,2)
    by (simp add: ranking_of_reply_def del: validate_ranked.simps)
qed

lemma assess_proposal_entries:
  assumes "a \<in> set (RiskAssessmentResult.risks (fst (assess_proposal env tr proposal)))"
  shows "(\<exists>e. a = error_assessment env e) \<or> a = padding_assessment
       \<or> (\<exists>k t1 found t2 cs t3 rr t4.
              extract_keywords env tr proposal = (Inr k, t1)
            \<and> search_risks env t1 (keywords k) = (Inr found, t2)
            \<and> (if found = [] then get_fallback_risks env t2 else (found, t2)) = (cs, t3)
            \<and> rank_and_select env t3 proposal cs = (Inr rr, t4)
            \<and> risk_id a \<in> set (map Risk.risk_id (take MAX_CANDIDATE_RISKS cs)))"
proof (cases "assess_proposal_body env tr proposal")
  case (Pair res t)
  show ?thesis
  proof (cases res)
    case (Inl e)
    with Pair assms have "a = error_assessment env e"
      by (simp add: assess_proposal_def)
    then show ?thesis by blast
  next
    case (Inr r)
    with Pair have body: "assess_proposal_body env tr proposal = (Inr r, t)" by simp
    from assess_proposal_body_Inr[OF body] obtain k t1 found t2 cs t3 rr t4 rids cbr out where
      st: "extract_keywords env tr proposal = (Inr k, t1)"
          "search_risks env t1 (keywords k) = (Inr found, t2)"
          "(if found = [] then get_fallback_risks env t2 else (found, t2)) = (cs, t3)"
          "rank_and_select env t3 proposal cs = (Inr rr, t4)"
      and build: "build_assessments cs cbr (RiskRankingResult.risks rr) [] = Inr out"
      and res: "RiskAssessmentResult.risks r =
                  (if length out \<noteq> TOP_N_RISKS then pad_assessments out else out)"
      by blast
    from body assms have "a \<in> set (RiskAssessmentResult.risks r)"
      by (simp add: assess_proposal_def)
    with res have "a \<in> set out \<or> a = padding_assessment"
      by (auto simp: pad_assessments_eq split: if_splits)
    then show ?thesis
    proof
      assume "a \<in> set out"
      from st(4) have "fst (rank_and_select env t3 proposal cs) = Inr rr" by simp
      from rank_and_select_valid[OF this]
      have "list_all (valid_entry (take MAX_CANDIDATE_RISKS cs)) (RiskRankingResult.risks rr)"
        by simp
      from build_assessments_ids[OF build this \<open>a \<in> set out\<close>]
      have "risk_id a \<in> set (map Risk.risk_id (take MAX_CANDIDATE_RISKS cs))" by simp
      with st show ?thesis by blast
    next
      assume "a = padding_assessment"
      then show ?thesis by blast
    qed
  qed
qed

lemma scenario_rank:
  "rank_and_select (stub_env kw scenario_ranking sr rel) tr scenario_proposal scenario_candidates =
     (Inr \<lparr>RiskRankingResult.risks =
             [[(''risk_id'', ''R.AIR.003''), (''reasoning'', ''c'')],
              [(''risk_id'', ''R.AIR.001''), (''reasoning'', ''a'')],
              [(''risk_id'', ''R.AIR.002''), (''reasoning'', ''b'')]]\<rparr>,
      tr @ [Generate (RiskRankingPrompt ''Description: Deploy a chatbot''
                        (format_candidate_risks scenario_candidates))])"
proof -
  have "ranking_of_reply (stub_env kw scenario_ranking sr rel) scenario_candidates
          (JObj [(''risks'',
             JArr [JObj [(''risk_id'', JStr ''R.AIR.003''), (''reasoning'', JStr ''c'')],
                   JObj [(''risk_id'', JStr ''R.AIR.001''), (''reasoning'', JStr ''a'')],
                   JObj [(''risk_id'', JStr ''R.AIR.002''), (''reasoning'', JStr ''b'')]])])
        = Inr \<lparr>RiskRankingResult.risks =
             [[(''risk_id'', ''R.AIR.003''), (''reasoning'', ''c'')],
              [(''risk_id'', ''R.AIR.001''), (''reasoning'', ''a'')],
              [(''risk_id'', ''R.AIR.002''), (''reasoning'', ''b'')]]\<rparr>"
    by (simp add: ranking_of_reply_def TOP_N_RISKS_def scenario_candidates_def)
  then show ?thesis
    by (simp add: rank_and_select_unfold scenario_format stub_simps scenario_cut
          scenario_ranking_def)
qed

lemma risk_id_format_scenario:
  "risk_id_format ''R.AIR.001''" "risk_id_format ''R.AIR.002''" "risk_id_format ''R.AIR.003''"
  by (simp_all add: risk_id_format_def upper_char_def digit_class_def)

lemma scenario_controls:
  "get_controls_for_risks (stub_env kw rk sr scenario_relationships) tr
     [''R.AIR.003'', ''R.AIR.001'', ''R.AIR.002''] =
     (Inr [(''R.AIR.003'', [\<lparr>control_id = ''C.AIIM.3'', control_title = ''Control C.AIIM.3'',
                              control_description = Some ''Control for risk R.AIR.003''\<rparr>]),
           (''R.AIR.001'', [\<lparr>control_id = ''C.AIIM.1'', control_title = ''Control C.AIIM.1'',
                              control_description = Some ''Control for risk R.AIR.001''\<rparr>]),
           (''R.AIR.002'', [])],
      tr @ [HttpGet ''/api/relationships'' ''risk_ids'' (code_points ''R.AIR.003,R.AIR.001,R.AIR.002'')])"
  by (simp add: get_controls_for_risks_def validate_risk_id_def risk_id_format_scenario
        stub_simps scenario_relationships_def dict_get_def py_str_def Let_def)

lemma scenario_run:
  "assess_proposal scenario_env [] scenario_proposal =
     (\<lparr>RiskAssessmentResult.risks = scenario_assessments\<rparr>, scenario_trace)"
proof -
  have "assess_proposal_body scenario_env [] scenario_proposal =
          (Inr \<lparr>RiskAssessmentResult.risks = scenario_assessments\<rparr>, scenario_trace)"
    unfolding assess_proposal_body_def scenario_env_def
    by (simp add: scenario_extract scenario_search scenario_not_fallback scenario_rank
          scenario_controls str_dict_getitem_def)
       (simp add: scenario_candidates_def scenario_assessments_def scenario_trace_def
          TOP_N_RISKS_def str_dict_getitem_def)
  then show ?thesis by (simp add: assess_proposal_def)
qed

lemma keyword_char_iff: "keyword_char n = (n \<in> kept_chars)"
  unfolding keyword_char_def re_space_def kept_chars_def ascii_letters_def ascii_digits_def
    whitespace_chars_def code_points_def
  by simp arith

lemma sanitize_keyword_eq:
  "sanitize_keyword k = take 100 (filter (\<lambda>c. c \<in> kept_chars) k)"
proof -
  have "keyword_char = (\<lambda>c. c \<in> kept_chars)"
    by (intro ext) (rule keyword_char_iff)
  then show ?thesis by (simp add: sanitize_keyword_def)
qed

lemma search_each_trace:
  "\<exists>n \<le> length ks.
     snd (search_each env tr ks acc) = tr @ map (HttpGet ''/api/search'' ''q'') (take n ks)
     \<and> (\<forall>r. fst (search_each env tr ks acc) = Inr r \<longrightarrow> n = length ks)"
proof (induction ks arbitrary: tr acc)
  case Nil
  then show ?case by simp
next
  case (Cons k ks)
  let ?ev = "HttpGet ''/api/search'' ''q'' k"
  show ?case
  proof (cases "session_get env tr ''/api/search'' ''q'' k")
    case (HttpRaises c m)
    then have "snd (search_each env tr (k # ks) acc) = tr @ map (HttpGet ''/api/search'' ''q'') (take 1 (k # ks))"
      "\<forall>r. fst (search_each env tr (k # ks) acc) \<noteq> Inr r"
      by simp_all
    then show ?thesis by (intro exI[of _ 1]) simp
  next
    case (HttpJson data)
    show ?thesis
    proof (cases "and_then (py_get data ''results'' (JArr [])) (\<lambda>results.
                    and_then (py_iter results) (\<lambda>items. add_results env items acc))")
      case (Inl e)
      with HttpJson have "snd (search_each env tr (k # ks) acc) = tr @ map (HttpGet ''/api/search'' ''q'') (take 1 (k # ks))"
        "\<forall>r. fst (search_each env tr (k # ks) acc) \<noteq> Inr r"
        by simp_all
      then show ?thesis by (intro exI[of _ 1]) simp
    next
      case (Inr acc')
      with HttpJson have step: "search_each env tr (k # ks) acc = search_each env (tr @ [?ev]) ks acc'"
        by simp
      from Cons.IH[of "tr @ [?ev]" acc'] obtain n where n: "n \<le> length ks"
        "snd (search_each env (tr @ [?ev]) ks acc') = (tr @ [?ev]) @ map (HttpGet ''/api/search'' ''q'') (take n ks)"
        "\<forall>r. fst (search_each env (tr @ [?ev]) ks acc') = Inr r \<longrightarrow> n = length ks"
        by blast
      with step show ?thesis by (intro exI[of _ "Suc n"]) simp
    qed
  qed
qed

lemma search_risks_trace:
  "\<exists>n \<le> 3.
     snd (search_risks env tr kws) =
       tr @ map (\<lambda>k. HttpGet ''/api/search'' ''q'' (sanitize_keyword k)) (take n kws)
     \<and> (\<forall>rs. fst (search_risks env tr kws) = Inr rs \<longrightarrow> n = min 3 (length kws))"
proof -
  let ?ks = "take 3 (map sanitize_keyword kws)"
  from search_each_trace[of ?ks env tr "[]"] obtain n where n: "n \<le> length ?ks"
    "snd (search_each env tr ?ks []) = tr @ map (HttpGet ''/api/search'' ''q'') (take n ?ks)"
    "\<forall>r. fst (search_each env tr ?ks []) = Inr r \<longrightarrow> n = length ?ks"
    by blast
  from n(1) have n3: "n \<le> 3" by simp
  then have tk: "take n ?ks = map sanitize_keyword (take n kws)"
    by (simp add: take_map min_def)
  have "snd (search_risks env tr kws) = snd (search_each env tr ?ks [])"
    by (simp add: search_risks_def Let_def split: prod.splits sum.splits)
  with n(2) tk have "snd (search_risks env tr kws) =
       tr @ map (\<lambda>k. HttpGet ''/api/search'' ''q'' (sanitize_keyword k)) (take n kws)"
    by (simp add: comp_def)
  moreover have "n = min 3 (length kws)" if "fst (search_risks env tr kws) = Inr rs" for rs
  proof -
    from that obtain r where "fst (search_each env tr ?ks []) = Inr r"
      by (auto simp: search_risks_def Let_def split: prod.splits sum.splits)
    with n(3) show ?thesis by simp
  qed
  ultimately show ?thesis using n3 by blast
qed

lemma search_risks_first_three:
  "search_risks env tr kws = search_risks env tr (take 3 kws)"
  by (simp add: search_risks_def take_map)

lemma str_list_field_strs: "str_list_field env (map JStr ss) = Inr ss"
  by (induction ss) simp_all

lemma extract_keywords_unfold:
  assumes "format_proposal_text env proposal = Inr text"
    and "generate_content env tr (KeywordExtractionPrompt text) = LlmJson data"
  shows "extract_keywords env tr proposal =
           (keywords_of_reply env data, tr @ [Generate (KeywordExtractionPrompt text)])"
  using assms by (simp add: extract_keywords_def format_keyword_extraction_prompt_def Let_def)

lemma keywords_of_reply_fields:
  assumes "map_of d ''keywords'' = Some kws" and "map_of d ''confidence'' = Some c"
  shows "keywords_of_reply env (JObj d) =
           and_then (py_float env c) (\<lambda>conf.
             case kws of
               JArr ks \<Rightarrow>
                 if ks = [] then Inl (Raised ValueError ''No keywords extracted'')
                 else and_then (str_list_field env ks) (\<lambda>ss.
                        Inr \<lparr>keywords = map code_points ss, confidence = conf\<rparr>)
             | _ \<Rightarrow> Inl (Raised ValueError ''No keywords extracted''))"
proof -
  from assms have "''keywords'' \<in> set (map fst d)" "''confidence'' \<in> set (map fst d)"
    by (metis map_of_eq_None_iff option.distinct(1) set_map)+
  with assms show ?thesis
    by (simp add: keywords_of_reply_def cong: json.case_cong)
qed

lemma str_items_strs:
  "list_all is_str xs \<Longrightarrow> str_items xs = Inr (map (py_str env) xs)"
proof (induction xs)
  case Nil
  then show ?case by simp
next
  case (Cons v xs)
  then show ?case by (cases v) (simp_all add: py_str_def)
qed

lemma str_items_other:
  "\<not> list_all is_str xs \<Longrightarrow> \<exists>e. str_items xs = Inl e"
proof (induction xs)
  case Nil
  then show ?case by simp
next
  case (Cons v xs)
  then show ?case by (cases v) auto
qed

lemma add_field_block:
  "key \<noteq> ''data_sources'' \<Longrightarrow>
   add_field env proposal key label parts = parts @ field_block env proposal (key, label)"
  by (simp add: add_field_def field_block_def field_value_def)

lemma add_data_sources_block:
  assumes "case dict_get proposal ''data_sources'' JNull of
             JArr xs \<Rightarrow> list_all is_str xs | _ \<Rightarrow> True"
  shows "add_data_sources env proposal parts =
           Inr (parts @ field_block env proposal (''data_sources'', ''Data Sources''))"
proof (cases "dict_get proposal ''data_sources'' JNull")
  case (JArr xs)
  with assms have "list_all is_str xs" by simp
  from str_items_strs[OF this, of env] JArr show ?thesis
    by (simp add: add_data_sources_def field_block_def field_value_def)
qed (simp_all add: add_data_sources_def field_block_def field_value_def)

lemma add_data_sources_raises:
  assumes "\<not> (case dict_get proposal ''data_sources'' JNull of
                JArr xs \<Rightarrow> list_all is_str xs | _ \<Rightarrow> True)"
  shows "\<exists>e. add_data_sources env proposal parts = Inl e"
proof (cases "dict_get proposal ''data_sources'' JNull")
  case (JArr xs)
  with assms have bad: "\<not> list_all is_str xs" by simp
  then have "xs \<noteq> []" by auto
  moreover from str_items_other[OF bad] obtain e where "str_items xs = Inl e" by blast
  ultimately show ?thesis using JArr by (simp add: add_data_sources_def)
qed (use assms in simp_all)

lemma add_additional_fields_blocks:
  assumes "case dict_get proposal ''additional_fields'' JNull of
             JObj items \<Rightarrow> True | v \<Rightarrow> \<not> py_truthy v"
  shows "add_additional_fields env proposal parts = Inr (parts @ additional_blocks env proposal)"
  using assms
  by (cases "dict_get proposal ''additional_fields'' JNull")
     (simp_all add: add_additional_fields_def additional_blocks_def)

lemma add_additional_fields_raises:
  assumes "\<not> (case dict_get proposal ''additional_fields'' JNull of
                JObj items \<Rightarrow> True | v \<Rightarrow> \<not> py_truthy v)"
  shows "\<exists>e. add_additional_fields env proposal parts = Inl e"
  using assms
  by (cases "dict_get proposal ''additional_fields'' JNull")
     (simp_all add: add_additional_fields_def)

lemma format_proposal_text_steps:
  "format_proposal_text env proposal =
     and_then (add_data_sources env proposal
                 (field_block env proposal (''proposal_title'', ''Title'')
                  @ field_block env proposal (''description'', ''Description'')
                  @ field_block env proposal (''technical_approach'', ''Technical Approach'')))
       (\<lambda>parts.
          and_then (add_additional_fields env proposal
                      (parts
                       @ field_block env proposal (''deployment'', ''Deployment'')
                       @ field_block env proposal (''data_governance'', ''Data Governance'')
                       @ field_block env proposal (''model_governance'', ''Model Governance'')
                       @ field_block env proposal (''security_measures'', ''Security Measures'')))
            (\<lambda>parts. Inr (join ''\<newline>\<newline>'' parts)))"
  by (simp add: format_proposal_text_def add_field_block Let_def)

lemma extract_Inr_format:
  assumes "extract_keywords env tr proposal = (Inr k, t1)"
  shows "\<exists>text. format_proposal_text env proposal = Inr text"
  using assms by (cases "format_proposal_text env proposal") (simp_all add: extract_keywords_def)

lemma rank_empty_fails:
  "\<exists>e. fst (rank_and_select env tr proposal []) = Inl e"
proof (cases "fst (rank_and_select env tr proposal [])")
  case (Inl e)
  then show ?thesis by blast
next
  case (Inr r)
  from rank_and_select_valid[OF Inr]
  have len: "length (RiskRankingResult.risks r) = TOP_N_RISKS"
    and all: "list_all (valid_entry []) (RiskRankingResult.risks r)" by simp_all
  from len obtain d ds where "RiskRankingResult.risks r = d # ds"
    by (cases "RiskRankingResult.risks r") (simp_all add: TOP_N_RISKS_def)
  with all have "valid_entry [] d" by simp
  then show ?thesis by (simp add: valid_entry_def split: option.splits)
qed

lemma get_controls_trace:
  "\<exists>rest. snd (get_controls_for_risks env t rids) = t @ rest"
  by (simp add: get_controls_for_risks_def Let_def split: sum.splits http_reply.splits)

lemma assess_trace_after_rank:
  assumes "extract_keywords env tr proposal = (Inr k, t1)"
    and "search_risks env t1 (keywords k) = (Inr found, t2)"
    and "(if found = [] then get_fallback_risks env t2 else (found, t2)) = (cs, t3)"
    and "rank_and_select env t3 proposal cs = (rk, t4)"
  shows "\<exists>rest. snd (assess_proposal env tr proposal) = t4 @ rest"
proof (cases rk)
  case (Inl e)
  with assms have "assess_proposal_body env tr proposal = (Inl e, t4)"
    by (simp add: assess_proposal_body_def)
  then show ?thesis by (simp add: assess_proposal_def)
next
  case (Inr rr)
  show ?thesis
  proof (cases "risk_ids_of (RiskRankingResult.risks rr)")
    case (Inl e)
    with assms Inr have "assess_proposal_body env tr proposal = (Inl e, t4)"
      by (simp add: assess_proposal_body_def)
    then show ?thesis by (simp add: assess_proposal_def)
  next
    case rids: (Inr rids)
    obtain gc t5 where gc: "get_controls_for_risks env t4 rids = (gc, t5)" by fastforce
    with get_controls_trace[of env t4 rids] obtain rest where t5: "t5 = t4 @ rest" by auto
    have "snd (assess_proposal_body env tr proposal) = t5"
    proof (cases gc)
      case (Inl e)
      with assms Inr rids gc show ?thesis by (simp add: assess_proposal_body_def)
    next
      case cbr: (Inr cbr)
      show ?thesis
      proof (cases "build_assessments cs cbr (RiskRankingResult.risks rr) []")
        case (Inl e)
        with assms Inr rids gc cbr show ?thesis by (simp add: assess_proposal_body_def)
      next
        case out: (Inr out)
        with assms Inr rids gc cbr show ?thesis by (simp add: assess_proposal_body_def)
      qed
    qed
    moreover have "snd (assess_proposal env tr proposal) = snd (assess_proposal_body env tr proposal)"
      by (simp add: assess_proposal_def split: prod.splits sum.splits)
    ultimately show ?thesis using t5 by simp
  qed
qed

lemma sanitize_fallback:
  "sanitize_keyword (code_points ''data'') = code_points ''data''" "sanitize_keyword (code_points ''model'') = code_points ''model''"
  "sanitize_keyword (code_points ''security'') = code_points ''security''"
  by (simp_all add: code_points_def sanitize_keyword_def keyword_char_def re_space_def)

lemma fallback_trace:
  assumes "search_risks env t2 (map code_points [''data'', ''model'', ''security'', ''privacy'', ''governance''])
             = (fb, t3)"
  shows "\<exists>n \<le> 3. t3 = t2 @ map (HttpGet ''/api/search'' ''q'')
                                (take n (map code_points [''data'', ''model'', ''security'']))"
proof -
  from search_risks_trace[of env t2
         "map code_points [''data'', ''model'', ''security'', ''privacy'', ''governance'']"]
    assms
  obtain n where n: "n \<le> 3"
    "t3 = t2 @ map (\<lambda>k. HttpGet ''/api/search'' ''q'' (sanitize_keyword k))
                  (take n (map code_points [''data'', ''model'', ''security'', ''privacy'', ''governance'']))"
    by auto
  from n(1) consider "n = 0" | "n = 1" | "n = 2" | "n = 3" by linarith
  then have "map (\<lambda>k. HttpGet ''/api/search'' ''q'' (sanitize_keyword k))
                  (take n (map code_points [''data'', ''model'', ''security'', ''privacy'', ''governance'']))
             = map (HttpGet ''/api/search'' ''q'') (take n (map code_points [''data'', ''model'', ''security'']))"
    by cases (simp_all add: sanitize_fallback numeral_2_eq_2 numeral_3_eq_3)
  with n show ?thesis by auto
qed

lemma get_fallback_risks_eq:
  assumes "search_risks env t2 (map code_points [''data'', ''model'', ''security'', ''privacy'', ''governance''])
             = (fb, t3)"
  shows "get_fallback_risks env t2 = ((case fb of Inl e \<Rightarrow> [] | Inr cs \<Rightarrow> cs), t3)"
  using assms by (cases fb) (simp_all add: get_fallback_risks_def)

lemma format_no_candidates: "format_candidate_risks [] = []"
  by (simp add: format_candidate_risks_def)

lemma sanitize_bias: "sanitize_keyword (code_points ''bias'') = code_points ''bias''"
  by (simp add: code_points_def sanitize_keyword_def keyword_char_def re_space_def)

lemma nothing_found_search:
  "search_risks (stub_env kw rk nothing_found rel) tr
     [code_points ''data privacy'', code_points ''model deployment'',
      code_points ''third party'', code_points ''bias''] =
     (Inr [],
      tr @ [HttpGet ''/api/search'' ''q'' (code_points ''data privacy''),
            HttpGet ''/api/search'' ''q'' (code_points ''model deployment''),
            HttpGet ''/api/search'' ''q'' (code_points ''third party'')])"
  by (simp add: search_risks_def sanitize_plain stub_simps nothing_found_def dict_get_def Let_def)

lemma nothing_found_fallback:
  "search_risks (stub_env kw rk nothing_found rel) tr
     [code_points ''data'', code_points ''model'', code_points ''security'',
      code_points ''privacy'', code_points ''governance''] =
     (Inr [],
      tr @ [HttpGet ''/api/search'' ''q'' (code_points ''data''),
            HttpGet ''/api/search'' ''q'' (code_points ''model''),
            HttpGet ''/api/search'' ''q'' (code_points ''security'')])"
  by (simp add: search_risks_def sanitize_fallback stub_simps nothing_found_def dict_get_def
        Let_def)

lemma nothing_found_rank:
  "rank_and_select (stub_env kw scenario_ranking sr rel) tr scenario_proposal [] =
     (Inl (Raised ValueError ''LLM selected invalid risk_id: R.AIR.003''),
      tr @ [Generate (RiskRankingPrompt ''Description: Deploy a chatbot'' [])])"
  by (simp add: rank_and_select_unfold scenario_format stub_simps scenario_ranking_def
        ranking_of_reply_def TOP_N_RISKS_def py_str_def format_no_candidates)

lemma bit_length_le: "n < 2 ^ k \<Longrightarrow> bit_length n \<le> k"
proof (induction k arbitrary: n)
  case 0
  then show ?case by (simp add: bit_length.simps)
next
  case (Suc k)
  then have "n div 2 < 2 ^ k" by simp
  from Suc.IH[OF this] show ?case by (subst bit_length.simps) simp
qed

lemma round_binary64_exact:
  assumes "\<bar>i\<bar> < 2 ^ 53"
  shows "round_binary64 i = of_int i"
proof -
  define n where "n = nat \<bar>i\<bar>"
  from assms have "n < 2 ^ 53" by (simp add: n_def nat_less_iff)
  then have e: "bit_length n - 53 = 0" using bit_length_le by simp
  have "round_binary64 i = (if i < 0 then - real n else real n)"
    unfolding round_binary64_def Let_def n_def[symmetric] e by simp
  then show ?thesis by (simp add: n_def)
qed

lemma bit_length_tie: "bit_length 9007199254740993 = 54"
  by (simp add: bit_length.simps)

lemma round_binary64_tie: "round_binary64 9007199254740993 = 9007199254740992"
  by (simp add: round_binary64_def bit_length_tie Let_def)

lemma many_candidates_eq:
  "many_candidates =
     [numbered_risk 101, numbered_risk 102, numbered_risk 103, numbered_risk 104,
      numbered_risk 105, numbered_risk 106, numbered_risk 107, numbered_risk 108,
      numbered_risk 109, numbered_risk 110, numbered_risk 111, numbered_risk 112,
      numbered_risk 113, numbered_risk 114, numbered_risk 115, numbered_risk 116,
      numbered_risk 117, numbered_risk 118, numbered_risk 119, numbered_risk 120,
      numbered_risk 121, numbered_risk 122, numbered_risk 123, numbered_risk 124,
      numbered_risk 125, numbered_risk 126, numbered_risk 127, numbered_risk 128,
      numbered_risk 129, numbered_risk 130, numbered_risk 131]"
  by (simp add: many_candidates_def upt_rec)

lemma many_candidates_cut:
  "take MAX_CANDIDATE_RISKS many_candidates =
     [numbered_risk 101, numbered_risk 102, numbered_risk 103, numbered_risk 104,
      numbered_risk 105, numbered_risk 106, numbered_risk 107, numbered_risk 108,
      numbered_risk 109, numbered_risk 110, numbered_risk 111, numbered_risk 112,
      numbered_risk 113, numbered_risk 114, numbered_risk 115, numbered_risk 116,
      numbered_risk 117, numbered_risk 118, numbered_risk 119, numbered_risk 120,
      numbered_risk 121, numbered_risk 122, numbered_risk 123, numbered_risk 124,
      numbered_risk 125, numbered_risk 126, numbered_risk 127, numbered_risk 128,
      numbered_risk 129, numbered_risk 130]"
  by (simp add: many_candidates_eq MAX_CANDIDATE_RISKS_def)

lemma body_Inl_cases:
  assumes "assess_proposal_body env tr proposal = (Inl e, t)"
  shows "stage_fails env tr proposal e t"
proof -
  note body = assms[unfolded assess_proposal_body_def]
  obtain ek t1 where ek: "extract_keywords env tr proposal = (ek, t1)" by fastforce
  show ?thesis
  proof (cases ek)
    case (Inl e')
    with body ek have "extract_keywords env tr proposal = (Inl e, t)" by simp
    then show ?thesis by (simp add: stage_fails_def)
  next
    case k: (Inr k)
    obtain sr t2 where sr: "search_risks env t1 (keywords k) = (sr, t2)" by fastforce
    show ?thesis
    proof (cases sr)
      case (Inl e')
      with body ek k sr have "search_risks env t1 (keywords k) = (Inl e, t)" by simp
      with ek k show ?thesis unfolding stage_fails_def by blast
    next
      case found: (Inr found)
      obtain cs t3 where cs:
        "(if found = [] then get_fallback_risks env t2 else (found, t2)) = (cs, t3)"
        by fastforce
      obtain rk t4 where rk: "rank_and_select env t3 proposal cs = (rk, t4)" by fastforce
      show ?thesis
      proof (cases rk)
        case (Inl e')
        with body ek k sr found cs rk
        have "rank_and_select env t3 proposal cs = (Inl e, t)" by simp
        with ek k sr found cs show ?thesis unfolding stage_fails_def by blast
      next
        case rr: (Inr rr)
        from rk rr have "fst (rank_and_select env t3 proposal cs) = Inr rr" by simp
        from rank_and_select_valid[OF this]
        have valid: "list_all (valid_entry (take MAX_CANDIDATE_RISKS cs))
                       (RiskRankingResult.risks rr)" by simp
        from risk_ids_of_valid[OF valid] obtain rids where
          rids: "risk_ids_of (RiskRankingResult.risks rr) = Inr rids" by blast
        obtain gc t5 where gc: "get_controls_for_risks env t4 rids = (gc, t5)" by fastforce
        show ?thesis
        proof (cases gc)
          case (Inl e')
          with body ek k sr found cs rk rr rids gc
          have "get_controls_for_risks env t4 rids = (Inl e, t)" by simp
          with ek k sr found cs rk rr rids show ?thesis unfolding stage_fails_def by blast
        next
          case cbr: (Inr cbr)
          from build_assessments_total[OF valid] obtain a where
            "build_assessments cs cbr (RiskRankingResult.risks rr) [] = Inr a" by blast
          with body ek k sr found cs rk rr rids gc cbr show ?thesis by simp
        qed
      qed
    qed
  qed
qed

lemma stage_fails_body:
  assumes "stage_fails env tr proposal e t"
  shows "assess_proposal_body env tr proposal = (Inl e, t)"
  using assms unfolding stage_fails_def
  by (elim disjE exE conjE)
     (rule body_extract_fail body_search_fail body_rank_fail body_controls_fail; assumption)+

lemma fallback_error_swallowed:
  assumes "extract_keywords env tr proposal = (Inr k, t1)"
    and "search_risks env t1 (keywords k) = (Inr [], t2)"
    and "search_risks env t2 (map code_points [''data'', ''model'', ''security'', ''privacy'', ''governance''])
           = (Inl e0, t3)"
  shows "\<exists>e text. format_proposal_text env proposal = Inr text
           \<and> fst (rank_and_select env t3 proposal []) = Inl e
           \<and> assess_proposal env tr proposal =
               (\<lparr>RiskAssessmentResult.risks = replicate TOP_N_RISKS (error_assessment env e)\<rparr>,
                t3 @ [Generate (RiskRankingPrompt text [])])"
proof -
  from extract_Inr_format[OF assms(1)] obtain ptext where
    fm: "format_proposal_text env proposal = Inr ptext" by blast
  have cs: "(if ([]::Risk list) = [] then get_fallback_risks env t2 else ([], t2)) = ([], t3)"
    by (simp add: get_fallback_risks_eq[OF assms(3)])
  from rank_empty_fails[of env t3 proposal] obtain e where
    e: "fst (rank_and_select env t3 proposal []) = Inl e" by blast
  have "snd (rank_and_select env t3 proposal []) = t3 @ [Generate (RiskRankingPrompt ptext [])]"
    by (simp add: rank_and_select_unfold fm format_no_candidates)
  with e have "rank_and_select env t3 proposal [] =
                 (Inl e, t3 @ [Generate (RiskRankingPrompt ptext [])])"
    by (simp add: prod_eq_iff)
  from body_rank_fail[OF assms(1,2) cs this]
  have "assess_proposal env tr proposal =
          (\<lparr>RiskAssessmentResult.risks = replicate TOP_N_RISKS (error_assessment env e)\<rparr>,
           t3 @ [Generate (RiskRankingPrompt ptext [])])"
    by (rule assess_proposal_Inl)
  with fm e show ?thesis by blast
qed

lemma fallback_down_generate_keywords:
  "generate_content fallback_down_env tr (KeywordExtractionPrompt text) = scenario_keywords"
  by (simp add: fallback_down_env_def)

lemma fallback_down_generate_ranking:
  "generate_content fallback_down_env tr (RiskRankingPrompt text cands) = scenario_ranking"
  by (simp add: fallback_down_env_def)

lemma fallback_down_get:
  "session_get fallback_down_env tr path name v =
     (if v = code_points ''data'' then HttpRaises RequestException ''down'' else nothing_found)"
  by (simp add: fallback_down_env_def)

lemma fallback_down_format:
  "format_proposal_text fallback_down_env scenario_proposal = Inr ''Description: Deploy a chatbot''"
  by (simp add: format_defs scenario_proposal_def)

lemma fallback_down_extract:
  "extract_keywords fallback_down_env [] scenario_proposal =
     (Inr \<lparr>keywords = [code_points ''data privacy'', code_points ''model deployment'',
                        code_points ''third party'', code_points ''bias''],
           confidence = Finite (9 / 10)\<rparr>,
      [Generate (KeywordExtractionPrompt ''Description: Deploy a chatbot'')])"
  by (simp add: extract_keywords_def fallback_down_format format_keyword_extraction_prompt_def
        keywords_of_reply_def py_float_def scenario_keywords_def
        fallback_down_generate_keywords Let_def)

lemma fallback_down_search:
  "search_risks fallback_down_env tr
     [code_points ''data privacy'', code_points ''model deployment'',
      code_points ''third party'', code_points ''bias''] =
     (Inr [],
      tr @ [HttpGet ''/api/search'' ''q'' (code_points ''data privacy''),
            HttpGet ''/api/search'' ''q'' (code_points ''model deployment''),
            HttpGet ''/api/search'' ''q'' (code_points ''third party'')])"
  by (simp add: search_risks_def fallback_down_get nothing_found_def dict_get_def Let_def
        code_points_def sanitize_keyword_def keyword_char_def re_space_def)

lemma fallback_down_fallback:
  "search_risks fallback_down_env tr
     [code_points ''data'', code_points ''model'', code_points ''security'',
      code_points ''privacy'', code_points ''governance''] =
     (Inl (Raised Exception ''Database service unavailable: down''),
      tr @ [HttpGet ''/api/search'' ''q'' (code_points ''data'')])"
  by (simp add: search_risks_def fallback_down_get db_except_def str_exn_def Let_def
        code_points_def sanitize_keyword_def keyword_char_def re_space_def)

lemma fallback_down_rank:
  "rank_and_select fallback_down_env tr scenario_proposal [] =
     (Inl (Raised ValueError ''LLM selected invalid risk_id: R.AIR.003''),
      tr @ [Generate (RiskRankingPrompt ''Description: Deploy a chatbot'' [])])"
  by (simp add: rank_and_select_unfold fallback_down_format fallback_down_generate_ranking
        scenario_ranking_def ranking_of_reply_def TOP_N_RISKS_def py_str_def
        format_no_candidates)

lemma fallback_down_run:
  "assess_proposal fallback_down_env [] scenario_proposal =
     (\<lparr>RiskAssessmentResult.risks =
         replicate TOP_N_RISKS
           (error_assessment fallback_down_env
              (Raised ValueError ''LLM selected invalid risk_id: R.AIR.003''))\<rparr>,
      [Generate (KeywordExtractionPrompt ''Description: Deploy a chatbot''),
       HttpGet ''/api/search'' ''q'' (code_points ''data privacy''),
       HttpGet ''/api/search'' ''q'' (code_points ''model deployment''),
       HttpGet ''/api/search'' ''q'' (code_points ''third party''),
       HttpGet ''/api/search'' ''q'' (code_points ''data''),
       Generate (RiskRankingPrompt ''Description: Deploy a chatbot'' [])])"
proof -
  have "assess_proposal_body fallback_down_env [] scenario_proposal =
     (Inl (Raised ValueError ''LLM selected invalid risk_id: R.AIR.003''),
      [Generate (KeywordExtractionPrompt ''Description: Deploy a chatbot''),
       HttpGet ''/api/search'' ''q'' (code_points ''data privacy''),
       HttpGet ''/api/search'' ''q'' (code_points ''model deployment''),
       HttpGet ''/api/search'' ''q'' (code_points ''third party''),
       HttpGet ''/api/search'' ''q'' (code_points ''data''),
       Generate (RiskRankingPrompt ''Description: Deploy a chatbot'' [])])"
    by (simp add: assess_proposal_body_def fallback_down_extract fallback_down_search
          get_fallback_risks_def fallback_down_fallback fallback_down_rank)
  then show ?thesis by (rule assess_proposal_Inl)
qed

section \<open>The claims\<close>

subsection \<open>C6: the entries of a successful ranking\<close>

text \<open>
  C6, as amended. Every successful \<open>rank_and_select\<close> call returns exactly \<open>TOP_N_RISKS\<close>
  entries, and the \<open>risk_id\<close> of each is the id of one of the first
  \<open>MAX_CANDIDATE_RISKS\<close> candidates. Nothing asks the ids to differ from each other.
\<close>

theorem rank_and_select_entries:
  assumes "fst (rank_and_select env tr proposal rs) = Inr r"
  shows "length (RiskRankingResult.risks r) = TOP_N_RISKS
         \<and> (\<forall>d \<in> set (RiskRankingResult.risks r).
              \<exists>rid. map_of d ''risk_id'' = Some rid
                    \<and> rid \<in> set (map Risk.risk_id (take MAX_CANDIDATE_RISKS rs)))"
proof -
  from rank_and_select_valid[OF assms]
  have len: "length (RiskRankingResult.risks r) = TOP_N_RISKS"
    and all: "list_all (valid_entry (take MAX_CANDIDATE_RISKS rs)) (RiskRankingResult.risks r)"
    by simp_all
  have "\<exists>rid. map_of d ''risk_id'' = Some rid
              \<and> rid \<in> set (map Risk.risk_id (take MAX_CANDIDATE_RISKS rs))"
    if "d \<in> set (RiskRankingResult.risks r)" for d
  proof -
    from all that have "valid_entry (take MAX_CANDIDATE_RISKS rs) d"
      by (simp add: list_all_iff)
    then show ?thesis
      by (cases "map_of d ''risk_id''") (simp_all add: valid_entry_def)
  qed
  with len show ?thesis by blast
qed

text \<open>
  The theorem at a call where the reply picks three different candidates.
\<close>

theorem rank_and_select_entries_witness:
  "fst (rank_and_select
          (stub_env LlmNotJson
             (LlmJson (JObj [(''risks'',
                JArr [JObj [(''risk_id'', JStr ''R.AIR.003''), (''reasoning'', JStr ''c'')],
                      JObj [(''risk_id'', JStr ''R.AIR.001''), (''reasoning'', JStr ''a'')],
                      JObj [(''risk_id'', JStr ''R.AIR.002''), (''reasoning'', JStr ''b'')]])]))
             (HttpJson JNull) (HttpJson JNull))
          [] [(''description'', JStr ''Deploy a chatbot'')]
          [\<lparr>Risk.risk_id = ''R.AIR.001'', Risk.risk_title = ''t1'', Risk.risk_description = ''d1''\<rparr>,
           \<lparr>Risk.risk_id = ''R.AIR.002'', Risk.risk_title = ''t2'', Risk.risk_description = ''d2''\<rparr>,
           \<lparr>Risk.risk_id = ''R.AIR.003'', Risk.risk_title = ''t3'', Risk.risk_description = ''d3''\<rparr>])
   = Inr \<lparr>RiskRankingResult.risks =
            [[(''risk_id'', ''R.AIR.003''), (''reasoning'', ''c'')],
             [(''risk_id'', ''R.AIR.001''), (''reasoning'', ''a'')],
             [(''risk_id'', ''R.AIR.002''), (''reasoning'', ''b'')]]\<rparr>
   \<and> length [[(''risk_id'', ''R.AIR.003''), (''reasoning'', ''c'')],
               [(''risk_id'', ''R.AIR.001''), (''reasoning'', ''a'')],
               [(''risk_id'', ''R.AIR.002''), (''reasoning'', ''b'')]] = TOP_N_RISKS"
proof -
  let ?env = "stub_env LlmNotJson
             (LlmJson (JObj [(''risks'',
                JArr [JObj [(''risk_id'', JStr ''R.AIR.003''), (''reasoning'', JStr ''c'')],
                      JObj [(''risk_id'', JStr ''R.AIR.001''), (''reasoning'', JStr ''a'')],
                      JObj [(''risk_id'', JStr ''R.AIR.002''), (''reasoning'', JStr ''b'')]])]))
             (HttpJson JNull) (HttpJson JNull)"
  let ?rs = "[\<lparr>Risk.risk_id = ''R.AIR.001'', Risk.risk_title = ''t1'', Risk.risk_description = ''d1''\<rparr>,
           \<lparr>Risk.risk_id = ''R.AIR.002'', Risk.risk_title = ''t2'', Risk.risk_description = ''d2''\<rparr>,
           \<lparr>Risk.risk_id = ''R.AIR.003'', Risk.risk_title = ''t3'', Risk.risk_description = ''d3''\<rparr>]"
  let ?r = "\<lparr>RiskRankingResult.risks =
            [[(''risk_id'', ''R.AIR.003''), (''reasoning'', ''c'')],
             [(''risk_id'', ''R.AIR.001''), (''reasoning'', ''a'')],
             [(''risk_id'', ''R.AIR.002''), (''reasoning'', ''b'')]]\<rparr>"
  have run: "fst (rank_and_select ?env [] [(''description'', JStr ''Deploy a chatbot'')] ?rs) = Inr ?r"
    by (simp add: rank_and_select_unfold format_defs stub_env_def ranking_of_reply_def
          TOP_N_RISKS_def MAX_CANDIDATE_RISKS_def)
  from rank_and_select_entries[OF run] run show ?thesis by simp
qed

text \<open>
  C6 as the specification words it fails: a reply that names the same candidate three
  times passes every check of \<open>rank_and_select\<close>.
\<close>

theorem rank_and_select_repeats_counterexample:
  "fst (rank_and_select
          (stub_env LlmNotJson
             (LlmJson (JObj [(''risks'',
                JArr [JObj [(''risk_id'', JStr ''R.AIR.001''), (''reasoning'', JStr ''fits'')],
                      JObj [(''risk_id'', JStr ''R.AIR.001''), (''reasoning'', JStr ''fits'')],
                      JObj [(''risk_id'', JStr ''R.AIR.001''), (''reasoning'', JStr ''fits'')]])]))
             (HttpJson JNull) (HttpJson JNull))
          [] [(''description'', JStr ''Deploy a chatbot'')]
          [\<lparr>Risk.risk_id = ''R.AIR.001'', Risk.risk_title = ''Data poisoning'',
            Risk.risk_description = ''Attackers manipulate training data''\<rparr>,
           \<lparr>Risk.risk_id = ''R.AIR.002'', Risk.risk_title = ''Backdoor'',
            Risk.risk_description = ''Adversaries insert triggers''\<rparr>])
   = Inr \<lparr>RiskRankingResult.risks =
            [[(''risk_id'', ''R.AIR.001''), (''reasoning'', ''fits'')],
             [(''risk_id'', ''R.AIR.001''), (''reasoning'', ''fits'')],
             [(''risk_id'', ''R.AIR.001''), (''reasoning'', ''fits'')]]\<rparr>
   \<and> \<not> distinct [''R.AIR.001'', ''R.AIR.001'', ''R.AIR.001'']"
  by (simp add: rank_and_select_unfold format_defs stub_env_def ranking_of_reply_def
        TOP_N_RISKS_def MAX_CANDIDATE_RISKS_def)

subsection \<open>C1: the shape of the result\<close>

text \<open>
  C1. Whatever the proposal, whatever the generation service and the database service
  answer or raise, the result of \<open>assess_proposal\<close> has exactly \<open>TOP_N_RISKS\<close> entries, and
  that number is 3. The \<open>try\<close> body returns a list that the ranking, with its three
  validated entries, cannot make longer than three and that the padding loop fills up to
  three; the \<open>except\<close> clause builds three entries.
\<close>

theorem assess_proposal_shape:
  "length (RiskAssessmentResult.risks (fst (assess_proposal env tr proposal))) = TOP_N_RISKS
   \<and> TOP_N_RISKS = 3"
proof (cases "assess_proposal_body env tr proposal")
  case (Pair res t)
  show ?thesis
  proof (cases res)
    case (Inl e)
    with Pair show ?thesis by (simp add: assess_proposal_def TOP_N_RISKS_def)
  next
    case (Inr r)
    with Pair assess_proposal_body_length[of env tr proposal r t] show ?thesis
      by (simp add: assess_proposal_def TOP_N_RISKS_def)
  qed
qed


text \<open>The theorem at a run whose keyword request is answered by text that is no JSON.\<close>

theorem assess_proposal_shape_witness:
  "length (RiskAssessmentResult.risks
             (fst (assess_proposal (stub_env LlmNotJson LlmNotJson (HttpJson JNull) (HttpJson JNull))
                     [] [(''description'', JStr ''Deploy a chatbot'')]))) = TOP_N_RISKS
   \<and> TOP_N_RISKS = 3"
  using assess_proposal_shape
          [of "stub_env LlmNotJson LlmNotJson (HttpJson JNull) (HttpJson JNull)" "[]"
              "[(''description'', JStr ''Deploy a chatbot'')]"]
  by simp

subsection \<open>C3: every failure ends in the degraded result\<close>

text \<open>
  C3, as amended. \<open>assess_proposal\<close> returns a result and never an exception: its \<open>except\<close>
  clause takes whatever the body raises. When keyword extraction fails, or the search on
  the extracted keywords, or the ranking (on the candidates of the first search or, when
  that found none, on what \<open>_get_fallback_risks\<close> returned), or the lookup of the controls,
  with the exception \<open>e\<close>, the result is \<open>TOP_N_RISKS\<close> = 3 times the same entry: risk id
  \<open>ERROR\<close>, title \<open>Assessment Error\<close>, the fixed description, the explanation \<open>Error: \<close>
  followed by the message of \<open>e\<close>, and no controls; the requests made up to the failure are
  all the run made. These are the only exceptions that reach the \<open>except\<close> clause: after a
  validated ranking the join raises none. An exception of the fallback search is not among
  them: \<open>_get_fallback_risks\<close> turns it into an empty candidate list, the ranking request
  is made on no candidate and fails, and the entries carry the message of the ranking's
  exception.
\<close>

theorem assess_proposal_degrades:
  "(\<forall>e t. stage_fails env tr proposal e t \<longrightarrow>
       assess_proposal env tr proposal =
         (\<lparr>RiskAssessmentResult.risks =
             replicate TOP_N_RISKS
               \<lparr>risk_id = ''ERROR'',
                risk_title = ''Assessment Error'',
                risk_description = ''An error occurred during risk assessment'',
                explanation = ''Error: '' @ str_exn env e,
                controls = []\<rparr>\<rparr>, t))
   \<and> (\<forall>e t. assess_proposal_body env tr proposal = (Inl e, t) \<longrightarrow>
          stage_fails env tr proposal e t)
   \<and> (\<forall>k t1 t2 e0 t3.
          extract_keywords env tr proposal = (Inr k, t1) \<longrightarrow>
          search_risks env t1 (keywords k) = (Inr [], t2) \<longrightarrow>
          search_risks env t2
            (map code_points [''data'', ''model'', ''security'', ''privacy'', ''governance''])
            = (Inl e0, t3) \<longrightarrow>
          (\<exists>e text.
              format_proposal_text env proposal = Inr text
            \<and> fst (rank_and_select env t3 proposal []) = Inl e
            \<and> assess_proposal env tr proposal =
                (\<lparr>RiskAssessmentResult.risks =
                    replicate TOP_N_RISKS
                      \<lparr>risk_id = ''ERROR'',
                       risk_title = ''Assessment Error'',
                       risk_description = ''An error occurred during risk assessment'',
                       explanation = ''Error: '' @ str_exn env e,
                       controls = []\<rparr>\<rparr>,
                 t3 @ [Generate (RiskRankingPrompt text [])])))
   \<and> TOP_N_RISKS = 3"
proof (intro conjI allI impI)
  fix e t
  assume "stage_fails env tr proposal e t"
  then have "assess_proposal_body env tr proposal = (Inl e, t)"
    by (rule stage_fails_body)
  from assess_proposal_Inl[OF this]
  show "assess_proposal env tr proposal =
         (\<lparr>RiskAssessmentResult.risks =
             replicate TOP_N_RISKS
               \<lparr>risk_id = ''ERROR'',
                risk_title = ''Assessment Error'',
                risk_description = ''An error occurred during risk assessment'',
                explanation = ''Error: '' @ str_exn env e,
                controls = []\<rparr>\<rparr>, t)"
    by (simp add: error_assessment_def)
next
  fix e t
  assume "assess_proposal_body env tr proposal = (Inl e, t)"
  then show "stage_fails env tr proposal e t" by (rule body_Inl_cases)
next
  fix k t1 t2 e0 t3
  assume "extract_keywords env tr proposal = (Inr k, t1)"
    and "search_risks env t1 (keywords k) = (Inr [], t2)"
    and "search_risks env t2
            (map code_points [''data'', ''model'', ''security'', ''privacy'', ''governance''])
            = (Inl e0, t3)"
  from fallback_error_swallowed[OF this]
  show "\<exists>e text.
              format_proposal_text env proposal = Inr text
            \<and> fst (rank_and_select env t3 proposal []) = Inl e
            \<and> assess_proposal env tr proposal =
                (\<lparr>RiskAssessmentResult.risks =
                    replicate TOP_N_RISKS
                      \<lparr>risk_id = ''ERROR'',
                       risk_title = ''Assessment Error'',
                       risk_description = ''An error occurred during risk assessment'',
                       explanation = ''Error: '' @ str_exn env e,
                       controls = []\<rparr>\<rparr>,
                 t3 @ [Generate (RiskRankingPrompt text [])])"
    by (simp add: error_assessment_def)
next
  show "TOP_N_RISKS = 3" by (simp add: TOP_N_RISKS_def)
qed

text \<open>
  The theorem at a run whose ranking reply names an id that is no candidate, and at the
  run whose searches find nothing until the connection fails on the first fallback keyword.
\<close>

theorem assess_proposal_degrades_witness:
  "assess_proposal
     (stub_env scenario_keywords
        (LlmJson (JObj [(''risks'',
           JArr [JObj [(''risk_id'', JStr ''R.AIR.001''), (''reasoning'', JStr ''a'')],
                 JObj [(''risk_id'', JStr ''R.FAKE.999''), (''reasoning'', JStr ''b'')],
                 JObj [(''risk_id'', JStr ''R.AIR.002''), (''reasoning'', JStr ''c'')]])]))
        scenario_found (HttpJson JNull))
     [] scenario_proposal =
   (\<lparr>RiskAssessmentResult.risks =
       replicate TOP_N_RISKS
         \<lparr>risk_id = ''ERROR'',
          risk_title = ''Assessment Error'',
          risk_description = ''An error occurred during risk assessment'',
          explanation = ''Error: LLM selected invalid risk_id: R.FAKE.999'',
          controls = []\<rparr>\<rparr>,
    [Generate (KeywordExtractionPrompt ''Description: Deploy a chatbot''),
     HttpGet ''/api/search'' ''q'' (code_points ''data privacy''),
     HttpGet ''/api/search'' ''q'' (code_points ''model deployment''),
     HttpGet ''/api/search'' ''q'' (code_points ''third party''),
     Generate (RiskRankingPrompt ''Description: Deploy a chatbot''
                 (format_candidate_risks scenario_candidates))])
   \<and> snd (assess_proposal fallback_down_env [] scenario_proposal) =
       [Generate (KeywordExtractionPrompt ''Description: Deploy a chatbot''),
        HttpGet ''/api/search'' ''q'' (code_points ''data privacy''),
        HttpGet ''/api/search'' ''q'' (code_points ''model deployment''),
        HttpGet ''/api/search'' ''q'' (code_points ''third party''),
        HttpGet ''/api/search'' ''q'' (code_points ''data''),
        Generate (RiskRankingPrompt ''Description: Deploy a chatbot'' [])]
   \<and> TOP_N_RISKS = 3"
proof -
  let ?d = "[(''risks'',
           JArr [JObj [(''risk_id'', JStr ''R.AIR.001''), (''reasoning'', JStr ''a'')],
                 JObj [(''risk_id'', JStr ''R.FAKE.999''), (''reasoning'', JStr ''b'')],
                 JObj [(''risk_id'', JStr ''R.AIR.002''), (''reasoning'', JStr ''c'')]])]"
  let ?env = "stub_env scenario_keywords (LlmJson (JObj ?d)) scenario_found (HttpJson JNull)"
  let ?k = "\<lparr>keywords = [code_points ''data privacy'', code_points ''model deployment'',
                        code_points ''third party'', code_points ''bias''],
            confidence = Finite (9 / 10)\<rparr>"
  let ?t1 = "[Generate (KeywordExtractionPrompt ''Description: Deploy a chatbot'')]"
  let ?t2 = "?t1 @ [HttpGet ''/api/search'' ''q'' (code_points ''data privacy''),
                    HttpGet ''/api/search'' ''q'' (code_points ''model deployment''),
                    HttpGet ''/api/search'' ''q'' (code_points ''third party'')]"
  let ?e = "Raised ValueError ''LLM selected invalid risk_id: R.FAKE.999''"
  let ?t = "?t2 @ [Generate (RiskRankingPrompt ''Description: Deploy a chatbot''
                     (format_candidate_risks scenario_candidates))]"
  have ek: "extract_keywords ?env [] scenario_proposal = (Inr ?k, ?t1)"
    using scenario_extract[of "LlmJson (JObj ?d)" scenario_found "HttpJson JNull"] by simp
  have sr: "search_risks ?env ?t1 (keywords ?k) = (Inr scenario_candidates, ?t2)"
    using scenario_search[of scenario_keywords "LlmJson (JObj ?d)" "HttpJson JNull" ?t1]
    by simp
  have cs: "(if scenario_candidates = [] then get_fallback_risks ?env ?t2
             else (scenario_candidates, ?t2)) = (scenario_candidates, ?t2)"
    by (rule scenario_not_fallback)
  have "ranking_of_reply ?env scenario_candidates (JObj ?d) = Inl ?e"
    by (simp add: ranking_of_reply_def TOP_N_RISKS_def scenario_candidates_def py_str_def)
  then have rk: "rank_and_select ?env ?t2 scenario_proposal scenario_candidates = (Inl ?e, ?t)"
    by (simp add: rank_and_select_unfold scenario_format stub_simps scenario_cut)
  from ek sr cs rk have fails: "stage_fails ?env [] scenario_proposal ?e ?t"
    unfolding stage_fails_def by blast
  note inst = assess_proposal_degrades[of ?env "[]" scenario_proposal]
  from inst have "\<forall>e t. stage_fails ?env [] scenario_proposal e t \<longrightarrow>
       assess_proposal ?env [] scenario_proposal =
         (\<lparr>RiskAssessmentResult.risks =
             replicate TOP_N_RISKS
               \<lparr>risk_id = ''ERROR'',
                risk_title = ''Assessment Error'',
                risk_description = ''An error occurred during risk assessment'',
                explanation = ''Error: '' @ str_exn ?env e,
                controls = []\<rparr>\<rparr>, t)"
    by (elim conjE)
  from this[rule_format, OF fails]
  have first: "assess_proposal ?env [] scenario_proposal =
   (\<lparr>RiskAssessmentResult.risks =
       replicate TOP_N_RISKS
         \<lparr>risk_id = ''ERROR'',
          risk_title = ''Assessment Error'',
          risk_description = ''An error occurred during risk assessment'',
          explanation = ''Error: LLM selected invalid risk_id: R.FAKE.999'',
          controls = []\<rparr>\<rparr>,
    [Generate (KeywordExtractionPrompt ''Description: Deploy a chatbot''),
     HttpGet ''/api/search'' ''q'' (code_points ''data privacy''),
     HttpGet ''/api/search'' ''q'' (code_points ''model deployment''),
     HttpGet ''/api/search'' ''q'' (code_points ''third party''),
     Generate (RiskRankingPrompt ''Description: Deploy a chatbot''
                 (format_candidate_risks scenario_candidates))])"
    by (simp add: str_exn_def)
  let ?t3 = "?t2 @ [HttpGet ''/api/search'' ''q'' (code_points ''data'')]"
  have ek': "extract_keywords fallback_down_env [] scenario_proposal = (Inr ?k, ?t1)"
    by (rule fallback_down_extract)
  have sr': "search_risks fallback_down_env ?t1 (keywords ?k) = (Inr [], ?t2)"
    using fallback_down_search[of ?t1] by simp
  have fb': "search_risks fallback_down_env ?t2
               (map code_points [''data'', ''model'', ''security'', ''privacy'', ''governance''])
             = (Inl (Raised Exception ''Database service unavailable: down''), ?t3)"
    using fallback_down_fallback[of ?t2] by simp
  note inst' = assess_proposal_degrades[of fallback_down_env "[]" scenario_proposal]
  from inst' have "\<forall>k t1 t2 e0 t3.
          extract_keywords fallback_down_env [] scenario_proposal = (Inr k, t1) \<longrightarrow>
          search_risks fallback_down_env t1 (keywords k) = (Inr [], t2) \<longrightarrow>
          search_risks fallback_down_env t2
            (map code_points [''data'', ''model'', ''security'', ''privacy'', ''governance''])
            = (Inl e0, t3) \<longrightarrow>
          (\<exists>e text.
              format_proposal_text fallback_down_env scenario_proposal = Inr text
            \<and> fst (rank_and_select fallback_down_env t3 scenario_proposal []) = Inl e
            \<and> assess_proposal fallback_down_env [] scenario_proposal =
                (\<lparr>RiskAssessmentResult.risks =
                    replicate TOP_N_RISKS
                      \<lparr>risk_id = ''ERROR'',
                       risk_title = ''Assessment Error'',
                       risk_description = ''An error occurred during risk assessment'',
                       explanation = ''Error: '' @ str_exn fallback_down_env e,
                       controls = []\<rparr>\<rparr>,
                 t3 @ [Generate (RiskRankingPrompt text [])]))"
    by (elim conjE)
  from this[rule_format, OF ek' sr' fb']
  have second: "snd (assess_proposal fallback_down_env [] scenario_proposal) =
       [Generate (KeywordExtractionPrompt ''Description: Deploy a chatbot''),
        HttpGet ''/api/search'' ''q'' (code_points ''data privacy''),
        HttpGet ''/api/search'' ''q'' (code_points ''model deployment''),
        HttpGet ''/api/search'' ''q'' (code_points ''third party''),
        HttpGet ''/api/search'' ''q'' (code_points ''data''),
        Generate (RiskRankingPrompt ''Description: Deploy a chatbot'' [])]"
    by (auto simp: fallback_down_format)
  from inst have third: "TOP_N_RISKS = 3" by (elim conjE)
  from first second third show ?thesis by (intro conjI)
qed

text \<open>
  C3 as the specification words it fails at that run. The fallback search raises
  \<open>Exception("Database service unavailable: down")\<close>; nothing of it reaches the result,
  whose explanation is the message of the ranking's exception.
\<close>

theorem fallback_error_counterexample:
  "search_risks fallback_down_env
     [Generate (KeywordExtractionPrompt ''Description: Deploy a chatbot''),
      HttpGet ''/api/search'' ''q'' (code_points ''data privacy''),
      HttpGet ''/api/search'' ''q'' (code_points ''model deployment''),
      HttpGet ''/api/search'' ''q'' (code_points ''third party'')]
     (map code_points [''data'', ''model'', ''security'', ''privacy'', ''governance'']) =
     (Inl (Raised Exception ''Database service unavailable: down''),
      [Generate (KeywordExtractionPrompt ''Description: Deploy a chatbot''),
       HttpGet ''/api/search'' ''q'' (code_points ''data privacy''),
       HttpGet ''/api/search'' ''q'' (code_points ''model deployment''),
       HttpGet ''/api/search'' ''q'' (code_points ''third party''),
       HttpGet ''/api/search'' ''q'' (code_points ''data'')])
   \<and> assess_proposal fallback_down_env [] scenario_proposal =
     (\<lparr>RiskAssessmentResult.risks =
         replicate 3
           \<lparr>risk_id = ''ERROR'',
            risk_title = ''Assessment Error'',
            risk_description = ''An error occurred during risk assessment'',
            explanation = ''Error: LLM selected invalid risk_id: R.AIR.003'',
            controls = []\<rparr>\<rparr>,
      [Generate (KeywordExtractionPrompt ''Description: Deploy a chatbot''),
       HttpGet ''/api/search'' ''q'' (code_points ''data privacy''),
       HttpGet ''/api/search'' ''q'' (code_points ''model deployment''),
       HttpGet ''/api/search'' ''q'' (code_points ''third party''),
       HttpGet ''/api/search'' ''q'' (code_points ''data''),
       Generate (RiskRankingPrompt ''Description: Deploy a chatbot'' [])])
   \<and> \<not> substring_in ''Database service unavailable: down''
         ''Error: LLM selected invalid risk_id: R.AIR.003''"
proof (intro conjI)
  show "search_risks fallback_down_env
     [Generate (KeywordExtractionPrompt ''Description: Deploy a chatbot''),
      HttpGet ''/api/search'' ''q'' (code_points ''data privacy''),
      HttpGet ''/api/search'' ''q'' (code_points ''model deployment''),
      HttpGet ''/api/search'' ''q'' (code_points ''third party'')]
     (map code_points [''data'', ''model'', ''security'', ''privacy'', ''governance'']) =
     (Inl (Raised Exception ''Database service unavailable: down''),
      [Generate (KeywordExtractionPrompt ''Description: Deploy a chatbot''),
       HttpGet ''/api/search'' ''q'' (code_points ''data privacy''),
       HttpGet ''/api/search'' ''q'' (code_points ''model deployment''),
       HttpGet ''/api/search'' ''q'' (code_points ''third party''),
       HttpGet ''/api/search'' ''q'' (code_points ''data'')])"
    by (simp add: fallback_down_fallback)
  show "assess_proposal fallback_down_env [] scenario_proposal =
     (\<lparr>RiskAssessmentResult.risks =
         replicate 3
           \<lparr>risk_id = ''ERROR'',
            risk_title = ''Assessment Error'',
            risk_description = ''An error occurred during risk assessment'',
            explanation = ''Error: LLM selected invalid risk_id: R.AIR.003'',
            controls = []\<rparr>\<rparr>,
      [Generate (KeywordExtractionPrompt ''Description: Deploy a chatbot''),
       HttpGet ''/api/search'' ''q'' (code_points ''data privacy''),
       HttpGet ''/api/search'' ''q'' (code_points ''model deployment''),
       HttpGet ''/api/search'' ''q'' (code_points ''third party''),
       HttpGet ''/api/search'' ''q'' (code_points ''data''),
       Generate (RiskRankingPrompt ''Description: Deploy a chatbot'' [])])"
    by (simp add: fallback_down_run error_assessment_def str_exn_def TOP_N_RISKS_def)
  show "\<not> substring_in ''Database service unavailable: down''
         ''Error: LLM selected invalid risk_id: R.AIR.003''"
    by simp
qed

subsection \<open>C5: a ranking reply of the wrong length\<close>

text \<open>
  C5. In a run that reaches the ranking stage (keywords extracted, the search returned,
  the candidates being what it found or else what the fallback found), when the reply to
  the ranking request is a JSON object whose \<open>risks\<close> is an array of a length other than
  \<open>TOP_N_RISKS\<close>, \<open>rank_and_select\<close> raises \<open>ValueError("Expected 3 risks, got n")\<close> and the
  result of the run is three \<open>ERROR\<close> entries whose explanation carries that message.
\<close>

theorem ranking_count_mismatch:
  assumes "extract_keywords env tr proposal = (Inr k, t1)"
    and "search_risks env t1 (keywords k) = (Inr found, t2)"
    and "(if found = [] then get_fallback_risks env t2 else (found, t2)) = (cs, t3)"
    and "format_proposal_text env proposal = Inr text"
    and "generate_content env t3
           (RiskRankingPrompt text (format_candidate_risks (take MAX_CANDIDATE_RISKS cs)))
         = LlmJson (JObj d)"
    and "map_of d ''risks'' = Some (JArr xs)"
    and "length xs \<noteq> TOP_N_RISKS"
  shows "fst (rank_and_select env t3 proposal cs) =
           Inl (Raised ValueError (''Expected 3 risks, got '' @ str_nat (length xs)))
       \<and> RiskAssessmentResult.risks (fst (assess_proposal env tr proposal)) =
           replicate 3
             \<lparr>risk_id = ''ERROR'',
              risk_title = ''Assessment Error'',
              risk_description = ''An error occurred during risk assessment'',
              explanation = ''Error: Expected 3 risks, got '' @ str_nat (length xs),
              controls = []\<rparr>"
proof -
  let ?e = "Raised ValueError (''Expected 3 risks, got '' @ str_nat (length xs))"
  let ?t = "t3 @ [Generate (RiskRankingPrompt text
                     (format_candidate_risks (take MAX_CANDIDATE_RISKS cs)))]"
  have rank: "rank_and_select env t3 proposal cs = (Inl ?e, ?t)"
    by (simp add: rank_and_select_unfold assms(4,5) ranking_of_reply_count[OF assms(6,7)])
  from body_rank_fail[OF assms(1-3) rank]
  have "assess_proposal env tr proposal =
          (\<lparr>RiskAssessmentResult.risks = replicate TOP_N_RISKS (error_assessment env ?e)\<rparr>, ?t)"
    by (rule assess_proposal_Inl)
  with rank show ?thesis
    by (simp add: error_assessment_def str_exn_def TOP_N_RISKS_def)
qed

text \<open>The theorem at a run whose ranking reply holds two risks.\<close>

theorem ranking_count_mismatch_witness:
  "fst (rank_and_select
          (stub_env scenario_keywords
             (LlmJson (JObj [(''risks'',
                JArr [JObj [(''risk_id'', JStr ''R.AIR.001''), (''reasoning'', JStr ''a'')],
                      JObj [(''risk_id'', JStr ''R.AIR.002''), (''reasoning'', JStr ''b'')]])]))
             scenario_found (HttpJson JNull))
          ([Generate (KeywordExtractionPrompt ''Description: Deploy a chatbot'')] @
           [HttpGet ''/api/search'' ''q'' (code_points ''data privacy''),
            HttpGet ''/api/search'' ''q'' (code_points ''model deployment''),
            HttpGet ''/api/search'' ''q'' (code_points ''third party'')])
          scenario_proposal scenario_candidates) =
     Inl (Raised ValueError ''Expected 3 risks, got 2'')
   \<and> RiskAssessmentResult.risks
       (fst (assess_proposal
          (stub_env scenario_keywords
             (LlmJson (JObj [(''risks'',
                JArr [JObj [(''risk_id'', JStr ''R.AIR.001''), (''reasoning'', JStr ''a'')],
                      JObj [(''risk_id'', JStr ''R.AIR.002''), (''reasoning'', JStr ''b'')]])]))
             scenario_found (HttpJson JNull))
          [] scenario_proposal)) =
     replicate 3
       \<lparr>risk_id = ''ERROR'',
        risk_title = ''Assessment Error'',
        risk_description = ''An error occurred during risk assessment'',
        explanation = ''Error: Expected 3 risks, got 2'',
        controls = []\<rparr>"
proof -
  let ?d = "[(''risks'',
                JArr [JObj [(''risk_id'', JStr ''R.AIR.001''), (''reasoning'', JStr ''a'')],
                      JObj [(''risk_id'', JStr ''R.AIR.002''), (''reasoning'', JStr ''b'')]])]"
  let ?env = "stub_env scenario_keywords (LlmJson (JObj ?d)) scenario_found (HttpJson JNull)"
  let ?k = "\<lparr>keywords = map code_points [''data privacy'', ''model deployment'', ''third party'', ''bias''],
            confidence = Finite (9 / 10)\<rparr>"
  let ?t1 = "[Generate (KeywordExtractionPrompt ''Description: Deploy a chatbot'')]"
  let ?t2 = "?t1 @ [HttpGet ''/api/search'' ''q'' (code_points ''data privacy''),
                    HttpGet ''/api/search'' ''q'' (code_points ''model deployment''),
                    HttpGet ''/api/search'' ''q'' (code_points ''third party'')]"
  have ek: "extract_keywords ?env [] scenario_proposal = (Inr ?k, ?t1)"
    by (rule scenario_extract)
  have sr: "search_risks ?env ?t1 (keywords ?k) = (Inr scenario_candidates, ?t2)"
    using scenario_search[of scenario_keywords "LlmJson (JObj ?d)" "HttpJson JNull" ?t1]
    by simp
  have cs: "(if scenario_candidates = [] then get_fallback_risks ?env ?t2
             else (scenario_candidates, ?t2)) = (scenario_candidates, ?t2)"
    by (rule scenario_not_fallback)
  have fm: "format_proposal_text ?env scenario_proposal = Inr ''Description: Deploy a chatbot''"
    by (rule scenario_format)
  have gen: "generate_content ?env ?t2
               (RiskRankingPrompt ''Description: Deploy a chatbot''
                  (format_candidate_risks (take MAX_CANDIDATE_RISKS scenario_candidates)))
             = LlmJson (JObj ?d)"
    by (rule stub_generate_ranking)
  have mp: "map_of ?d ''risks'' =
              Some (JArr [JObj [(''risk_id'', JStr ''R.AIR.001''), (''reasoning'', JStr ''a'')],
                          JObj [(''risk_id'', JStr ''R.AIR.002''), (''reasoning'', JStr ''b'')]])"
    by simp
  have len: "length [JObj [(''risk_id'', JStr ''R.AIR.001''), (''reasoning'', JStr ''a'')],
                     JObj [(''risk_id'', JStr ''R.AIR.002''), (''reasoning'', JStr ''b'')]]
             \<noteq> TOP_N_RISKS"
    by (simp add: TOP_N_RISKS_def)
  from ranking_count_mismatch[OF ek sr cs fm gen mp len] show ?thesis
    by (simp add: str_nat.simps digit_char_def)
qed

subsection \<open>C2: no risk id that was not a candidate\<close>

text \<open>
  C2. First half, on one \<open>rank_and_select\<close> call: when the reply to the ranking request is a
  JSON object whose \<open>risks\<close> array holds an entry with a \<open>risk_id\<close> that is not (as a string,
  exactly) the id of one of the candidates the call ranks, the call raises, so no ranking
  with that id is returned; the candidates it ranks are the first \<open>MAX_CANDIDATE_RISKS\<close> of
  those passed, so an id absent from the list passed is such an id. When that entry is
  the first offending one of a reply of the right length (the entries before it pass, it
  has a \<open>reasoning\<close>), the exception is \<open>ValueError("LLM selected invalid risk_id: ...")\<close>.
  Second half, on a whole run: every entry of the result of \<open>assess_proposal\<close> is an
  \<open>ERROR\<close> sentinel, the \<open>N/A\<close> padding entry, or has the id of one of the candidates that
  this run's ranking call ranked.
\<close>

theorem no_hallucinated_risk:
  "(format_proposal_text env proposal = Inr text \<longrightarrow>
    generate_content env tr
      (RiskRankingPrompt text (format_candidate_risks (take MAX_CANDIDATE_RISKS rs)))
      = LlmJson (JObj d) \<longrightarrow>
    map_of d ''risks'' = Some (JArr xs) \<longrightarrow>
    JObj item \<in> set xs \<longrightarrow>
    map_of item ''risk_id'' = Some v \<longrightarrow>
    v \<notin> set (map (\<lambda>r. JStr (Risk.risk_id r)) (take MAX_CANDIDATE_RISKS rs)) \<longrightarrow>
      (\<exists>e. fst (rank_and_select env tr proposal rs) = Inl e)
    \<and> (\<forall>pre post.
          xs = pre @ JObj item # post \<longrightarrow> length xs = TOP_N_RISKS \<longrightarrow>
          list_all (valid_item (take MAX_CANDIDATE_RISKS rs)) pre \<longrightarrow>
          ''reasoning'' \<in> set (map fst item) \<longrightarrow>
          fst (rank_and_select env tr proposal rs) =
            Inl (Raised ValueError (''LLM selected invalid risk_id: '' @ py_str env v))))
   \<and> (\<forall>a \<in> set (RiskAssessmentResult.risks (fst (assess_proposal env tr0 proposal))).
        (\<exists>e. a = error_assessment env e) \<or> a = padding_assessment
      \<or> (\<exists>k t1 found t2 cs t3 rr t4.
              extract_keywords env tr0 proposal = (Inr k, t1)
            \<and> search_risks env t1 (keywords k) = (Inr found, t2)
            \<and> (if found = [] then get_fallback_risks env t2 else (found, t2)) = (cs, t3)
            \<and> rank_and_select env t3 proposal cs = (Inr rr, t4)
            \<and> risk_id a \<in> set (map Risk.risk_id (take MAX_CANDIDATE_RISKS cs))))"
proof (intro conjI impI allI ballI)
  assume h: "format_proposal_text env proposal = Inr text"
    "generate_content env tr
      (RiskRankingPrompt text (format_candidate_risks (take MAX_CANDIDATE_RISKS rs)))
      = LlmJson (JObj d)"
    "map_of d ''risks'' = Some (JArr xs)" "JObj item \<in> set xs"
    "map_of item ''risk_id'' = Some v"
    "v \<notin> set (map (\<lambda>r. JStr (Risk.risk_id r)) (take MAX_CANDIDATE_RISKS rs))"
  have run: "fst (rank_and_select env tr proposal rs) =
               ranking_of_reply env (take MAX_CANDIDATE_RISKS rs) (JObj d)"
    by (simp add: rank_and_select_unfold h(1,2))
  from ranking_of_reply_hallucinated[OF h(3-6)] run
  show "\<exists>e. fst (rank_and_select env tr proposal rs) = Inl e" by simp
  fix pre post
  assume "xs = pre @ JObj item # post" "length xs = TOP_N_RISKS"
    "list_all (valid_item (take MAX_CANDIDATE_RISKS rs)) pre"
    "''reasoning'' \<in> set (map fst item)"
  with h(3,5,6) run
  show "fst (rank_and_select env tr proposal rs) =
          Inl (Raised ValueError (''LLM selected invalid risk_id: '' @ py_str env v))"
    using ranking_of_reply_invalid_id[of d pre item post "take MAX_CANDIDATE_RISKS rs" v env]
    by simp
next
  fix a
  assume "a \<in> set (RiskAssessmentResult.risks (fst (assess_proposal env tr0 proposal)))"
  then show "(\<exists>e. a = error_assessment env e) \<or> a = padding_assessment
      \<or> (\<exists>k t1 found t2 cs t3 rr t4.
              extract_keywords env tr0 proposal = (Inr k, t1)
            \<and> search_risks env t1 (keywords k) = (Inr found, t2)
            \<and> (if found = [] then get_fallback_risks env t2 else (found, t2)) = (cs, t3)
            \<and> rank_and_select env t3 proposal cs = (Inr rr, t4)
            \<and> risk_id a \<in> set (map Risk.risk_id (take MAX_CANDIDATE_RISKS cs)))"
    by (rule assess_proposal_entries)
qed

text \<open>
  The theorem at a ranking reply whose second entry names \<open>R.FAKE.999\<close>; beside it the run
  that goes well, whose three ids are ids of its candidates.
\<close>

theorem no_hallucinated_risk_witness:
  "fst (rank_and_select
          (stub_env scenario_keywords
             (LlmJson (JObj [(''risks'',
                JArr [JObj [(''risk_id'', JStr ''R.AIR.001''), (''reasoning'', JStr ''a'')],
                      JObj [(''risk_id'', JStr ''R.FAKE.999''), (''reasoning'', JStr ''b'')],
                      JObj [(''risk_id'', JStr ''R.AIR.002''), (''reasoning'', JStr ''c'')]])]))
             scenario_found scenario_relationships)
          [] scenario_proposal scenario_candidates) =
     Inl (Raised ValueError ''LLM selected invalid risk_id: R.FAKE.999'')
   \<and> RiskAssessmentResult.risks (fst (assess_proposal scenario_env [] scenario_proposal)) =
       scenario_assessments
   \<and> map RiskAssessment.risk_id scenario_assessments = [''R.AIR.003'', ''R.AIR.001'', ''R.AIR.002'']
   \<and> map Risk.risk_id (take MAX_CANDIDATE_RISKS scenario_candidates) =
       [''R.AIR.001'', ''R.AIR.002'', ''R.AIR.003'']"
proof -
  let ?item = "[(''risk_id'', JStr ''R.FAKE.999''), (''reasoning'', JStr ''b'')]"
  let ?pre = "[JObj [(''risk_id'', JStr ''R.AIR.001''), (''reasoning'', JStr ''a'')]]"
  let ?post = "[JObj [(''risk_id'', JStr ''R.AIR.002''), (''reasoning'', JStr ''c'')]]"
  let ?xs = "?pre @ JObj ?item # ?post"
  let ?d = "[(''risks'', JArr ?xs)]"
  let ?env = "stub_env scenario_keywords (LlmJson (JObj ?d)) scenario_found scenario_relationships"
  let ?text = "''Description: Deploy a chatbot''"
  note inst = no_hallucinated_risk
    [of "?env" scenario_proposal "?text" "[]" scenario_candidates "?d" "?xs" "?item"
        "JStr ''R.FAKE.999''"]
  have h1: "format_proposal_text ?env scenario_proposal = Inr ?text"
    by (rule scenario_format)
  have h2: "generate_content ?env []
      (RiskRankingPrompt ?text (format_candidate_risks (take MAX_CANDIDATE_RISKS scenario_candidates)))
      = LlmJson (JObj ?d)"
    by (rule stub_generate_ranking)
  have h3: "map_of ?d ''risks'' = Some (JArr ?xs)" by simp
  have h4: "JObj ?item \<in> set ?xs" by simp
  have h5: "map_of ?item ''risk_id'' = Some (JStr ''R.FAKE.999'')" by simp
  have h6: "JStr ''R.FAKE.999'' \<notin>
              set (map (\<lambda>r. JStr (Risk.risk_id r)) (take MAX_CANDIDATE_RISKS scenario_candidates))"
    by (simp add: scenario_cut) (simp add: scenario_candidates_def)
  have h7: "length ?xs = TOP_N_RISKS" by (simp add: TOP_N_RISKS_def)
  have h8: "list_all (valid_item (take MAX_CANDIDATE_RISKS scenario_candidates)) ?pre"
    by (simp add: scenario_cut) (simp add: scenario_candidates_def valid_item_def)
  have h9: "''reasoning'' \<in> set (map fst ?item)" by simp
  from inst h1 h2 h3 h4 h5 h6
  have "\<forall>pre post.
          ?xs = pre @ JObj ?item # post \<longrightarrow> length ?xs = TOP_N_RISKS \<longrightarrow>
          list_all (valid_item (take MAX_CANDIDATE_RISKS scenario_candidates)) pre \<longrightarrow>
          ''reasoning'' \<in> set (map fst ?item) \<longrightarrow>
          fst (rank_and_select ?env [] scenario_proposal scenario_candidates) =
            Inl (Raised ValueError (''LLM selected invalid risk_id: '' @ py_str ?env (JStr ''R.FAKE.999'')))"
    by blast
  with h7 h8 h9
  have first: "fst (rank_and_select ?env [] scenario_proposal scenario_candidates) =
            Inl (Raised ValueError (''LLM selected invalid risk_id: '' @ py_str ?env (JStr ''R.FAKE.999'')))"
    by blast
  have run: "RiskAssessmentResult.risks (fst (assess_proposal scenario_env [] scenario_proposal)) =
       scenario_assessments"
    by (simp add: scenario_run)
  have ids: "map RiskAssessment.risk_id scenario_assessments =
               [''R.AIR.003'', ''R.AIR.001'', ''R.AIR.002'']"
    by (simp add: scenario_assessments_def)
  have cands: "map Risk.risk_id (take MAX_CANDIDATE_RISKS scenario_candidates) =
                 [''R.AIR.001'', ''R.AIR.002'', ''R.AIR.003'']"
    by (simp add: scenario_cut) (simp add: scenario_candidates_def)
  from first run ids cands show ?thesis by (simp add: py_str_def)
qed

subsection \<open>C7: the first three keywords, the first thirty candidates\<close>

text \<open>
  C7. \<open>search_risks\<close> on a keyword list is \<open>search_risks\<close> on its first three keywords: the
  result and the requests are the same. The requests it makes are searches for the
  sanitized keywords, in order, of a prefix of those three, and of all three (or of all
  keywords, when there are fewer) when it returns. \<open>rank_and_select\<close> on a candidate list is
  \<open>rank_and_select\<close> on its first \<open>MAX_CANDIDATE_RISKS\<close> candidates. The one request it
  makes, once the proposal text is formatted, carries the proposal text and, for each of
  those candidates and in their order, the three lines \<open>ID\<close>, \<open>Title\<close> and \<open>Description\<close>,
  with an empty line between two candidates and nothing of any later candidate. Every
  entry of a result it returns names the id of one of those candidates.
\<close>

theorem truncation_of_keywords_and_candidates:
  "search_risks env tr kws = search_risks env tr (take 3 kws)
   \<and> (\<exists>n \<le> 3.
         snd (search_risks env tr kws) =
           tr @ map (\<lambda>k. HttpGet ''/api/search'' ''q'' (sanitize_keyword k)) (take n kws)
         \<and> (\<forall>rs. fst (search_risks env tr kws) = Inr rs \<longrightarrow> n = min 3 (length kws)))
   \<and> rank_and_select env tr proposal rs =
       rank_and_select env tr proposal (take MAX_CANDIDATE_RISKS rs)
   \<and> snd (rank_and_select env tr proposal rs) =
       (case format_proposal_text env proposal of
          Inl e \<Rightarrow> tr
        | Inr text \<Rightarrow>
            tr @ [Generate (RiskRankingPrompt text
                    (join ''\<newline>''
                       (map (\<lambda>risk. ''ID: '' @ Risk.risk_id risk
                                   @ ''\<newline>Title: '' @ Risk.risk_title risk
                                   @ ''\<newline>Description: '' @ Risk.risk_description risk
                                   @ ''\<newline>'')
                          (take MAX_CANDIDATE_RISKS rs))))])
   \<and> (\<forall>r. fst (rank_and_select env tr proposal rs) = Inr r \<longrightarrow>
          list_all (valid_entry (take MAX_CANDIDATE_RISKS rs)) (RiskRankingResult.risks r))"
proof (intro conjI)
  show "search_risks env tr kws = search_risks env tr (take 3 kws)"
    by (rule search_risks_first_three)
  show "\<exists>n \<le> 3.
         snd (search_risks env tr kws) =
           tr @ map (\<lambda>k. HttpGet ''/api/search'' ''q'' (sanitize_keyword k)) (take n kws)
         \<and> (\<forall>rs. fst (search_risks env tr kws) = Inr rs \<longrightarrow> n = min 3 (length kws))"
    by (rule search_risks_trace)
  show "rank_and_select env tr proposal rs =
          rank_and_select env tr proposal (take MAX_CANDIDATE_RISKS rs)"
    by (simp add: rank_and_select_unfold split: sum.splits llm_reply.splits)
  show "snd (rank_and_select env tr proposal rs) =
       (case format_proposal_text env proposal of
          Inl e \<Rightarrow> tr
        | Inr text \<Rightarrow>
            tr @ [Generate (RiskRankingPrompt text
                    (join ''\<newline>''
                       (map (\<lambda>risk. ''ID: '' @ Risk.risk_id risk
                                   @ ''\<newline>Title: '' @ Risk.risk_title risk
                                   @ ''\<newline>Description: '' @ Risk.risk_description risk
                                   @ ''\<newline>'')
                          (take MAX_CANDIDATE_RISKS rs))))])"
    by (simp add: rank_and_select_unfold format_candidate_risks_def split: sum.splits)
  show "\<forall>r. fst (rank_and_select env tr proposal rs) = Inr r \<longrightarrow>
          list_all (valid_entry (take MAX_CANDIDATE_RISKS rs)) (RiskRankingResult.risks r)"
    using rank_and_select_valid by blast
qed

text \<open>
  The theorem at four keywords, of which three are searched, and at the thirty-one
  candidates numbered from 101 to 131: the request names the candidates from 101 to 130 in
  that order; a reply that picks the candidates 130, 101 and 102 is returned, and one that
  picks the candidate 131 is refused.
\<close>

theorem truncation_of_keywords_and_candidates_witness:
  "search_risks scenario_env []
     [code_points ''data privacy'', code_points ''model deployment'',
      code_points ''third party'', code_points ''bias''] =
   search_risks scenario_env []
     (take 3
        [code_points ''data privacy'', code_points ''model deployment'',
      code_points ''third party'', code_points ''bias''])
   \<and> snd (search_risks scenario_env []
            [code_points ''data privacy'', code_points ''model deployment'',
      code_points ''third party'', code_points ''bias'']) =
       [HttpGet ''/api/search'' ''q'' (code_points ''data privacy''),
        HttpGet ''/api/search'' ''q'' (code_points ''model deployment''),
        HttpGet ''/api/search'' ''q'' (code_points ''third party'')]
   \<and> length many_candidates = 31
   \<and> rank_and_select
         (stub_env scenario_keywords (ranking_of_ids ''R.AIR.130'' ''R.AIR.101'' ''R.AIR.102'')
            scenario_found scenario_relationships)
         [] scenario_proposal many_candidates =
       (Inr \<lparr>RiskRankingResult.risks =
               [[(''risk_id'', ''R.AIR.130''), (''reasoning'', ''first'')],
                [(''risk_id'', ''R.AIR.101''), (''reasoning'', ''second'')],
                [(''risk_id'', ''R.AIR.102''), (''reasoning'', ''third'')]]\<rparr>,
        [Generate (RiskRankingPrompt ''Description: Deploy a chatbot''
           (''ID: R.AIR.101\<newline>Title: t101\<newline>Description: d101\<newline>\<newline>''
              @ ''ID: R.AIR.102\<newline>Title: t102\<newline>Description: d102\<newline>\<newline>''
              @ ''ID: R.AIR.103\<newline>Title: t103\<newline>Description: d103\<newline>\<newline>''
              @ ''ID: R.AIR.104\<newline>Title: t104\<newline>Description: d104\<newline>\<newline>''
              @ ''ID: R.AIR.105\<newline>Title: t105\<newline>Description: d105\<newline>\<newline>''
              @ ''ID: R.AIR.106\<newline>Title: t106\<newline>Description: d106\<newline>\<newline>''
              @ ''ID: R.AIR.107\<newline>Title: t107\<newline>Description: d107\<newline>\<newline>''
              @ ''ID: R.AIR.108\<newline>Title: t108\<newline>Description: d108\<newline>\<newline>''
              @ ''ID: R.AIR.109\<newline>Title: t109\<newline>Description: d109\<newline>\<newline>''
              @ ''ID: R.AIR.110\<newline>Title: t110\<newline>Description: d110\<newline>\<newline>''
              @ ''ID: R.AIR.111\<newline>Title: t111\<newline>Description: d111\<newline>\<newline>''
              @ ''ID: R.AIR.112\<newline>Title: t112\<newline>Description: d112\<newline>\<newline>''
              @ ''ID: R.AIR.113\<newline>Title: t113\<newline>Description: d113\<newline>\<newline>''
              @ ''ID: R.AIR.114\<newline>Title: t114\<newline>Description: d114\<newline>\<newline>''
              @ ''ID: R.AIR.115\<newline>Title: t115\<newline>Description: d115\<newline>\<newline>''
              @ ''ID: R.AIR.116\<newline>Title: t116\<newline>Description: d116\<newline>\<newline>''
              @ ''ID: R.AIR.117\<newline>Title: t117\<newline>Description: d117\<newline>\<newline>''
              @ ''ID: R.AIR.118\<newline>Title: t118\<newline>Description: d118\<newline>\<newline>''
              @ ''ID: R.AIR.119\<newline>Title: t119\<newline>Description: d119\<newline>\<newline>''
              @ ''ID: R.AIR.120\<newline>Title: t120\<newline>Description: d120\<newline>\<newline>''
              @ ''ID: R.AIR.121\<newline>Title: t121\<newline>Description: d121\<newline>\<newline>''
              @ ''ID: R.AIR.122\<newline>Title: t122\<newline>Description: d122\<newline>\<newline>''
              @ ''ID: R.AIR.123\<newline>Title: t123\<newline>Description: d123\<newline>\<newline>''
              @ ''ID: R.AIR.124\<newline>Title: t124\<newline>Description: d124\<newline>\<newline>''
              @ ''ID: R.AIR.125\<newline>Title: t125\<newline>Description: d125\<newline>\<newline>''
              @ ''ID: R.AIR.126\<newline>Title: t126\<newline>Description: d126\<newline>\<newline>''
              @ ''ID: R.AIR.127\<newline>Title: t127\<newline>Description: d127\<newline>\<newline>''
              @ ''ID: R.AIR.128\<newline>Title: t128\<newline>Description: d128\<newline>\<newline>''
              @ ''ID: R.AIR.129\<newline>Title: t129\<newline>Description: d129\<newline>\<newline>''
              @ ''ID: R.AIR.130\<newline>Title: t130\<newline>Description: d130\<newline>''))])
   \<and> fst (rank_and_select
          (stub_env scenario_keywords (ranking_of_ids ''R.AIR.130'' ''R.AIR.101'' ''R.AIR.131'')
             scenario_found scenario_relationships)
          [] scenario_proposal many_candidates) =
       Inl (Raised ValueError ''LLM selected invalid risk_id: R.AIR.131'')"
proof -
  let ?good = "stub_env scenario_keywords (ranking_of_ids ''R.AIR.130'' ''R.AIR.101'' ''R.AIR.102'')
                 scenario_found scenario_relationships"
  let ?bad = "stub_env scenario_keywords (ranking_of_ids ''R.AIR.130'' ''R.AIR.101'' ''R.AIR.131'')
                scenario_found scenario_relationships"
  note keys = truncation_of_keywords_and_candidates
    [of scenario_env "[]"
        "[code_points ''data privacy'', code_points ''model deployment'',
      code_points ''third party'', code_points ''bias'']"
        scenario_proposal many_candidates]
  note inst = truncation_of_keywords_and_candidates
    [of ?good "[]" "[]" scenario_proposal many_candidates]
  from keys have a: "search_risks scenario_env []
     [code_points ''data privacy'', code_points ''model deployment'',
      code_points ''third party'', code_points ''bias''] =
   search_risks scenario_env []
     (take 3
        [code_points ''data privacy'', code_points ''model deployment'',
      code_points ''third party'', code_points ''bias''])"
    by (elim conjE)
  have b: "snd (search_risks scenario_env []
            [code_points ''data privacy'', code_points ''model deployment'',
      code_points ''third party'', code_points ''bias'']) =
       [HttpGet ''/api/search'' ''q'' (code_points ''data privacy''),
        HttpGet ''/api/search'' ''q'' (code_points ''model deployment''),
        HttpGet ''/api/search'' ''q'' (code_points ''third party'')]"
    using scenario_search[of scenario_keywords scenario_ranking scenario_relationships "[]"]
    by (simp add: scenario_env_def)
  have c: "length many_candidates = 31"
    by (simp add: many_candidates_def)
  from inst have "snd (rank_and_select ?good [] scenario_proposal many_candidates) =
       (case format_proposal_text ?good scenario_proposal of
          Inl e \<Rightarrow> []
        | Inr text \<Rightarrow>
            [] @ [Generate (RiskRankingPrompt text
                    (join ''\<newline>''
                       (map (\<lambda>risk. ''ID: '' @ Risk.risk_id risk
                                   @ ''\<newline>Title: '' @ Risk.risk_title risk
                                   @ ''\<newline>Description: '' @ Risk.risk_description risk
                                   @ ''\<newline>'')
                          (take MAX_CANDIDATE_RISKS many_candidates))))])"
    by (elim conjE)
  then have request: "snd (rank_and_select ?good [] scenario_proposal many_candidates) =
        [Generate (RiskRankingPrompt ''Description: Deploy a chatbot''
           (''ID: R.AIR.101\<newline>Title: t101\<newline>Description: d101\<newline>\<newline>''
              @ ''ID: R.AIR.102\<newline>Title: t102\<newline>Description: d102\<newline>\<newline>''
              @ ''ID: R.AIR.103\<newline>Title: t103\<newline>Description: d103\<newline>\<newline>''
              @ ''ID: R.AIR.104\<newline>Title: t104\<newline>Description: d104\<newline>\<newline>''
              @ ''ID: R.AIR.105\<newline>Title: t105\<newline>Description: d105\<newline>\<newline>''
              @ ''ID: R.AIR.106\<newline>Title: t106\<newline>Description: d106\<newline>\<newline>''
              @ ''ID: R.AIR.107\<newline>Title: t107\<newline>Description: d107\<newline>\<newline>''
              @ ''ID: R.AIR.108\<newline>Title: t108\<newline>Description: d108\<newline>\<newline>''
              @ ''ID: R.AIR.109\<newline>Title: t109\<newline>Description: d109\<newline>\<newline>''
              @ ''ID: R.AIR.110\<newline>Title: t110\<newline>Description: d110\<newline>\<newline>''
              @ ''ID: R.AIR.111\<newline>Title: t111\<newline>Description: d111\<newline>\<newline>''
              @ ''ID: R.AIR.112\<newline>Title: t112\<newline>Description: d112\<newline>\<newline>''
              @ ''ID: R.AIR.113\<newline>Title: t113\<newline>Description: d113\<newline>\<newline>''
              @ ''ID: R.AIR.114\<newline>Title: t114\<newline>Description: d114\<newline>\<newline>''
              @ ''ID: R.AIR.115\<newline>Title: t115\<newline>Description: d115\<newline>\<newline>''
              @ ''ID: R.AIR.116\<newline>Title: t116\<newline>Description: d116\<newline>\<newline>''
              @ ''ID: R.AIR.117\<newline>Title: t117\<newline>Description: d117\<newline>\<newline>''
              @ ''ID: R.AIR.118\<newline>Title: t118\<newline>Description: d118\<newline>\<newline>''
              @ ''ID: R.AIR.119\<newline>Title: t119\<newline>Description: d119\<newline>\<newline>''
              @ ''ID: R.AIR.120\<newline>Title: t120\<newline>Description: d120\<newline>\<newline>''
              @ ''ID: R.AIR.121\<newline>Title: t121\<newline>Description: d121\<newline>\<newline>''
              @ ''ID: R.AIR.122\<newline>Title: t122\<newline>Description: d122\<newline>\<newline>''
              @ ''ID: R.AIR.123\<newline>Title: t123\<newline>Description: d123\<newline>\<newline>''
              @ ''ID: R.AIR.124\<newline>Title: t124\<newline>Description: d124\<newline>\<newline>''
              @ ''ID: R.AIR.125\<newline>Title: t125\<newline>Description: d125\<newline>\<newline>''
              @ ''ID: R.AIR.126\<newline>Title: t126\<newline>Description: d126\<newline>\<newline>''
              @ ''ID: R.AIR.127\<newline>Title: t127\<newline>Description: d127\<newline>\<newline>''
              @ ''ID: R.AIR.128\<newline>Title: t128\<newline>Description: d128\<newline>\<newline>''
              @ ''ID: R.AIR.129\<newline>Title: t129\<newline>Description: d129\<newline>\<newline>''
              @ ''ID: R.AIR.130\<newline>Title: t130\<newline>Description: d130\<newline>''))]"
    by (simp add: scenario_format many_candidates_cut numbered_risk_def str_nat.simps
          digit_char_def)
  have "fst (rank_and_select ?good [] scenario_proposal many_candidates) =
       Inr \<lparr>RiskRankingResult.risks =
               [[(''risk_id'', ''R.AIR.130''), (''reasoning'', ''first'')],
                [(''risk_id'', ''R.AIR.101''), (''reasoning'', ''second'')],
                [(''risk_id'', ''R.AIR.102''), (''reasoning'', ''third'')]]\<rparr>"
    by (simp add: rank_and_select_unfold scenario_format stub_simps ranking_of_ids_def
          ranking_of_reply_def TOP_N_RISKS_def many_candidates_cut numbered_risk_def
          str_nat.simps digit_char_def)
  with request have d: "rank_and_select ?good [] scenario_proposal many_candidates =
       (Inr \<lparr>RiskRankingResult.risks =
               [[(''risk_id'', ''R.AIR.130''), (''reasoning'', ''first'')],
                [(''risk_id'', ''R.AIR.101''), (''reasoning'', ''second'')],
                [(''risk_id'', ''R.AIR.102''), (''reasoning'', ''third'')]]\<rparr>,
        [Generate (RiskRankingPrompt ''Description: Deploy a chatbot''
           (''ID: R.AIR.101\<newline>Title: t101\<newline>Description: d101\<newline>\<newline>''
              @ ''ID: R.AIR.102\<newline>Title: t102\<newline>Description: d102\<newline>\<newline>''
              @ ''ID: R.AIR.103\<newline>Title: t103\<newline>Description: d103\<newline>\<newline>''
              @ ''ID: R.AIR.104\<newline>Title: t104\<newline>Description: d104\<newline>\<newline>''
              @ ''ID: R.AIR.105\<newline>Title: t105\<newline>Description: d105\<newline>\<newline>''
              @ ''ID: R.AIR.106\<newline>Title: t106\<newline>Description: d106\<newline>\<newline>''
              @ ''ID: R.AIR.107\<newline>Title: t107\<newline>Description: d107\<newline>\<newline>''
              @ ''ID: R.AIR.108\<newline>Title: t108\<newline>Description: d108\<newline>\<newline>''
              @ ''ID: R.AIR.109\<newline>Title: t109\<newline>Description: d109\<newline>\<newline>''
              @ ''ID: R.AIR.110\<newline>Title: t110\<newline>Description: d110\<newline>\<newline>''
              @ ''ID: R.AIR.111\<newline>Title: t111\<newline>Description: d111\<newline>\<newline>''
              @ ''ID: R.AIR.112\<newline>Title: t112\<newline>Description: d112\<newline>\<newline>''
              @ ''ID: R.AIR.113\<newline>Title: t113\<newline>Description: d113\<newline>\<newline>''
              @ ''ID: R.AIR.114\<newline>Title: t114\<newline>Description: d114\<newline>\<newline>''
              @ ''ID: R.AIR.115\<newline>Title: t115\<newline>Description: d115\<newline>\<newline>''
              @ ''ID: R.AIR.116\<newline>Title: t116\<newline>Description: d116\<newline>\<newline>''
              @ ''ID: R.AIR.117\<newline>Title: t117\<newline>Description: d117\<newline>\<newline>''
              @ ''ID: R.AIR.118\<newline>Title: t118\<newline>Description: d118\<newline>\<newline>''
              @ ''ID: R.AIR.119\<newline>Title: t119\<newline>Description: d119\<newline>\<newline>''
              @ ''ID: R.AIR.120\<newline>Title: t120\<newline>Description: d120\<newline>\<newline>''
              @ ''ID: R.AIR.121\<newline>Title: t121\<newline>Description: d121\<newline>\<newline>''
              @ ''ID: R.AIR.122\<newline>Title: t122\<newline>Description: d122\<newline>\<newline>''
              @ ''ID: R.AIR.123\<newline>Title: t123\<newline>Description: d123\<newline>\<newline>''
              @ ''ID: R.AIR.124\<newline>Title: t124\<newline>Description: d124\<newline>\<newline>''
              @ ''ID: R.AIR.125\<newline>Title: t125\<newline>Description: d125\<newline>\<newline>''
              @ ''ID: R.AIR.126\<newline>Title: t126\<newline>Description: d126\<newline>\<newline>''
              @ ''ID: R.AIR.127\<newline>Title: t127\<newline>Description: d127\<newline>\<newline>''
              @ ''ID: R.AIR.128\<newline>Title: t128\<newline>Description: d128\<newline>\<newline>''
              @ ''ID: R.AIR.129\<newline>Title: t129\<newline>Description: d129\<newline>\<newline>''
              @ ''ID: R.AIR.130\<newline>Title: t130\<newline>Description: d130\<newline>''))])"
    by (simp add: prod_eq_iff)
  have e: "fst (rank_and_select ?bad [] scenario_proposal many_candidates) =
       Inl (Raised ValueError ''LLM selected invalid risk_id: R.AIR.131'')"
    by (simp add: rank_and_select_unfold scenario_format stub_simps ranking_of_ids_def
          ranking_of_reply_def TOP_N_RISKS_def MAX_CANDIDATE_RISKS_def many_candidates_eq
          numbered_risk_def str_nat.simps digit_char_def py_str_def)
  from a b c d e show ?thesis by (intro conjI)
qed

subsection \<open>C10: what is sent to the search endpoint\<close>

text \<open>
  C10. Every request \<open>search_risks\<close> makes is a GET of \<open>/api/search\<close> with the one parameter
  \<open>q\<close>, whose value is one of the first three keywords with every character removed that is
  no ASCII letter, no ASCII digit, no white space, no hyphen and no underscore, cut to its
  first 100 characters. A keyword is any list of code points, and the white space is that
  of Unicode.
\<close>

theorem search_requests_sanitized:
  assumes "HttpGet path name q \<in> set (drop (length tr) (snd (search_risks env tr kws)))"
  shows "path = ''/api/search'' \<and> name = ''q'' \<and> length q \<le> 100
       \<and> (\<exists>k \<in> set (take 3 kws).
             q = take 100
                   (filter (\<lambda>c. c \<in> ascii_letters \<union> ascii_digits \<union> whitespace_chars
                                    \<union> set (code_points ''-_'')) k))"
proof -
  from search_risks_trace[of env tr kws] obtain n where n: "n \<le> 3"
    "snd (search_risks env tr kws) =
       tr @ map (\<lambda>k. HttpGet ''/api/search'' ''q'' (sanitize_keyword k)) (take n kws)"
    by blast
  with assms obtain k where k: "k \<in> set (take n kws)"
    "HttpGet path name q = HttpGet ''/api/search'' ''q'' (sanitize_keyword k)"
    by auto
  from k(1) n(1) have "k \<in> set (take 3 kws)"
    by (metis set_take_subset_set_take subsetD)
  moreover from k(2) have "path = ''/api/search''" "name = ''q''" "q = sanitize_keyword k"
    by simp_all
  ultimately show ?thesis
    by (auto simp: sanitize_keyword_eq kept_chars_def)
qed

text \<open>
  The theorem at a keyword with a quote and a semicolon in it, an ideographic space
  (U+3000), an e with an acute accent (U+00E9), a snowman (U+2603) and an em space
  (U+2003): the two spaces stay, the other three and the quote and the semicolon go.
\<close>

theorem search_requests_sanitized_witness:
  "snd (search_risks (stub_env LlmNotJson LlmNotJson (HttpJson (JObj [])) (HttpJson JNull)) []
          [code_points ''bias'; DROP'' @ [0x3000, 0xE9, 0x2603, 0x2003]
             @ code_points ''TABLE risks--'']) =
     [HttpGet ''/api/search'' ''q''
        (code_points ''bias DROP'' @ [0x3000, 0x2003] @ code_points ''TABLE risks--'')]
   \<and> length (code_points ''bias DROP'' @ [0x3000, 0x2003] @ code_points ''TABLE risks--'') \<le> 100
   \<and> code_points ''bias DROP'' @ [0x3000, 0x2003] @ code_points ''TABLE risks--'' =
       take 100
         (filter (\<lambda>c. c \<in> ascii_letters \<union> ascii_digits \<union> whitespace_chars
                          \<union> set (code_points ''-_''))
            (code_points ''bias'; DROP'' @ [0x3000, 0xE9, 0x2603, 0x2003]
               @ code_points ''TABLE risks--''))"
proof -
  let ?env = "stub_env LlmNotJson LlmNotJson (HttpJson (JObj [])) (HttpJson JNull)"
  let ?k = "code_points ''bias'; DROP'' @ [0x3000, 0xE9, 0x2603, 0x2003]
              @ code_points ''TABLE risks--''"
  let ?q = "code_points ''bias DROP'' @ [0x3000, 0x2003] @ code_points ''TABLE risks--''"
  have s: "sanitize_keyword ?k = ?q"
    by (simp add: code_points_def sanitize_keyword_def keyword_char_def re_space_def)
  have run: "snd (search_risks ?env [] [?k]) = [HttpGet ''/api/search'' ''q'' ?q]"
    by (simp add: search_risks_def stub_simps dict_get_def Let_def code_points_def
          sanitize_keyword_def keyword_char_def re_space_def)
  then have "HttpGet ''/api/search'' ''q'' ?q
               \<in> set (drop (length []) (snd (search_risks ?env [] [?k])))"
    by simp
  from search_requests_sanitized[OF this]
  have len: "length ?q \<le> 100" by (elim conjE)
  have f: "?q =
       take 100
         (filter (\<lambda>c. c \<in> ascii_letters \<union> ascii_digits \<union> whitespace_chars
                          \<union> set (code_points ''-_'')) ?k)"
    using s by (simp only: sanitize_keyword_eq kept_chars_def)
  from run len f show ?thesis by (intro conjI)
qed

subsection \<open>C8: the outcome of keyword extraction\<close>

text \<open>
  C8, as amended. When the reply to the keyword request is a JSON object with both
  \<open>keywords\<close> and \<open>confidence\<close>, \<open>extract_keywords\<close> returns exactly when \<open>float\<close> converts the
  confidence, the keywords are a list that is not empty, and every keyword passes as a
  \<open>str\<close>; it then returns the keywords as validated (unchanged when they are strings) and
  the confidence as converted: a float as it came, whatever its range, and an \<open>int\<close> as the
  binary64 number nearest to it. It raises \<open>ValueError("No keywords extracted")\<close> when the
  confidence converts and the list is empty.
\<close>

theorem extract_keywords_outcome:
  assumes "format_proposal_text env proposal = Inr text"
    and "generate_content env tr (KeywordExtractionPrompt text) = LlmJson (JObj d)"
    and "map_of d ''keywords'' = Some kws"
    and "map_of d ''confidence'' = Some c"
  shows "((\<exists>r. fst (extract_keywords env tr proposal) = Inr r) \<longleftrightarrow>
            (\<exists>ks conf ss. kws = JArr ks \<and> ks \<noteq> [] \<and> py_float env c = Inr conf
                          \<and> str_list_field env ks = Inr ss))
       \<and> (\<forall>r. fst (extract_keywords env tr proposal) = Inr r \<longrightarrow>
              py_float env c = Inr (confidence r)
            \<and> (\<exists>ks ss. kws = JArr ks \<and> str_list_field env ks = Inr ss
                      \<and> keywords r = map code_points ss))
       \<and> (\<forall>ss f. kws = JArr (map JStr ss) \<longrightarrow> ss \<noteq> [] \<longrightarrow> c = JFloat f \<longrightarrow>
              fst (extract_keywords env tr proposal) = Inr \<lparr>keywords = map code_points ss, confidence = f\<rparr>)
       \<and> (\<forall>ss i. kws = JArr (map JStr ss) \<longrightarrow> ss \<noteq> [] \<longrightarrow> c = JInt i \<longrightarrow>
              \<bar>i\<bar> < 2 ^ 1024 - 2 ^ 970 \<longrightarrow>
              fst (extract_keywords env tr proposal) =
                Inr \<lparr>keywords = map code_points ss, confidence = Finite (round_binary64 i)\<rparr>)
       \<and> (\<forall>conf. py_float env c = Inr conf \<longrightarrow> kws = JArr [] \<longrightarrow>
              fst (extract_keywords env tr proposal) =
                Inl (Raised ValueError ''No keywords extracted''))"
proof -
  have run: "fst (extract_keywords env tr proposal) =
           and_then (py_float env c) (\<lambda>conf.
             case kws of
               JArr ks \<Rightarrow>
                 if ks = [] then Inl (Raised ValueError ''No keywords extracted'')
                 else and_then (str_list_field env ks) (\<lambda>ss.
                        Inr \<lparr>keywords = map code_points ss, confidence = conf\<rparr>)
             | _ \<Rightarrow> Inl (Raised ValueError ''No keywords extracted''))"
    by (simp add: extract_keywords_unfold[OF assms(1,2)] keywords_of_reply_fields[OF assms(3,4)])
  have a: "(\<exists>r. fst (extract_keywords env tr proposal) = Inr r) \<longleftrightarrow>
            (\<exists>ks conf ss. kws = JArr ks \<and> ks \<noteq> [] \<and> py_float env c = Inr conf
                          \<and> str_list_field env ks = Inr ss)"
    unfolding run by (cases kws) (auto simp: and_then_eq_Inr)
  have b: "\<forall>r. fst (extract_keywords env tr proposal) = Inr r \<longrightarrow>
              py_float env c = Inr (confidence r)
            \<and> (\<exists>ks ss. kws = JArr ks \<and> str_list_field env ks = Inr ss
                      \<and> keywords r = map code_points ss)"
    unfolding run by (cases kws) (auto simp: and_then_eq_Inr split: if_splits)
  have c: "\<forall>ss f. kws = JArr (map JStr ss) \<longrightarrow> ss \<noteq> [] \<longrightarrow> c = JFloat f \<longrightarrow>
              fst (extract_keywords env tr proposal) = Inr \<lparr>keywords = map code_points ss, confidence = f\<rparr>"
    unfolding run by (simp add: py_float_def str_list_field_strs)
  have d: "\<forall>conf. py_float env c = Inr conf \<longrightarrow> kws = JArr [] \<longrightarrow>
              fst (extract_keywords env tr proposal) =
                Inl (Raised ValueError ''No keywords extracted'')"
    unfolding run by simp
  have e: "\<forall>ss i. kws = JArr (map JStr ss) \<longrightarrow> ss \<noteq> [] \<longrightarrow> c = JInt i \<longrightarrow>
              \<bar>i\<bar> < 2 ^ 1024 - 2 ^ 970 \<longrightarrow>
              fst (extract_keywords env tr proposal) =
                Inr \<lparr>keywords = map code_points ss, confidence = Finite (round_binary64 i)\<rparr>"
    unfolding run by (simp add: py_float_def str_list_field_strs)
  from a b c e d show ?thesis by (intro conjI)
qed

text \<open>
  The theorem at a reply with two keywords and the confidence 1.5, and at one with the
  confidence \<open>2^53 + 1\<close>, an \<open>int\<close> that \<open>float\<close> rounds to \<open>2^53\<close>.
\<close>

theorem extract_keywords_outcome_witness:
  "fst (extract_keywords
          (stub_env (LlmJson (JObj [(''keywords'', JArr (map JStr [''bias'', ''privacy''])),
                                    (''confidence'', JFloat (Finite (3 / 2)))]))
             LlmNotJson (HttpJson JNull) (HttpJson JNull))
          [] scenario_proposal) =
     Inr \<lparr>keywords = [code_points ''bias'', code_points ''privacy''],
          confidence = Finite (3 / 2)\<rparr>
   \<and> fst (extract_keywords
          (stub_env (LlmJson (JObj [(''keywords'', JArr (map JStr [''bias'', ''privacy''])),
                                    (''confidence'', JInt 9007199254740993)]))
             LlmNotJson (HttpJson JNull) (HttpJson JNull))
          [] scenario_proposal) =
     Inr \<lparr>keywords = [code_points ''bias'', code_points ''privacy''],
          confidence = Finite 9007199254740992\<rparr>"
proof -
  let ?d = "[(''keywords'', JArr (map JStr [''bias'', ''privacy''])),
             (''confidence'', JFloat (Finite (3 / 2)))]"
  let ?env = "stub_env (LlmJson (JObj ?d)) LlmNotJson (HttpJson JNull) (HttpJson JNull)"
  let ?d' = "[(''keywords'', JArr (map JStr [''bias'', ''privacy''])),
              (''confidence'', JInt 9007199254740993)]"
  let ?env' = "stub_env (LlmJson (JObj ?d')) LlmNotJson (HttpJson JNull) (HttpJson JNull)"
  have h1: "format_proposal_text ?env scenario_proposal = Inr ''Description: Deploy a chatbot''"
    by (rule scenario_format)
  have h2: "generate_content ?env [] (KeywordExtractionPrompt ''Description: Deploy a chatbot'')
              = LlmJson (JObj ?d)"
    by (rule stub_generate_keywords)
  have h3: "map_of ?d ''keywords'' = Some (JArr (map JStr [''bias'', ''privacy'']))" by simp
  have h4: "map_of ?d ''confidence'' = Some (JFloat (Finite (3 / 2)))" by simp
  from extract_keywords_outcome[OF h1 h2 h3 h4]
  have "\<forall>ss f. JArr (map JStr [''bias'', ''privacy'']) = JArr (map JStr ss) \<longrightarrow> ss \<noteq> [] \<longrightarrow>
          JFloat (Finite (3 / 2)) = JFloat f \<longrightarrow>
          fst (extract_keywords ?env [] scenario_proposal) =
            Inr \<lparr>keywords = map code_points ss, confidence = f\<rparr>"
    by (elim conjE)
  from this[rule_format, of "[''bias'', ''privacy'']" "Finite (3 / 2)"]
  have first: "fst (extract_keywords ?env [] scenario_proposal) =
     Inr \<lparr>keywords = [code_points ''bias'', code_points ''privacy''],
          confidence = Finite (3 / 2)\<rparr>"
    by simp
  have h1': "format_proposal_text ?env' scenario_proposal = Inr ''Description: Deploy a chatbot''"
    by (rule scenario_format)
  have h2': "generate_content ?env' [] (KeywordExtractionPrompt ''Description: Deploy a chatbot'')
              = LlmJson (JObj ?d')"
    by (rule stub_generate_keywords)
  have h3': "map_of ?d' ''keywords'' = Some (JArr (map JStr [''bias'', ''privacy'']))" by simp
  have h4': "map_of ?d' ''confidence'' = Some (JInt 9007199254740993)" by simp
  from extract_keywords_outcome[OF h1' h2' h3' h4']
  have "\<forall>ss i. JArr (map JStr [''bias'', ''privacy'']) = JArr (map JStr ss) \<longrightarrow> ss \<noteq> [] \<longrightarrow>
          JInt 9007199254740993 = JInt i \<longrightarrow> \<bar>i\<bar> < 2 ^ 1024 - 2 ^ 970 \<longrightarrow>
          fst (extract_keywords ?env' [] scenario_proposal) =
            Inr \<lparr>keywords = map code_points ss, confidence = Finite (round_binary64 i)\<rparr>"
    by (elim conjE)
  from this[rule_format, of "[''bias'', ''privacy'']" 9007199254740993]
  have second: "fst (extract_keywords ?env' [] scenario_proposal) =
     Inr \<lparr>keywords = [code_points ''bias'', code_points ''privacy''],
          confidence = Finite 9007199254740992\<rparr>"
    by (simp add: round_binary64_tie)
  from first second show ?thesis by (intro conjI)
qed

text \<open>
  C8 as the specification words it fails: with a list of two keywords and the confidence
  \<open>null\<close>, \<open>float(None)\<close> raises \<open>TypeError\<close> although the keywords are a list that is not
  empty.
\<close>

theorem extract_keywords_confidence_counterexample:
  "fst (extract_keywords
          (stub_env (LlmJson (JObj [(''keywords'', JArr [JStr ''bias'', JStr ''privacy'']),
                                    (''confidence'', JNull)]))
             LlmNotJson (HttpJson JNull) (HttpJson JNull))
          [] scenario_proposal) =
     Inl (Fault TypeError OpFloat JNull)"
  by (simp add: extract_keywords_unfold[OF scenario_format stub_generate_keywords]
        keywords_of_reply_def py_float_def)

subsection \<open>C9: the proposal text\<close>

text \<open>
  C9, as amended. On a proposal whose data sources, when a list, hold only strings and whose
  additional fields, when true, are a dict, \<open>_format_proposal_text\<close> returns the blocks of
  the fields whose value is true, each under its label, in the order title, description,
  technical approach, data sources (a list joined by a comma and a space), deployment,
  data governance, model governance, security measures, then the additional fields in
  their order, joined by a blank line, with nothing for the other fields. On every other
  proposal it raises.
\<close>

theorem format_proposal_text_blocks:
  "(formatter_accepts proposal \<longrightarrow>
      format_proposal_text env proposal =
        Inr (join ''\<newline>\<newline>'' (proposal_blocks env proposal)))
   \<and> (\<not> formatter_accepts proposal \<longrightarrow> (\<exists>e. format_proposal_text env proposal = Inl e))"
proof (intro conjI impI)
  assume "formatter_accepts proposal"
  then have ds: "case dict_get proposal ''data_sources'' JNull of
                   JArr xs \<Rightarrow> list_all is_str xs | _ \<Rightarrow> True"
    and af: "case dict_get proposal ''additional_fields'' JNull of
               JObj items \<Rightarrow> True | v \<Rightarrow> \<not> py_truthy v"
    by (simp_all add: formatter_accepts_def)
  show "format_proposal_text env proposal =
          Inr (join ''\<newline>\<newline>'' (proposal_blocks env proposal))"
    by (simp add: format_proposal_text_steps add_data_sources_block[OF ds]
          add_additional_fields_blocks[OF af] proposal_blocks_def labelled_fields_def)
next
  assume no: "\<not> formatter_accepts proposal"
  show "\<exists>e. format_proposal_text env proposal = Inl e"
  proof (cases "case dict_get proposal ''data_sources'' JNull of
                  JArr xs \<Rightarrow> list_all is_str xs | _ \<Rightarrow> True")
    case False
    from add_data_sources_raises[OF this] show ?thesis
      by (subst format_proposal_text_steps) (metis and_then_Inl)
  next
    case True
    with no have af: "\<not> (case dict_get proposal ''additional_fields'' JNull of
                          JObj items \<Rightarrow> True | v \<Rightarrow> \<not> py_truthy v)"
      by (simp add: formatter_accepts_def)
    from add_additional_fields_raises[OF af] show ?thesis
      by (subst format_proposal_text_steps)
         (simp add: add_data_sources_block[OF True], metis and_then_Inl)
  qed
qed

text \<open>
  The theorem at a proposal with a title, a description, two data sources, an empty
  deployment and one additional field.
\<close>

theorem format_proposal_text_blocks_witness:
  "format_proposal_text scenario_env
     [(''proposal_title'', JStr ''Chatbot''),
      (''description'', JStr ''Deploy a chatbot''),
      (''technical_approach'', JNull),
      (''data_sources'', JArr [JStr ''tickets'', JStr ''docs'']),
      (''deployment'', JStr ''''),
      (''additional_fields'', JObj [(''budget'', JStr ''low'')])] =
   Inr ''Title: Chatbot\<newline>\<newline>Description: Deploy a chatbot\<newline>\<newline>Data Sources: tickets, docs\<newline>\<newline>budget: low''"
proof -
  let ?p = "[(''proposal_title'', JStr ''Chatbot''),
      (''description'', JStr ''Deploy a chatbot''),
      (''technical_approach'', JNull),
      (''data_sources'', JArr [JStr ''tickets'', JStr ''docs'']),
      (''deployment'', JStr ''''),
      (''additional_fields'', JObj [(''budget'', JStr ''low'')])]"
  have ok: "formatter_accepts ?p"
    by (simp add: formatter_accepts_def dict_get_def)
  have blocks: "proposal_blocks scenario_env ?p =
                  [''Title: Chatbot'', ''Description: Deploy a chatbot'',
                   ''Data Sources: tickets, docs'', ''budget: low'']"
    by (simp add: proposal_blocks_def labelled_fields_def field_block_def field_value_def
          additional_blocks_def dict_get_def py_str_def)
  from format_proposal_text_blocks[of ?p scenario_env] ok
  have "format_proposal_text scenario_env ?p =
          Inr (join ''\<newline>\<newline>'' (proposal_blocks scenario_env ?p))"
    by blast
  then show ?thesis by (simp add: blocks)
qed

text \<open>
  C9 as the specification words it fails twice: data sources that are a list of numbers
  make \<open>', '.join\<close> raise \<open>TypeError\<close>, and a description that is there and empty gives no
  block.
\<close>

theorem format_proposal_text_counterexample:
  "format_proposal_text scenario_env
     [(''description'', JStr ''Deploy a chatbot''), (''data_sources'', JArr [JInt 1, JInt 2])] =
     Inl (Fault TypeError OpJoin (JInt 1))
   \<and> format_proposal_text scenario_env
       [(''description'', JStr ''''), (''deployment'', JInt 0)] = Inr ''''"
  by (simp add: format_defs)

subsection \<open>C4: the fallback search and the ranking after it\<close>

text \<open>
  C4, as amended. In a run whose search on the extracted keywords returns no candidate,
  \<open>search_risks\<close> is called once more, on the fallback keywords \<open>data\<close>, \<open>model\<close>, \<open>security\<close>,
  \<open>privacy\<close>, \<open>governance\<close>, of which it searches the first three; the next request of the
  run is the ranking request, on what that search returned, or on no candidate when it
  raised. When the fallback returned no candidate or raised, the ranking stage is not
  skipped: \<open>rank_and_select\<close> makes its request on the empty candidate list, fails
  whatever the reply, and the run ends there in \<open>TOP_N_RISKS\<close> \<open>ERROR\<close> entries.
\<close>

theorem fallback_search_then_ranking:
  assumes "extract_keywords env tr proposal = (Inr k, t1)"
    and "search_risks env t1 (keywords k) = (Inr [], t2)"
    and "search_risks env t2 (map code_points [''data'', ''model'', ''security'', ''privacy'', ''governance''])
           = (fb, t3)"
  shows "\<exists>n text rest.
           n \<le> 3
         \<and> t3 = t2 @ map (HttpGet ''/api/search'' ''q'') (take n (map code_points [''data'', ''model'', ''security'']))
         \<and> format_proposal_text env proposal = Inr text
         \<and> snd (assess_proposal env tr proposal) =
             t3 @ Generate (RiskRankingPrompt text
                              (format_candidate_risks
                                 (take MAX_CANDIDATE_RISKS
                                    (case fb of Inl e \<Rightarrow> [] | Inr cs \<Rightarrow> cs)))) # rest
         \<and> ((case fb of Inl e \<Rightarrow> [] | Inr cs \<Rightarrow> cs) = [] \<longrightarrow>
              (\<exists>e. fst (rank_and_select env t3 proposal []) = Inl e
                  \<and> assess_proposal env tr proposal =
                      (\<lparr>RiskAssessmentResult.risks =
                          replicate TOP_N_RISKS (error_assessment env e)\<rparr>,
                       t3 @ [Generate (RiskRankingPrompt text [])])))"
proof -
  define cands where "cands = (case fb of Inl e \<Rightarrow> [] | Inr cs \<Rightarrow> cs)"
  from fallback_trace[OF assms(3)] obtain n where n: "n \<le> 3"
    "t3 = t2 @ map (HttpGet ''/api/search'' ''q'') (take n (map code_points [''data'', ''model'', ''security'']))"
    by blast
  from extract_Inr_format[OF assms(1)] obtain ptext where
    fm: "format_proposal_text env proposal = Inr ptext" by blast
  have cs: "(if ([]::Risk list) = [] then get_fallback_risks env t2 else ([], t2)) = (cands, t3)"
    by (simp add: get_fallback_risks_eq[OF assms(3)] cands_def)
  let ?g = "Generate (RiskRankingPrompt ptext
                        (format_candidate_risks (take MAX_CANDIDATE_RISKS cands)))"
  obtain rk where rk: "rank_and_select env t3 proposal cands = (rk, t3 @ [?g])"
    by (simp add: rank_and_select_unfold fm)
  from assess_trace_after_rank[OF assms(1,2) cs rk] obtain rest where
    rest: "snd (assess_proposal env tr proposal) = t3 @ ?g # rest" by auto
  have last: "\<exists>e. fst (rank_and_select env t3 proposal []) = Inl e
                \<and> assess_proposal env tr proposal =
                      (\<lparr>RiskAssessmentResult.risks =
                          replicate TOP_N_RISKS (error_assessment env e)\<rparr>,
                       t3 @ [Generate (RiskRankingPrompt ptext [])])"
    if "cands = []"
  proof -
    from rank_empty_fails[of env t3 proposal] obtain e where
      e: "fst (rank_and_select env t3 proposal []) = Inl e" by blast
    with rk that have "rank_and_select env t3 proposal cands =
                         (Inl e, t3 @ [Generate (RiskRankingPrompt ptext [])])"
      by (simp add: format_no_candidates)
    from body_rank_fail[OF assms(1,2) cs this]
    have "assess_proposal env tr proposal =
            (\<lparr>RiskAssessmentResult.risks = replicate TOP_N_RISKS (error_assessment env e)\<rparr>,
             t3 @ [Generate (RiskRankingPrompt ptext [])])"
      by (rule assess_proposal_Inl)
    with e show ?thesis by blast
  qed
  from n fm rest last show ?thesis unfolding cands_def by blast
qed

text \<open>The theorem at a run whose searches find nothing.\<close>

theorem fallback_search_then_ranking_witness:
  "\<exists>n ptext.
     n \<le> 3
   \<and> [Generate (KeywordExtractionPrompt ''Description: Deploy a chatbot''),
      HttpGet ''/api/search'' ''q'' (code_points ''data privacy''),
      HttpGet ''/api/search'' ''q'' (code_points ''model deployment''),
      HttpGet ''/api/search'' ''q'' (code_points ''third party''),
      HttpGet ''/api/search'' ''q'' (code_points ''data''),
      HttpGet ''/api/search'' ''q'' (code_points ''model''),
      HttpGet ''/api/search'' ''q'' (code_points ''security'')] =
     [Generate (KeywordExtractionPrompt ''Description: Deploy a chatbot''),
      HttpGet ''/api/search'' ''q'' (code_points ''data privacy''),
      HttpGet ''/api/search'' ''q'' (code_points ''model deployment''),
      HttpGet ''/api/search'' ''q'' (code_points ''third party'')]
     @ map (HttpGet ''/api/search'' ''q'') (take n (map code_points [''data'', ''model'', ''security'']))
   \<and> format_proposal_text
         (stub_env scenario_keywords LlmNotJson nothing_found scenario_relationships)
         scenario_proposal = Inr ptext
   \<and> (\<exists>e. assess_proposal
              (stub_env scenario_keywords LlmNotJson nothing_found scenario_relationships)
              [] scenario_proposal =
            (\<lparr>RiskAssessmentResult.risks =
                replicate TOP_N_RISKS
                  (error_assessment
                     (stub_env scenario_keywords LlmNotJson nothing_found scenario_relationships)
                     e)\<rparr>,
             [Generate (KeywordExtractionPrompt ''Description: Deploy a chatbot''),
              HttpGet ''/api/search'' ''q'' (code_points ''data privacy''),
              HttpGet ''/api/search'' ''q'' (code_points ''model deployment''),
              HttpGet ''/api/search'' ''q'' (code_points ''third party''),
              HttpGet ''/api/search'' ''q'' (code_points ''data''),
              HttpGet ''/api/search'' ''q'' (code_points ''model''),
              HttpGet ''/api/search'' ''q'' (code_points ''security'')]
             @ [Generate (RiskRankingPrompt ptext [])]))"
proof -
  let ?env = "stub_env scenario_keywords LlmNotJson nothing_found scenario_relationships"
  let ?k = "\<lparr>keywords = map code_points [''data privacy'', ''model deployment'', ''third party'', ''bias''],
            confidence = Finite (9 / 10)\<rparr>"
  let ?t1 = "[Generate (KeywordExtractionPrompt ''Description: Deploy a chatbot'')]"
  let ?t2 = "[Generate (KeywordExtractionPrompt ''Description: Deploy a chatbot''),
      HttpGet ''/api/search'' ''q'' (code_points ''data privacy''),
      HttpGet ''/api/search'' ''q'' (code_points ''model deployment''),
      HttpGet ''/api/search'' ''q'' (code_points ''third party'')]"
  let ?t3 = "[Generate (KeywordExtractionPrompt ''Description: Deploy a chatbot''),
      HttpGet ''/api/search'' ''q'' (code_points ''data privacy''),
      HttpGet ''/api/search'' ''q'' (code_points ''model deployment''),
      HttpGet ''/api/search'' ''q'' (code_points ''third party''),
      HttpGet ''/api/search'' ''q'' (code_points ''data''),
      HttpGet ''/api/search'' ''q'' (code_points ''model''),
      HttpGet ''/api/search'' ''q'' (code_points ''security'')]"
  have ek: "extract_keywords ?env [] scenario_proposal = (Inr ?k, ?t1)"
    by (rule scenario_extract)
  have sr: "search_risks ?env ?t1 (keywords ?k) = (Inr [], ?t2)"
    using nothing_found_search[of scenario_keywords LlmNotJson scenario_relationships ?t1]
    by simp
  have fb: "search_risks ?env ?t2 (map code_points [''data'', ''model'', ''security'', ''privacy'', ''governance''])
              = (Inr [], ?t3)"
    using nothing_found_fallback[of scenario_keywords LlmNotJson scenario_relationships ?t2]
    by simp
  from fallback_search_then_ranking[OF ek sr fb] obtain n ptext rest where h:
    "n \<le> 3"
    "?t3 = ?t2 @ map (HttpGet ''/api/search'' ''q'') (take n (map code_points [''data'', ''model'', ''security'']))"
    "format_proposal_text ?env scenario_proposal = Inr ptext"
    "(case (Inr [] :: exn + Risk list) of Inl e \<Rightarrow> [] | Inr cs \<Rightarrow> cs) = [] \<longrightarrow>
       (\<exists>e. fst (rank_and_select ?env ?t3 scenario_proposal []) = Inl e
           \<and> assess_proposal ?env [] scenario_proposal =
                (\<lparr>RiskAssessmentResult.risks = replicate TOP_N_RISKS (error_assessment ?env e)\<rparr>,
                 ?t3 @ [Generate (RiskRankingPrompt ptext [])]))"
    by blast
  from h(4) obtain e where
    "assess_proposal ?env [] scenario_proposal =
       (\<lparr>RiskAssessmentResult.risks = replicate TOP_N_RISKS (error_assessment ?env e)\<rparr>,
        ?t3 @ [Generate (RiskRankingPrompt ptext [])])"
    by auto
  with h(1-3) show ?thesis by blast
qed

text \<open>
  C4 as the specification words it fails: in a run whose searches find nothing, the last
  request is a ranking request on the empty candidate list, and the result carries the
  error of the ranking stage.
\<close>

theorem ranking_not_skipped_counterexample:
  "assess_proposal
     (stub_env scenario_keywords scenario_ranking nothing_found scenario_relationships)
     [] scenario_proposal =
   (\<lparr>RiskAssessmentResult.risks =
       replicate TOP_N_RISKS
         \<lparr>risk_id = ''ERROR'',
          risk_title = ''Assessment Error'',
          risk_description = ''An error occurred during risk assessment'',
          explanation = ''Error: LLM selected invalid risk_id: R.AIR.003'',
          controls = []\<rparr>\<rparr>,
    [Generate (KeywordExtractionPrompt ''Description: Deploy a chatbot''),
     HttpGet ''/api/search'' ''q'' (code_points ''data privacy''),
     HttpGet ''/api/search'' ''q'' (code_points ''model deployment''),
     HttpGet ''/api/search'' ''q'' (code_points ''third party''),
     HttpGet ''/api/search'' ''q'' (code_points ''data''),
     HttpGet ''/api/search'' ''q'' (code_points ''model''),
     HttpGet ''/api/search'' ''q'' (code_points ''security''),
     Generate (RiskRankingPrompt ''Description: Deploy a chatbot'' [])])"
proof -
  let ?env = "stub_env scenario_keywords scenario_ranking nothing_found scenario_relationships"
  have "assess_proposal_body ?env [] scenario_proposal =
          (Inl (Raised ValueError ''LLM selected invalid risk_id: R.AIR.003''),
           [Generate (KeywordExtractionPrompt ''Description: Deploy a chatbot''),
            HttpGet ''/api/search'' ''q'' (code_points ''data privacy''),
            HttpGet ''/api/search'' ''q'' (code_points ''model deployment''),
            HttpGet ''/api/search'' ''q'' (code_points ''third party''),
            HttpGet ''/api/search'' ''q'' (code_points ''data''),
            HttpGet ''/api/search'' ''q'' (code_points ''model''),
            HttpGet ''/api/search'' ''q'' (code_points ''security''),
            Generate (RiskRankingPrompt ''Description: Deploy a chatbot'' [])])"
    by (simp add: assess_proposal_body_def scenario_extract nothing_found_search
          get_fallback_risks_def nothing_found_fallback nothing_found_rank)
  from assess_proposal_Inl[OF this] show ?thesis
    by (simp add: error_assessment_def str_exn_def)
qed

end
